theory Spec2Isabelle
  imports Complex_Main
begin

section \<open>JavaScript values and small string helpers\<close>

text \<open>
  The program is JavaScript. Numbers are modelled as rationals (the arithmetic of the
  properties proved below is exact there), \<open>Date\<close> values as integer milliseconds since the
  epoch, strings as byte strings. \<open>NaN\<close> is modelled as \<open>None\<close> where the code can
  produce it.
\<close>

datatype jsval = JUndefined | JNull | JBool bool | JNum rat | JStr string

text \<open>JavaScript truthiness of a primitive value (\<open>!!v\<close>).\<close>

fun truthy :: "jsval \<Rightarrow> bool" where
  "truthy JUndefined = False"
| "truthy JNull = False"
| "truthy (JBool b) = b"
| "truthy (JNum n) = (n \<noteq> 0)"
| "truthy (JStr s) = (s \<noteq> [])"

text \<open>\<open>a || b\<close> on values.\<close>

definition js_or :: "jsval \<Rightarrow> jsval \<Rightarrow> jsval" where
  "js_or a b = (if truthy a then a else b)"

text \<open>\<open>s.startsWith(p)\<close> and \<open>s.includes(p)\<close>.\<close>

definition startsWith :: "string \<Rightarrow> string \<Rightarrow> bool" where
  "startsWith s p = (take (length p) s = p)"

fun includes_str :: "string \<Rightarrow> string \<Rightarrow> bool" where
  "includes_str [] p = (p = [])"
| "includes_str (c # cs) p = (startsWith (c # cs) p \<or> includes_str cs p)"

text \<open>
  The messages of the \<open>TypeError\<close> that a property read on \<open>undefined\<close> or on
  \<open>null\<close> throws, and of the one that a call of something that is no function throws.
\<close>

definition cannot_read :: "string \<Rightarrow> string" where
  \<comment> \<open>the message of the \<open>TypeError\<close> for a property read on \<open>undefined\<close>\<close>
  "cannot_read field = ''Cannot read properties of undefined (reading '' @ [CHR 0x27] @ field @ [CHR 0x27] @ '')''"

definition cannot_read_null :: "string \<Rightarrow> string" where
  "cannot_read_null field = ''Cannot read properties of null (reading '' @ [CHR 0x27] @ field @ [CHR 0x27] @ '')''"

definition not_a_function :: "string \<Rightarrow> string" where
  "not_a_function callee = callee @ '' is not a function''"

text \<open>Decimal rendering of a non-negative integer, as \<open>String(n)\<close> gives it.\<close>

definition digit_char :: "nat \<Rightarrow> char" where
  "digit_char d = ''0123456789'' ! d"

fun show_nat :: "nat \<Rightarrow> string" where
  "show_nat n = (if n < 10 then [digit_char n] else show_nat (n div 10) @ [digit_char (n mod 10)])"

declare show_nat.simps [simp del]

definition show_int :: "int \<Rightarrow> string" where
  "show_int i = (if i < 0 then CHR ''-'' # show_nat (nat (- i)) else show_nat (nat i))"

section \<open>Job tracker: the work item registry and status polling\<close>

text \<open>
  \<open>routes/bim-llm.js\<close> keeps \<open>workitemQueue\<close>, a \<open>Map\<close> from work item id to a
  record. The record below has the fields that \<open>createFamilyWithAPS\<close> stores; the
  submitted parameters are kept abstract (\<open>'p\<close>). \<open>lastChecked\<close> is absent until
  the first poll.
\<close>

record 'p workitem =
  wi_id :: string
  wi_status :: string
  createdAt :: int
  params :: 'p
  apsParams :: 'p
  wi_progress :: rat
  wi_message :: string
  estimatedTime :: string
  isRealAPS :: bool
  bucketKey :: string
  outputObjectKey :: string
  lastChecked :: "int option"

type_synonym 'p workitemQueue = "string \<rightharpoonup> 'p workitem"

text \<open>What the status route answers for a simulated job.\<close>

record status_response =
  rs_success :: bool
  rs_workitemId :: string
  rs_status :: string
  rs_progress :: rat
  rs_message :: string
  rs_estimatedTimeRemaining :: string
  rs_timestamp :: int
  rs_isSimulated :: bool

datatype http_reply = Json status_response | NotFound string

text \<open>
  The body of the \<open>aps_\<close> branch of \<open>GET /status/:workitemId\<close>: status, progress,
  message and remaining time as a function of the elapsed seconds.
\<close>

definition totalSimulatedTime :: rat where
  "totalSimulatedTime = 15"

definition remaining_seconds :: "rat \<Rightarrow> string" where
  "remaining_seconds elapsedTime =
     show_int (max 1 (\<lceil>totalSimulatedTime - elapsedTime\<rceil>)) @ '' seconds''"

definition simulated_status :: "rat \<Rightarrow> string \<times> rat \<times> string \<times> string" where
  "simulated_status elapsedTime =
     (if elapsedTime < 3 then
        (''submitted'',
         min 25 ((elapsedTime / totalSimulatedTime) * 100),
         ''Workitem submitted to APS Design Automation'',
         remaining_seconds elapsedTime)
      else if elapsedTime < 8 then
        (''inprogress'',
         min 75 (25 + ((elapsedTime - 3) / (totalSimulatedTime - 3)) * 50),
         ''Creating Revit family file...'',
         remaining_seconds elapsedTime)
      else if elapsedTime < totalSimulatedTime then
        (''inprogress'',
         min 95 (75 + ((elapsedTime - 8) / (totalSimulatedTime - 8)) * 20),
         ''Finalizing family file...'',
         remaining_seconds elapsedTime)
      else
        (''success'', 100, ''Family creation completed successfully'', ''0 seconds''))"

text \<open>
  The \<open>aps_\<close> branch itself. The route reads the clock three times: for the elapsed
  time (\<open>now\<close>), for \<open>lastChecked\<close> (\<open>now_checked\<close>) and for the reply's timestamp
  (\<open>now_reply\<close>). It mutates the stored record in place; the model returns the updated
  registry. Other routes attach fields of their own to a stored record (\<open>sessionId\<close>,
  \<open>submittedAt\<close>, \<open>viewerUrn\<close>, ...), so the poll is defined on a record with any
  extension.
\<close>

definition poll_simulated ::
  "int \<Rightarrow> int \<Rightarrow> int \<Rightarrow> string \<Rightarrow> (string \<rightharpoonup> ('p, 'z) workitem_scheme)
     \<Rightarrow> http_reply \<times> (string \<rightharpoonup> ('p, 'z) workitem_scheme)" where
  "poll_simulated now now_checked now_reply workitemId queue =
     (case queue workitemId of
        None \<Rightarrow> (NotFound ''Workitem not found'', queue)
      | Some workitemData \<Rightarrow>
          (let elapsedTime = of_int (now - createdAt workitemData) / 1000;
               (status, progress, message, estimatedTimeRemaining) = simulated_status elapsedTime;
               workitemData' = workitemData
                 \<lparr> wi_status := status, wi_progress := progress,
                   wi_message := message, lastChecked := Some now_checked \<rparr>
           in (Json \<lparr> rs_success = True, rs_workitemId = workitemId, rs_status = status,
                       rs_progress = progress, rs_message = message,
                       rs_estimatedTimeRemaining = estimatedTimeRemaining,
                       rs_timestamp = now_reply, rs_isSimulated = True \<rparr>,
               queue(workitemId \<mapsto> workitemData'))))"

text \<open>
  \<open>GET /v1/status/:workitemId\<close> has the same branch for \<open>aps_\<close> ids. It looks the
  record up before it tests the prefix, reads the clock twice, and its reply has
  neither timestamp nor \<open>isSimulated\<close>.
\<close>

record v1_status_response =
  v1_success :: bool
  v1_status :: string
  v1_progress :: rat
  v1_message :: string
  v1_estimatedTimeRemaining :: string
  v1_workitemId :: string

datatype v1_reply = V1Json v1_status_response | V1NotFound string

definition poll_simulated_v1 ::
  "int \<Rightarrow> int \<Rightarrow> string \<Rightarrow> (string \<rightharpoonup> ('p, 'z) workitem_scheme)
     \<Rightarrow> v1_reply \<times> (string \<rightharpoonup> ('p, 'z) workitem_scheme)" where
  "poll_simulated_v1 now now_checked workitemId queue =
     (case queue workitemId of
        None \<Rightarrow> (V1NotFound ''Workitem not found'', queue)
      | Some workitemData \<Rightarrow>
          (let elapsedTime = of_int (now - createdAt workitemData) / 1000;
               (status, progress, message, estimatedTimeRemaining) = simulated_status elapsedTime;
               workitemData' = workitemData
                 \<lparr> wi_status := status, wi_progress := progress,
                   wi_message := message, lastChecked := Some now_checked \<rparr>
           in (V1Json \<lparr> v1_success = True, v1_status = status, v1_progress = progress,
                         v1_message = message,
                         v1_estimatedTimeRemaining = estimatedTimeRemaining,
                         v1_workitemId = workitemId \<rparr>,
               queue(workitemId \<mapsto> workitemData'))))"

text \<open>
  The older \<open>workitem_\<close> branch of the same route answers from the time encoded in
  the id. \<open>elapsedMinutes\<close> is \<open>NaN\<close> when the id holds no number (\<open>None\<close> here);
  every comparison with \<open>NaN\<close> is false, so the initial values stay.
\<close>

definition js_gt :: "rat option \<Rightarrow> rat \<Rightarrow> bool" where
  "js_gt a b = (case a of None \<Rightarrow> False | Some x \<Rightarrow> x > b)"

definition legacy_simulated_status :: "rat option \<Rightarrow> string \<times> rat \<times> string \<times> string" where
  "legacy_simulated_status elapsedMinutes =
     (let r0 = (''pending'', 25, ''Family creation queued...'', ''3-4 minutes'');
          r1 = (if js_gt elapsedMinutes (1/2)
                then (''inprogress'', 50, ''Family is being created in the cloud...'', ''2-3 minutes'')
                else r0);
          r2 = (if js_gt elapsedMinutes (3/2)
                then (''inprogress'', 75, ''Finalizing family parameters...'', ''1-2 minutes'')
                else r1);
          r3 = (if js_gt elapsedMinutes 3
                then (''success'', 100, ''Family creation completed!'', ''0 minutes'')
                else r2)
      in r3)"

text \<open>
  The helpers that turn a backend status into a percentage: \<open>getProgressFromStatus\<close>
  and its twin \<open>getProgressFromAPSStatus\<close>. Both are a \<open>switch\<close> on the status
  string with a \<open>default\<close> case, and neither takes the elapsed time.
\<close>

definition getProgressFromStatus :: "string \<Rightarrow> rat" where
  "getProgressFromStatus status =
     (if status = ''pending'' then 10
      else if status = ''inprogress'' then 50
      else if status = ''success'' then 100
      else if status = ''failed'' then 0
      else if status = ''cancelled'' then 0
      else 25)"

definition getProgressFromAPSStatus :: "string \<Rightarrow> rat" where
  "getProgressFromAPSStatus status =
     (if status = ''pending'' then 10
      else if status = ''inprogress'' then 50
      else if status = ''success'' then 100
      else if status = ''failed'' then 0
      else if status = ''cancelled'' then 0
      else 25)"

text \<open>
  The progress rule as the specification words it (status and elapsed seconds), kept
  apart from the code's functions to compare the two. The specification gives it for
  \<open>submitted\<close>, \<open>inprogress\<close> and \<open>success\<close> only.
\<close>

definition specified_progress :: "string \<Rightarrow> rat \<Rightarrow> rat option" where
  "specified_progress status elapsedSeconds =
     (if status = ''submitted'' then Some (min 20 (5 + (elapsedSeconds / 30) * 15))
      else if status = ''inprogress'' then Some (20 + min 70 ((elapsedSeconds / 120) * 70))
      else if status = ''success'' then Some 100
      else None)"

subsection \<open>Submission: \<open>createFamilyWithAPS\<close> with a local target\<close>

text \<open>
  For \<open>targetFolder === 'local'\<close> the function authenticates and calls
  \<open>createWindowFamilyLocal\<close>. Both are calls to the execution backend; what they did
  is a parameter of the model: the call rejected, or resolved with a response
  (possibly \<open>null\<close>).

  A promise can reject with any value, not only with an \<open>Error\<close>:
  \<open>createWindowFamilyLocal\<close> itself rejects with \<open>{statusCode, statusMessage}\<close>, which
  has no \<open>message\<close>, when the backend answers with a status of 400 or more. So a
  rejected value is \<open>undefined\<close>, \<open>null\<close>, or a value of which the \<open>catch\<close> reads
  two properties: \<open>statusCode\<close> (\<open>Some n\<close> when it is the number \<open>n\<close>) and
  \<open>message\<close>, a primitive value that is \<open>JUndefined\<close> when the property is absent.
\<close>

record js_error =
  err_statusCode :: "int option"
  err_message :: jsval

datatype rejected = RejectedUndefined | RejectedNull | RejectedValue js_error

record aps_response =
  res_statusCode :: int
  body_id :: string
  body_status :: string
  body_bucketKey :: string
  body_outputObjectKey :: string

datatype submission = Rejects rejected | Resolves "aps_response option"

text \<open>\<open>{success: true, workItemId, workItemStatus}\<close> or \<open>{success: false, error}\<close>.\<close>

datatype create_result = Created string string | Failed string

text \<open>
  The test of the inner \<open>catch\<close>:
  \<open>error.statusCode === 400 || error.message.includes('400')\<close>. It has a value when
  the status code is 400 (the right operand is not evaluated then) or the message is a
  string. Otherwise evaluating it throws a \<open>TypeError\<close>, whose message is the \<open>Inl\<close>
  result: \<open>error.statusCode\<close> cannot be read of \<open>undefined\<close> or \<open>null\<close>, and
  \<open>error.message.includes\<close> cannot be read or is no function when the message is no
  string.
\<close>

definition is_configuration_error :: "rejected \<Rightarrow> string + bool" where
  "is_configuration_error error =
     (case error of
        RejectedUndefined \<Rightarrow> Inl (cannot_read ''statusCode'')
      | RejectedNull \<Rightarrow> Inl (cannot_read_null ''statusCode'')
      | RejectedValue e \<Rightarrow>
          (if err_statusCode e = Some 400 then Inr True
           else (case err_message e of
                   JStr m \<Rightarrow> Inr (includes_str m ''400'')
                 | JUndefined \<Rightarrow> Inl (cannot_read ''includes'')
                 | JNull \<Rightarrow> Inl (cannot_read_null ''includes'')
                 | _ \<Rightarrow> Inl (not_a_function ''error.message.includes''))))"

definition not_configured_message :: string where
  "not_configured_message =
     ''AppBundle and Activity not configured. Please go to the main page and click '' @
     [CHR 0x22] @ ''Configure'' @ [CHR 0x22] @ '' to set up the AppBundle and Activity first.''"

text \<open>
  The id of a simulated job:
  \<open>`aps_${Date.now()}_${Math.random().toString(36).substr(2, 9)}`\<close>; the random suffix
  is a parameter.
\<close>

definition simulated_id :: "int \<Rightarrow> string \<Rightarrow> string" where
  "simulated_id now rnd = ''aps_'' @ show_int now @ ''_'' @ rnd"

definition simulated_workitem :: "string \<Rightarrow> int \<Rightarrow> 'p \<Rightarrow> 'p workitem" where
  "simulated_workitem workitemId created ps =
     \<lparr> wi_id = workitemId, wi_status = ''submitted'', createdAt = created,
       params = ps, apsParams = ps, wi_progress = 0,
       wi_message = ''Workitem submitted to APS Design Automation'',
       estimatedTime = ''15 seconds'', isRealAPS = True,
       bucketKey = ''temp-bucket-'' @ workitemId,
       outputObjectKey = ''temp-object-'' @ workitemId,
       lastChecked = None \<rparr>"

definition real_workitem :: "aps_response \<Rightarrow> int \<Rightarrow> 'p \<Rightarrow> 'p workitem" where
  "real_workitem r created ps =
     \<lparr> wi_id = body_id r, wi_status = ''submitted'', createdAt = created,
       params = ps, apsParams = ps, wi_progress = 0,
       wi_message = ''Workitem submitted to APS Design Automation'',
       estimatedTime = ''2-3 minutes'', isRealAPS = True,
       bucketKey = body_bucketKey r,
       outputObjectKey = body_outputObjectKey r,
       lastChecked = None \<rparr>"

text \<open>
  The inner \<open>try\<close>: a rejected call, a \<open>null\<close> response and a response whose status
  code is not 200 all end in the inner \<open>catch\<close> (the last two through
  \<open>throw new Error('Failed to create Revit family file')\<close>).
\<close>

definition failed_to_create :: rejected where
  \<comment> \<open>\<open>new Error('Failed to create Revit family file')\<close>\<close>
  "failed_to_create =
     RejectedValue \<lparr> err_statusCode = None,
                     err_message = JStr ''Failed to create Revit family file'' \<rparr>"

definition submit_attempt :: "submission \<Rightarrow> rejected + aps_response" where
  "submit_attempt outcome =
     (case outcome of
        Rejects error \<Rightarrow> Inl error
      | Resolves None \<Rightarrow> Inl failed_to_create
      | Resolves (Some familyCreatedRes) \<Rightarrow>
          (if res_statusCode familyCreatedRes \<noteq> 200 then Inl failed_to_create
           else Inr familyCreatedRes))"

text \<open>
  The whole local branch. The inner \<open>catch\<close> rethrows a configuration error; a
  \<open>TypeError\<close> thrown by its test leaves it in the same way. The function's outer
  \<open>catch\<close> turns either into \<open>{success: false, error: error.message}\<close>, and nothing
  is stored. An error for which the test is false stores a simulated job and reports
  success.
\<close>

definition createFamilyWithAPS_local ::
  "'p \<Rightarrow> submission \<Rightarrow> int \<Rightarrow> int \<Rightarrow> string \<Rightarrow> 'p workitemQueue
     \<Rightarrow> create_result \<times> 'p workitemQueue" where
  "createFamilyWithAPS_local ps outcome now created rnd queue =
     (case submit_attempt outcome of
        Inr familyCreatedRes \<Rightarrow>
          (Created (body_id familyCreatedRes) (body_status familyCreatedRes),
           queue(body_id familyCreatedRes \<mapsto> real_workitem familyCreatedRes created ps))
      | Inl error \<Rightarrow>
          (case is_configuration_error error of
             Inl type_error \<Rightarrow> (Failed type_error, queue)
           | Inr True \<Rightarrow> (Failed not_configured_message, queue)
           | Inr False \<Rightarrow>
               (let workitemId = simulated_id now rnd
                in (Created workitemId ''submitted'',
                    queue(workitemId \<mapsto> simulated_workitem workitemId created ps)))))"

subsection \<open>Example inputs\<close>

definition example_job :: "unit workitem" where
  "example_job = simulated_workitem ''aps_1700000000000_k3j5x0q1z'' 1700000000000 ()"

definition example_queue :: "unit workitemQueue" where
  "example_queue = [''aps_1700000000000_k3j5x0q1z'' \<mapsto> example_job]"

definition bad_request :: js_error where
  "bad_request = \<lparr> err_statusCode = Some 400, err_message = JStr ''Bad Request'' \<rparr>"

definition connection_reset :: js_error where
  "connection_reset = \<lparr> err_statusCode = None, err_message = JStr ''read ECONNRESET'' \<rparr>"

definition unauthorized :: js_error where
  \<comment> \<open>\<open>{statusCode: 401, statusMessage: 'Unauthorized'}\<close>, as \<open>createWindowFamilyLocal\<close> rejects\<close>
  "unauthorized = \<lparr> err_statusCode = Some 401, err_message = JUndefined \<rparr>"

section \<open>Strings and regular expressions\<close>

text \<open>
  \<open>String.prototype.toLowerCase\<close>, \<open>trim\<close> and the character classes of the
  regular expressions, on ASCII text.
\<close>

definition toLowerCase_char :: "char \<Rightarrow> char" where
  "toLowerCase_char c =
     (case map_of (zip ''ABCDEFGHIJKLMNOPQRSTUVWXYZ'' ''abcdefghijklmnopqrstuvwxyz'') c of
        Some l \<Rightarrow> l | None \<Rightarrow> c)"

definition toLowerCase :: "string \<Rightarrow> string" where
  "toLowerCase s = map toLowerCase_char s"

definition is_digit :: "char \<Rightarrow> bool" where
  "is_digit c = (c \<in> set ''0123456789'')"

definition is_alpha :: "char \<Rightarrow> bool" where
  "is_alpha c = (c \<in> set ''abcdefghijklmnopqrstuvwxyzABCDEFGHIJKLMNOPQRSTUVWXYZ'')"

definition is_word :: "char \<Rightarrow> bool" where
  "is_word c = (is_alpha c \<or> is_digit c \<or> c = CHR ''_'')"

definition is_space :: "char \<Rightarrow> bool" where
  "is_space c = (c \<in> set [CHR '' '', CHR 0x09, CHR 0x0A, CHR 0x0B, CHR 0x0C, CHR 0x0D])"

definition is_line_terminator :: "char \<Rightarrow> bool" where
  "is_line_terminator c = (c = CHR 0x0A \<or> c = CHR 0x0D)"

definition trim :: "string \<Rightarrow> string" where
  "trim s = rev (dropWhile is_space (rev (dropWhile is_space s)))"

text \<open>
  The fragment of JavaScript regular expressions that the program uses: literals,
  the classes \<open>\d\<close>, \<open>\w\<close>, \<open>\s\<close>, \<open>.\<close>, \<open>[\s\S]\<close> and bracket sets, one
  character of a class, greedy \<open>*\<close> and \<open>+\<close> on a class, sequence, alternation, \<open>?\<close> and \<open>{0,n}\<close> on a group,
  and capture groups.
\<close>

datatype cls = Digit | WordCh | SpaceCh | Alpha | Dot | AnyCh | OneOf string | Union cls cls

fun in_cls :: "cls \<Rightarrow> char \<Rightarrow> bool" where
  "in_cls Digit c = is_digit c"
| "in_cls WordCh c = is_word c"
| "in_cls SpaceCh c = is_space c"
| "in_cls Alpha c = is_alpha c"
| "in_cls Dot c = (\<not> is_line_terminator c)"
| "in_cls AnyCh c = True"
| "in_cls (OneOf cs) c = (c \<in> set cs)"
| "in_cls (Union a b) c = (in_cls a c \<or> in_cls b c)"

datatype regex =
    Lit string
  | One cls
  | Star cls
  | Plus cls
  | Seq regex regex
  | Alt regex regex
  | Opt regex
  | UpTo nat regex
  | Cap nat regex

type_synonym captures = "(nat \<times> string) list"

text \<open>
  A backtracking matcher as a list of successes: \<open>rmatch r (s, c)\<close> lists, in the
  order in which the backtracking engine tries them, the remaining input and the
  captures of every way \<open>r\<close> matches a prefix of \<open>s\<close>. The engine's answer is the head
  of the list. Greedy repetition tries the longest run first.
\<close>

definition runs :: "nat \<Rightarrow> cls \<Rightarrow> string \<times> captures \<Rightarrow> (string \<times> captures) list" where
  "runs least k st =
     map (\<lambda>n. (drop n (fst st), snd st))
         (rev [least ..< Suc (length (takeWhile (in_cls k) (fst st)))])"

fun upto_times ::
  "nat \<Rightarrow> (string \<times> captures \<Rightarrow> (string \<times> captures) list) \<Rightarrow> string \<times> captures
     \<Rightarrow> (string \<times> captures) list" where
  "upto_times 0 f st = [st]"
| "upto_times (Suc n) f st = concat (map (upto_times n f) (f st)) @ [st]"

primrec rmatch :: "regex \<Rightarrow> string \<times> captures \<Rightarrow> (string \<times> captures) list" where
  "rmatch (Lit l) = (\<lambda>st. if startsWith (fst st) l then [(drop (length l) (fst st), snd st)] else [])"
| "rmatch (One k) =
     (\<lambda>st. case fst st of [] \<Rightarrow> [] | x # xs \<Rightarrow> if in_cls k x then [(xs, snd st)] else [])"
| "rmatch (Star k) = runs 0 k"
| "rmatch (Plus k) = runs 1 k"
| "rmatch (Seq a b) = (\<lambda>st. concat (map (rmatch b) (rmatch a st)))"
| "rmatch (Alt a b) = (\<lambda>st. rmatch a st @ rmatch b st)"
| "rmatch (Opt a) = (\<lambda>st. rmatch a st @ [st])"
| "rmatch (UpTo n a) = upto_times n (rmatch a)"
| "rmatch (Cap i a) =
     (\<lambda>st. map (\<lambda>st'. (fst st', (i, take (length (fst st) - length (fst st')) (fst st)) # snd st'))
              (rmatch a st))"

text \<open>
  \<open>s.match(r)\<close> without the \<open>g\<close> flag: the first match at the leftmost position where
  there is one, as the matched text and the captures; \<open>None\<close> for \<open>null\<close>.
\<close>

fun js_match :: "regex \<Rightarrow> string \<Rightarrow> (string \<times> captures) option" where
  "js_match r [] =
     (case rmatch r ([], []) of [] \<Rightarrow> None | st # _ \<Rightarrow> Some ([], snd st))"
| "js_match r (x # xs) =
     (case rmatch r (x # xs, []) of
        [] \<Rightarrow> js_match r xs
      | st # _ \<Rightarrow> Some (take (length (x # xs) - length (fst st)) (x # xs), snd st))"

text \<open>\<open>/^r$/.test(s)\<close>: some way of matching \<open>r\<close> at the start uses up the whole input.\<close>

definition test_anchored :: "regex \<Rightarrow> string \<Rightarrow> bool" where
  "test_anchored r s = (\<exists>st \<in> set (rmatch r (s, [])). fst st = [])"

text \<open>
  \<open>m[1] || m[2] || ...\<close>: the first group of the list that took part in the match with
  a non-empty text; \<open>None\<close> for \<open>undefined\<close>.
\<close>

fun first_group :: "captures \<Rightarrow> nat list \<Rightarrow> string option" where
  "first_group c [] = None"
| "first_group c (i # is) =
     (case map_of c i of
        Some g \<Rightarrow> (if g \<noteq> [] then Some g else first_group c is)
      | None \<Rightarrow> first_group c is)"

text \<open>
  \<open>parseInt\<close> and \<open>parseFloat\<close> on the text of a group \<open>(\d+)\<close> or
  \<open>(\d+(?:\.\d+)?)\<close>: the value of the leading decimal digits, and of the fraction
  after a point. On a text without a leading digit both give \<open>NaN\<close> (\<open>None\<close>).
\<close>

definition digit_value :: "char \<Rightarrow> nat" where
  "digit_value c = (case map_of (zip ''0123456789'' [0 ..< 10]) c of Some d \<Rightarrow> d | None \<Rightarrow> 0)"

definition digits_value :: "string \<Rightarrow> nat" where
  "digits_value ds = foldl (\<lambda>acc c. 10 * acc + digit_value c) 0 ds"

definition parseInt :: "string \<Rightarrow> rat option" where
  "parseInt s =
     (let ds = takeWhile is_digit s
      in if ds = [] then None else Some (of_nat (digits_value ds)))"

definition parseFloat :: "string \<Rightarrow> rat option" where
  "parseFloat s =
     (let ds = takeWhile is_digit s; rest = dropWhile is_digit s
      in if ds = [] then None
         else (case rest of
                 c # cs \<Rightarrow>
                   (if c = CHR ''.'' then
                      (let fs = takeWhile is_digit cs
                       in Some (of_nat (digits_value ds)
                                + of_nat (digits_value fs) / of_nat (10 ^ length fs)))
                    else Some (of_nat (digits_value ds)))
               | [] \<Rightarrow> Some (of_nat (digits_value ds))))"

section \<open>The Structured Intermediate Representation\<close>

text \<open>
  A SIR is a JavaScript object. The records below give it the shape of the schema in
  \<open>buildSystemPrompt\<close> and of the object literal in \<open>generateDemoSIR\<close>. A field is
  optional (\<open>None\<close> for \<open>undefined\<close>) where the program tests for it or may find it
  missing; a parameter's default value is any primitive value. The fields \<open>blends\<close>,
  \<open>sweeps\<close>, \<open>revolves\<close>, \<open>sharedParameters\<close> and \<open>nestedFamilies\<close> are never
  read and are left out.
\<close>

record point2 =
  pt_x :: rat
  pt_y :: rat

record point3 =
  p3_x :: rat
  p3_y :: rat
  p3_z :: rat

record extrusion =
  ex_name :: string
  ex_profile :: "point2 list option"
  ex_startPoint :: point3
  ex_endPoint :: point3
  ex_material :: string

record referencePlane =
  rp_name :: string
  rp_origin :: point3
  rp_normal :: point3
  rp_locked :: bool

record constraint =
  element1 :: "string option"
  element2 :: "string option"
  constraintType :: string
  offset :: rat

record geometryDefinition =
  extrusions :: "extrusion list option"
  referencePlanes :: "referencePlane list option"
  constraints :: "constraint list option"

record familyParameter =
  fp_name :: string
  fp_type :: string
  fp_group :: "string option"
  fp_isInstance :: bool
  fp_defaultValue :: jsval
  fp_formula :: "string option"

record familyType =
  ft_name :: string
  ft_parameters :: "(string \<times> jsval) list option"

record parameters =
  familyParameters :: "familyParameter list option"
  familyTypes :: "familyType list option"

record familyMetadata =
  familyName :: string
  category :: string
  description :: "string option"
  lodLevel :: rat
  isHosted :: bool
  hostingType :: "string option"

record material =
  mat_name :: string
  mat_color :: "string option"
  mat_parameterName :: "string option"
  mat_defaultValue :: "string option"

record visibilitySettings =
  vs_coarse :: "string list option"
  vs_medium :: "string list option"
  vs_fine :: "string list option"

record sir =
  sir_familyMetadata :: "familyMetadata option"
  sir_geometryDefinition :: "geometryDefinition option"
  sir_parameters :: "parameters option"
  sir_constraints :: "constraint list option"
  sir_materials :: "material list option"
  sir_visibilitySettings :: "visibilitySettings option"
  sir_visibility :: "(bool \<times> bool \<times> bool) option"

section \<open>The heuristic extractor: \<open>BIMLLMService.generateDemoSIR\<close>\<close>

text \<open>The building blocks of its patterns, and the patterns in the order of the source.\<close>

definition int_group :: "nat \<Rightarrow> regex" where
  \<comment> \<open>\<open>(\d+)\<close>\<close>
  "int_group i = Cap i (Plus Digit)"

definition dec_group :: "nat \<Rightarrow> regex" where
  \<comment> \<open>\<open>(\d+(?:\.\d+)?)\<close>\<close>
  "dec_group i = Cap i (Seq (Plus Digit) (Opt (Seq (Lit ''.'') (Plus Digit))))"

definition words_upto :: "nat \<Rightarrow> regex" where
  \<comment> \<open>\<open>(?:\w+\s+){0,n}\<close>\<close>
  "words_upto n = UpTo n (Seq (Plus WordCh) (Plus SpaceCh))"

definition mm_unit :: regex where
  \<comment> \<open>\<open>\s*mm\<close>\<close>
  "mm_unit = Seq (Star SpaceCh) (Lit ''mm'')"

definition ft_unit :: regex where
  \<comment> \<open>\<open>\s*(?:ft|foot|feet|')\<close>\<close>
  "ft_unit = Seq (Star SpaceCh)
               (Alt (Lit ''ft'') (Alt (Lit ''foot'') (Alt (Lit ''feet'') (Lit [CHR 0x27]))))"

definition inch_unit :: regex where
  \<comment> \<open>\<open>\s*(?:in|inch|inches|")\<close>\<close>
  "inch_unit = Seq (Star SpaceCh)
                 (Alt (Lit ''in'') (Alt (Lit ''inch'') (Alt (Lit ''inches'') (Lit [CHR 0x22]))))"

definition seqs :: "regex list \<Rightarrow> regex" where
  "seqs rs = foldr Seq rs (Lit [])"

definition quantity_then_keyword :: "regex \<Rightarrow> regex \<Rightarrow> string \<Rightarrow> regex" where
  \<comment> \<open>number, unit, \<open>\s+\<close>, up to two words, keyword\<close>
  "quantity_then_keyword num unit kw = seqs [num, unit, Plus SpaceCh, words_upto 2, Lit kw]"

definition keyword_then_quantity :: "string \<Rightarrow> regex \<Rightarrow> regex \<Rightarrow> regex" where
  \<comment> \<open>keyword, \<open>\s+\<close>, up to two words, number, unit\<close>
  "keyword_then_quantity kw num unit = seqs [Lit kw, Plus SpaceCh, words_upto 2, num, unit]"

definition widthMm_re :: regex where
  "widthMm_re =
     Alt (quantity_then_keyword (int_group 1) mm_unit ''wide'')
    (Alt (quantity_then_keyword (int_group 2) mm_unit ''width'')
    (Alt (keyword_then_quantity ''wide'' (int_group 3) mm_unit)
         (keyword_then_quantity ''width'' (int_group 4) mm_unit)))"

definition heightMm_re :: regex where
  "heightMm_re =
     Alt (quantity_then_keyword (int_group 1) mm_unit ''high'')
    (Alt (quantity_then_keyword (int_group 2) mm_unit ''height'')
    (Alt (keyword_then_quantity ''high'' (int_group 3) mm_unit)
         (keyword_then_quantity ''height'' (int_group 4) mm_unit)))"

definition widthFt_re :: regex where
  "widthFt_re =
     Alt (quantity_then_keyword (dec_group 1) ft_unit ''wide'')
    (Alt (quantity_then_keyword (dec_group 2) ft_unit ''width'')
    (Alt (keyword_then_quantity ''wide'' (dec_group 3) ft_unit)
         (keyword_then_quantity ''width'' (dec_group 4) ft_unit)))"

definition heightFt_re :: regex where
  "heightFt_re =
     Alt (quantity_then_keyword (dec_group 1) ft_unit ''high'')
    (Alt (quantity_then_keyword (dec_group 2) ft_unit ''height'')
    (Alt (keyword_then_quantity ''high'' (dec_group 3) ft_unit)
         (keyword_then_quantity ''height'' (dec_group 4) ft_unit)))"

definition sill_keyword :: regex where
  \<comment> \<open>\<open>(?:sill|from\s+floor|above\s+floor|floor\s+to)\<close>\<close>
  "sill_keyword =
     Alt (Lit ''sill'')
    (Alt (seqs [Lit ''from'', Plus SpaceCh, Lit ''floor''])
    (Alt (seqs [Lit ''above'', Plus SpaceCh, Lit ''floor''])
         (seqs [Lit ''floor'', Plus SpaceCh, Lit ''to''])))"

definition sillHeightMm_re :: regex where
  "sillHeightMm_re = seqs [int_group 1, mm_unit, Plus SpaceCh, words_upto 3, sill_keyword]"

definition sillHeightFt_re :: regex where
  "sillHeightFt_re = seqs [dec_group 1, ft_unit, Plus SpaceCh, words_upto 3, sill_keyword]"

definition inset_keyword :: regex where
  \<comment> \<open>\<open>(?:inset|depth|frame\s+depth)\<close>\<close>
  "inset_keyword =
     Alt (Lit ''inset'') (Alt (Lit ''depth'') (seqs [Lit ''frame'', Plus SpaceCh, Lit ''depth'']))"

definition insetMm_re :: regex where
  "insetMm_re = seqs [int_group 1, mm_unit, Plus SpaceCh, words_upto 2, inset_keyword]"

definition insetFt_re :: regex where
  "insetFt_re = seqs [dec_group 1, ft_unit, Plus SpaceCh, words_upto 2, inset_keyword]"

definition insetInch_re :: regex where
  "insetInch_re = seqs [dec_group 1, inch_unit, Plus SpaceCh, words_upto 2, inset_keyword]"

text \<open>
  The number read from a match. The groups are \<open>(\d+)\<close> and \<open>(\d+(?:\.\d+)?)\<close>, so
  \<open>parseInt\<close> and \<open>parseFloat\<close> always find digits there (lemmas
  \<open>mm_patterns_give_number\<close> and \<open>ft_patterns_give_number\<close> below); the model has
  no \<open>NaN\<close> among its numbers and \<open>number_of\<close> puts 0 for it.
\<close>

definition number_of :: "rat option \<Rightarrow> rat" where
  "number_of v = (case v of Some n \<Rightarrow> n | None \<Rightarrow> 0)"

definition groups_mm :: "captures \<Rightarrow> nat list \<Rightarrow> rat option" where
  \<comment> \<open>\<open>parseInt(m[1] || m[2] || ...)\<close>; \<open>parseInt(undefined)\<close> is \<open>NaN\<close>\<close>
  "groups_mm c gs = (case first_group c gs of Some g \<Rightarrow> parseInt g | None \<Rightarrow> None)"

definition groups_ft :: "captures \<Rightarrow> nat list \<Rightarrow> string \<Rightarrow> rat option" where
  \<comment> \<open>\<open>parseFloat(m[1] || m[2] || ... || fallback)\<close>\<close>
  "groups_ft c gs fallback =
     (case first_group c gs of Some g \<Rightarrow> parseFloat g | None \<Rightarrow> parseFloat fallback)"

definition group1 :: "captures \<Rightarrow> string" where
  \<comment> \<open>\<open>m[1]\<close>, which every pattern with a single group defines when it matches\<close>
  "group1 c = (case map_of c 1 of Some g \<Rightarrow> g | None \<Rightarrow> ''undefined'')"

definition extract_width :: "string \<Rightarrow> rat" where
  "extract_width lowerPrompt =
     (case js_match widthMm_re lowerPrompt of
        Some widthMmMatch \<Rightarrow> number_of (groups_mm (snd widthMmMatch) [1, 2, 3, 4]) / 304.8
      | None \<Rightarrow>
          (case js_match widthFt_re lowerPrompt of
             Some widthFtMatch \<Rightarrow> number_of (groups_ft (snd widthFtMatch) [1, 2, 3, 4] ''2.0'')
           | None \<Rightarrow> 2.0))"

definition extract_height :: "string \<Rightarrow> rat" where
  "extract_height lowerPrompt =
     (case js_match heightMm_re lowerPrompt of
        Some heightMmMatch \<Rightarrow> number_of (groups_mm (snd heightMmMatch) [1, 2, 3, 4]) / 304.8
      | None \<Rightarrow>
          (case js_match heightFt_re lowerPrompt of
             Some heightFtMatch \<Rightarrow> number_of (groups_ft (snd heightFtMatch) [1, 2, 3, 4] ''4.0'')
           | None \<Rightarrow> 4.0))"

definition extract_sillHeight :: "string \<Rightarrow> rat" where
  "extract_sillHeight lowerPrompt =
     (case js_match sillHeightMm_re lowerPrompt of
        Some sillHeightMmMatch \<Rightarrow> number_of (parseInt (group1 (snd sillHeightMmMatch))) / 304.8
      | None \<Rightarrow>
          (case js_match sillHeightFt_re lowerPrompt of
             Some sillHeightFtMatch \<Rightarrow> number_of (parseFloat (group1 (snd sillHeightFtMatch)))
           | None \<Rightarrow> 3.0))"

definition extract_inset :: "string \<Rightarrow> rat" where
  "extract_inset lowerPrompt =
     (case js_match insetMm_re lowerPrompt of
        Some insetMmMatch \<Rightarrow> number_of (parseInt (group1 (snd insetMmMatch))) / 304.8
      | None \<Rightarrow>
          (case js_match insetInch_re lowerPrompt of
             Some insetInchMatch \<Rightarrow> number_of (parseFloat (group1 (snd insetInchMatch))) / 12
           | None \<Rightarrow>
               (case js_match insetFt_re lowerPrompt of
                  Some insetFtMatch \<Rightarrow> number_of (parseFloat (group1 (snd insetFtMatch)))
                | None \<Rightarrow> 0.05)))"

definition extract_glassMaterial :: "string \<Rightarrow> string" where
  "extract_glassMaterial lowerPrompt =
     (if includes_str lowerPrompt ''glass'' then ''Glass'' else ''Default'')"

definition extract_sashMaterial :: "string \<Rightarrow> string" where
  "extract_sashMaterial lowerPrompt =
     (if includes_str lowerPrompt ''wood'' \<or> includes_str lowerPrompt ''timber'' then ''Wood''
      else if includes_str lowerPrompt ''metal'' \<or> includes_str lowerPrompt ''steel''
              \<or> includes_str lowerPrompt ''aluminum'' then ''Metal''
      else ''Default'')"

text \<open>The object literal \<open>demoFamily\<close>.\<close>

definition demo_parameters :: "rat \<Rightarrow> rat \<Rightarrow> rat \<Rightarrow> rat \<Rightarrow> string \<Rightarrow> string \<Rightarrow> parameters" where
  "demo_parameters width height sillHeight inset glassMaterial sashMaterial =
     \<lparr> familyParameters = Some
         [ \<lparr> fp_name = ''Width'', fp_type = ''Length'', fp_group = None, fp_isInstance = True,
             fp_defaultValue = JNum width, fp_formula = None \<rparr>,
           \<lparr> fp_name = ''Height'', fp_type = ''Length'', fp_group = None, fp_isInstance = True,
             fp_defaultValue = JNum height, fp_formula = None \<rparr>,
           \<lparr> fp_name = ''SillHeight'', fp_type = ''Length'', fp_group = None, fp_isInstance = True,
             fp_defaultValue = JNum sillHeight, fp_formula = None \<rparr>,
           \<lparr> fp_name = ''Inset'', fp_type = ''Length'', fp_group = None, fp_isInstance = True,
             fp_defaultValue = JNum inset, fp_formula = None \<rparr>,
           \<lparr> fp_name = ''GlassPaneMaterial'', fp_type = ''Material'', fp_group = None,
             fp_isInstance = True, fp_defaultValue = JStr glassMaterial, fp_formula = None \<rparr>,
           \<lparr> fp_name = ''SashMaterial'', fp_type = ''Material'', fp_group = None,
             fp_isInstance = True, fp_defaultValue = JStr sashMaterial, fp_formula = None \<rparr> ],
       familyTypes = Some
         [ \<lparr> ft_name = ''Type 1'',
             ft_parameters = Some
               [ (''Width'', JNum width), (''Height'', JNum height),
                 (''SillHeight'', JNum sillHeight), (''Inset'', JNum inset),
                 (''GlassPaneMaterial'', JStr glassMaterial),
                 (''SashMaterial'', JStr sashMaterial) ] \<rparr> ] \<rparr>"

definition demo_mainBody :: "rat \<Rightarrow> rat \<Rightarrow> rat \<Rightarrow> string \<Rightarrow> extrusion" where
  "demo_mainBody width height z sashMaterial =
     \<lparr> ex_name = ''MainBody'',
       ex_profile = Some [ \<lparr> pt_x = 0, pt_y = 0 \<rparr>, \<lparr> pt_x = width, pt_y = 0 \<rparr>,
                           \<lparr> pt_x = width, pt_y = height \<rparr>, \<lparr> pt_x = 0, pt_y = height \<rparr> ],
       ex_startPoint = \<lparr> p3_x = 0, p3_y = 0, p3_z = 0 \<rparr>,
       ex_endPoint = \<lparr> p3_x = width, p3_y = height, p3_z = z \<rparr>,
       ex_material = sashMaterial \<rparr>"

definition demo_glassPane :: "rat \<Rightarrow> rat \<Rightarrow> string \<Rightarrow> extrusion" where
  "demo_glassPane width height glassMaterial =
     \<lparr> ex_name = ''GlassPane'',
       ex_profile = Some [ \<lparr> pt_x = 10, pt_y = 10 \<rparr>, \<lparr> pt_x = width - 10, pt_y = 10 \<rparr>,
                           \<lparr> pt_x = width - 10, pt_y = height - 10 \<rparr>,
                           \<lparr> pt_x = 10, pt_y = height - 10 \<rparr> ],
       ex_startPoint = \<lparr> p3_x = 10, p3_y = 10, p3_z = 5 \<rparr>,
       ex_endPoint = \<lparr> p3_x = width - 10, p3_y = height - 10, p3_z = 95 \<rparr>,
       ex_material = glassMaterial \<rparr>"

definition demoFamily ::
  "string \<Rightarrow> string \<Rightarrow> string \<Rightarrow> extrusion list \<Rightarrow> parameters \<Rightarrow> string \<Rightarrow> string \<Rightarrow> sir" where
  "demoFamily name cat descr exts ps glassMaterial sashMaterial =
     \<lparr> sir_familyMetadata = Some
         \<lparr> familyName = name, category = cat, description = Some descr, lodLevel = 200,
           isHosted = False, hostingType = None \<rparr>,
       sir_geometryDefinition = Some
         \<lparr> extrusions = Some exts, referencePlanes = None, constraints = None \<rparr>,
       sir_parameters = Some ps,
       sir_constraints = Some [],
       sir_materials = Some
         [ \<lparr> mat_name = glassMaterial, mat_color = Some ''#87CEEB'',
             mat_parameterName = None, mat_defaultValue = None \<rparr>,
           \<lparr> mat_name = sashMaterial, mat_color = Some ''#8B4513'',
             mat_parameterName = None, mat_defaultValue = None \<rparr> ],
       sir_visibilitySettings = None,
       sir_visibility = Some (True, True, True) \<rparr>"

record gen_result =
  gr_success :: bool
  gr_sir :: sir
  gr_sessionId :: string
  gr_timestamp :: string
  gr_isDemo :: bool

text \<open>
  \<open>generateDemoSIR(userPrompt, sessionId)\<close>; \<open>now\<close> is what
  \<open>new Date().toISOString()\<close> returns. The customisation by category at the end of
  the source is folded into the construction of the object.
\<close>

definition generateDemoSIR :: "string \<Rightarrow> string \<Rightarrow> string \<Rightarrow> gen_result" where
  "generateDemoSIR userPrompt sessionId now =
     (let lowerPrompt = toLowerCase userPrompt;
          width = extract_width lowerPrompt;
          height = extract_height lowerPrompt;
          sillHeight = extract_sillHeight lowerPrompt;
          inset = extract_inset lowerPrompt;
          glassMaterial = extract_glassMaterial lowerPrompt;
          sashMaterial = extract_sashMaterial lowerPrompt;
          ps = demo_parameters width height sillHeight inset glassMaterial sashMaterial;
          demo =
            (if includes_str lowerPrompt ''door'' then
               demoFamily ''Generated Door'' ''Doors'' ''Parametric door family''
                 [demo_mainBody width height 50 sashMaterial] ps glassMaterial sashMaterial
             else if includes_str lowerPrompt ''window'' then
               demoFamily ''Generated Window'' ''Windows'' ''Parametric window family''
                 [demo_mainBody width height 100 sashMaterial,
                  demo_glassPane width height glassMaterial] ps glassMaterial sashMaterial
             else if includes_str lowerPrompt ''furniture'' then
               demoFamily ''Generated Furniture'' ''Furniture'' ''Parametric furniture family''
                 [demo_mainBody width height 100 sashMaterial] ps glassMaterial sashMaterial
             else
               demoFamily ''Generated Family'' ''Generic''
                 ''Parametric family generated from natural language''
                 [demo_mainBody width height 100 sashMaterial] ps glassMaterial sashMaterial)
      in \<lparr> gr_success = True, gr_sir = demo, gr_sessionId = sessionId,
           gr_timestamp = now, gr_isDemo = True \<rparr>)"

section \<open>The SIR generator: \<open>BIMLLMService.generateSIR\<close>\<close>

text \<open>
  Outside demo mode \<open>generateSIR\<close> calls the language model, parses its reply and
  validates the result, all inside one \<open>try\<close>. What the model did is a parameter:
  its call threw, or it returned a text. \<open>JSON.parse\<close>, together with the reading
  of the parsed object as a SIR, is a parameter too (\<open>json_parse\<close>: an error message
  or a SIR).

  The prompt is documented as a string, but it comes from a request body of which the
  route only tests that it is truthy, so \<open>generateSIR\<close> takes a primitive value. The
  first statement of \<open>generateDemoSIR\<close>, \<open>userPrompt.toLowerCase()\<close>, throws a
  \<open>TypeError\<close> on everything but a string; \<open>generateDemoSIR_call\<close> is the call with
  that outcome (\<open>Inl\<close> the message of the error).
\<close>

definition generateDemoSIR_call :: "jsval \<Rightarrow> string \<Rightarrow> string \<Rightarrow> string + gen_result" where
  "generateDemoSIR_call userPrompt sessionId now =
     (case userPrompt of
        JStr p \<Rightarrow> Inr (generateDemoSIR p sessionId now)
      | JUndefined \<Rightarrow> Inl (cannot_read ''toLowerCase'')
      | JNull \<Rightarrow> Inl (cannot_read_null ''toLowerCase'')
      | _ \<Rightarrow> Inl (not_a_function ''userPrompt.toLowerCase''))"

datatype model_reply = ModelThrows string | ModelText string

definition json_object_re :: regex where
  \<comment> \<open>\<open>\{[\s\S]*\}\<close>\<close>
  "json_object_re = seqs [Lit ''{'', Star AnyCh, Lit ''}'']"

definition parseSIRResponse :: "(string \<Rightarrow> string + sir) \<Rightarrow> string \<Rightarrow> string + sir" where
  "parseSIRResponse json_parse text =
     (case js_match json_object_re text of
        None \<Rightarrow> Inl ''Failed to parse SIR response: No valid JSON found in response''
      | Some jsonMatch \<Rightarrow>
          (case json_parse (fst jsonMatch) of
             Inl msg \<Rightarrow> Inl (''Failed to parse SIR response: '' @ msg)
           | Inr s \<Rightarrow> Inr s))"

text \<open>The generator's \<open>validateSIR\<close>: the message of the error it throws, if any.\<close>

definition validateSIR :: "sir \<Rightarrow> string option" where
  "validateSIR s =
     (if sir_familyMetadata s = None then Some ''Missing required SIR field: familyMetadata''
      else if sir_geometryDefinition s = None
        then Some ''Missing required SIR field: geometryDefinition''
      else if sir_parameters s = None then Some ''Missing required SIR field: parameters''
      else if sir_materials s = None then Some ''Missing required SIR field: materials''
      else if sir_visibilitySettings s = None
        then Some ''Missing required SIR field: visibilitySettings''
      else (case sir_familyMetadata s of
              None \<Rightarrow> Some ''Missing required SIR field: familyMetadata''
            | Some md \<Rightarrow>
                (if familyName md = [] \<or> category md = []
                 then Some ''Missing required family metadata''
                 else if lodLevel md < 100 \<or> lodLevel md > 500
                   then Some ''LOD level must be between 100 and 500''
                 else None)))"

record interaction =
  ia_timestamp :: string
  ia_userPrompt :: jsval
  ia_sir :: sir
  ia_type :: string

type_synonym conversationHistory = "string \<rightharpoonup> interaction list"

definition updateConversationContext ::
  "string \<Rightarrow> string \<Rightarrow> jsval \<Rightarrow> sir \<Rightarrow> conversationHistory \<Rightarrow> conversationHistory" where
  "updateConversationContext now sessionId userPrompt s h =
     (let history = (case h sessionId of None \<Rightarrow> [] | Some l \<Rightarrow> l)
                    @ [\<lparr> ia_timestamp = now, ia_userPrompt = userPrompt, ia_sir = s,
                          ia_type = ''generation'' \<rparr>]
      in h(sessionId \<mapsto> (if length history > 10 then tl history else history)))"

text \<open>
  The body of the \<open>try\<close> outside demo mode: the error thrown (\<open>Inl\<close>), or the
  result and the updated history.
\<close>

definition generateSIR_try ::
  "(string \<Rightarrow> string + sir) \<Rightarrow> model_reply \<Rightarrow> string \<Rightarrow> string \<Rightarrow> jsval \<Rightarrow> string
     \<Rightarrow> conversationHistory \<Rightarrow> string + gen_result \<times> conversationHistory" where
  "generateSIR_try json_parse reply now_history now userPrompt sessionId h =
     (case reply of
        ModelThrows err \<Rightarrow> Inl err
      | ModelText text \<Rightarrow>
          (case parseSIRResponse json_parse text of
             Inl err \<Rightarrow> Inl err
           | Inr s \<Rightarrow>
               (case validateSIR s of
                  Some err \<Rightarrow> Inl err
                | None \<Rightarrow>
                    Inr (\<lparr> gr_success = True, gr_sir = s, gr_sessionId = sessionId,
                           gr_timestamp = now, gr_isDemo = False \<rparr>,
                         updateConversationContext now_history sessionId userPrompt s h))))"

text \<open>
  \<open>generateSIR\<close> with its \<open>catch\<close>, which falls back to \<open>generateDemoSIR\<close>. An
  error thrown by that call in the \<open>catch\<close> leaves \<open>generateSIR\<close> (\<open>Inl\<close>). In demo
  mode the call is made inside the \<open>try\<close>; when it throws there, the \<open>catch\<close> makes
  it again, with the same outcome.
\<close>

definition generateSIR ::
  "bool \<Rightarrow> (string \<Rightarrow> string + sir) \<Rightarrow> model_reply \<Rightarrow> string \<Rightarrow> string \<Rightarrow> jsval \<Rightarrow> string
     \<Rightarrow> conversationHistory \<Rightarrow> string + gen_result \<times> conversationHistory" where
  "generateSIR demoMode json_parse reply now_history now userPrompt sessionId h =
     (let fallback = (case generateDemoSIR_call userPrompt sessionId now of
                        Inl type_error \<Rightarrow> Inl type_error
                      | Inr demo \<Rightarrow> Inr (demo, h))
      in if demoMode then fallback
         else (case generateSIR_try json_parse reply now_history now userPrompt sessionId h of
                 Inr finished \<Rightarrow> Inr finished
               | Inl error \<Rightarrow> fallback))"

section \<open>The mapping to backend parameters: \<open>convertSIRToAPSParams\<close>\<close>

record window_type =
  TypeName :: string
  WindowWidth :: jsval
  WindowHeight :: jsval
  WindowInset :: rat
  WindowSillHeight :: rat

record window_params =
  WindowStyle :: string
  GlassPaneMaterial :: string
  SashMaterial :: string
  WindowFamilyName :: string
  Types :: "window_type list"

record aps_params =
  FileName :: string
  FamilyType :: int
  WindowParams :: window_params

text \<open>\<open>s || d\<close> on strings: the empty string is falsy.\<close>

definition str_or :: "string \<Rightarrow> string \<Rightarrow> string" where
  "str_or s d = (if s \<noteq> [] then s else d)"

text \<open>
  In the window branch the source reads \<open>profile[1].x\<close>, \<open>profile[0].x\<close>,
  \<open>profile[2].y\<close> and \<open>profile[0].y\<close> of the first extrusion when it has a profile.
  The values are not used, but reading a point that is not there throws: that is the
  case exactly when the profile has fewer than three points.
\<close>

definition window_geometry_throws :: "geometryDefinition \<Rightarrow> bool" where
  "window_geometry_throws g =
     (case extrusions g of
        None \<Rightarrow> False
      | Some [] \<Rightarrow> False
      | Some (mainExtrusion # _) \<Rightarrow>
          (case ex_profile mainExtrusion of None \<Rightarrow> False | Some ps \<Rightarrow> length ps < 3))"

definition windowStyleName :: "nat \<Rightarrow> string" where
  "windowStyleName windowType =
     (if windowType = 1 then ''DoubleHungWindow''
      else if windowType = 2 then ''SlidingDoubleWindow''
      else if windowType = 3 then ''FixedWindow''
      else ''DoubleHungWindow'')"

text \<open>\<open>array.find(pred)?.field || dflt\<close>.\<close>

definition find_name_or :: "(material \<Rightarrow> bool) \<Rightarrow> material list \<Rightarrow> string \<Rightarrow> string" where
  "find_name_or pred ms dflt =
     (case find pred ms of Some m \<Rightarrow> str_or (mat_name m) dflt | None \<Rightarrow> dflt)"

definition find_default_or ::
  "(familyParameter \<Rightarrow> bool) \<Rightarrow> familyParameter list \<Rightarrow> jsval \<Rightarrow> jsval" where
  "find_default_or pred ps dflt =
     (case find pred ps of Some p \<Rightarrow> js_or (fp_defaultValue p) dflt | None \<Rightarrow> dflt)"

text \<open>The body of the \<open>try\<close>; \<open>None\<close> when it throws.\<close>

definition convert_try :: "sir \<Rightarrow> aps_params option" where
  "convert_try s =
     (case sir_familyMetadata s of
        None \<Rightarrow> None
      | Some md \<Rightarrow>
          (let name = str_or (familyName md) ''Generated Family'';
               cat = str_or (category md) ''Generic'';
               windowType = (1::nat);
               geometry_throws =
                 (if includes_str (toLowerCase cat) ''door'' then False
                  else if includes_str (toLowerCase cat) ''window'' then
                    (case sir_geometryDefinition s of
                       None \<Rightarrow> True
                     | Some g \<Rightarrow> window_geometry_throws g)
                  else False)
           in if geometry_throws then None
              else
                (let materials = (case sir_materials s of Some ms \<Rightarrow> ms | None \<Rightarrow> []);
                     glassPaneMaterial =
                       find_name_or (\<lambda>m. includes_str (toLowerCase (mat_name m)) ''glass'')
                         materials ''Default'';
                     sashMaterial =
                       find_name_or (\<lambda>m. includes_str (toLowerCase (mat_name m)) ''sash''
                                          \<or> includes_str (toLowerCase (mat_name m)) ''frame'')
                         materials ''Default''
                 in case sir_parameters s of
                      None \<Rightarrow> None
                    | Some ps \<Rightarrow>
                        (let fps = (case familyParameters ps of Some l \<Rightarrow> l | None \<Rightarrow> []);
                             widthParam =
                               find_default_or (\<lambda>p. includes_str (toLowerCase (fp_name p)) ''width'')
                                 fps (JNum 200);
                             heightParam =
                               find_default_or (\<lambda>p. includes_str (toLowerCase (fp_name p)) ''height'')
                                 fps (JNum 1100)
                         in Some
                              \<lparr> FileName = name @ ''.rfa'',
                                FamilyType = 1,
                                WindowParams =
                                  \<lparr> WindowStyle = windowStyleName windowType,
                                    GlassPaneMaterial = glassPaneMaterial,
                                    SashMaterial = sashMaterial,
                                    WindowFamilyName = name @ ''.rfa'',
                                    Types = [ \<lparr> TypeName = ''Type 1'',
                                                WindowWidth = widthParam,
                                                WindowHeight = heightParam,
                                                WindowInset = 0.05,
                                                WindowSillHeight = 3 \<rparr> ] \<rparr> \<rparr>))))"

text \<open>The parameters returned by the \<open>catch\<close>.\<close>

definition default_aps_params :: aps_params where
  "default_aps_params =
     \<lparr> FileName = ''Generated Family.rfa'',
       FamilyType = 1,
       WindowParams =
         \<lparr> WindowStyle = ''DoubleHungWindow'',
           GlassPaneMaterial = ''Default'',
           SashMaterial = ''Default'',
           WindowFamilyName = ''Generated Family.rfa'',
           Types = [ \<lparr> TypeName = ''Type 1'', WindowWidth = JNum 2, WindowHeight = JNum 4,
                       WindowInset = 0.05, WindowSillHeight = 3 \<rparr> ] \<rparr> \<rparr>"

definition convertSIRToAPSParams :: "sir \<Rightarrow> aps_params" where
  "convertSIRToAPSParams s =
     (case convert_try s of Some converted \<Rightarrow> converted | None \<Rightarrow> default_aps_params)"

section \<open>Conversions of the language used by the QA gateway\<close>

text \<open>
  \<open>Number(v)\<close> for a primitive value, as far as \<open>isNaN\<close> and \<open>Number.isInteger\<close>
  need it. A string converts by the grammar of numeric literals: optional white space
  around \<open>Infinity\<close>, a signed decimal literal with optional fraction and exponent,
  or an unsigned \<open>0x\<close>, \<open>0o\<close>, \<open>0b\<close> literal; the empty string is 0. Values are
  exact rationals (no rounding, overflow or underflow of doubles).
\<close>

datatype jsnumber = NaN | Infinite | Finite rat

definition sign_re :: regex where
  "sign_re = Opt (Cap 1 (Alt (Lit ''+'') (Lit ''-'')))"

definition exponent_re :: regex where
  "exponent_re =
     Opt (seqs [Alt (Lit ''e'') (Lit ''E''),
                Opt (Cap 4 (Alt (Lit ''+'') (Lit ''-''))), Cap 5 (Plus Digit)])"

definition decimal_re :: regex where
  "decimal_re =
     seqs [sign_re,
           Alt (seqs [Cap 2 (Plus Digit), Opt (seqs [Lit ''.'', Cap 3 (Star Digit)])])
               (seqs [Lit ''.'', Cap 3 (Plus Digit)]),
           exponent_re]"

definition group_or_empty :: "captures \<Rightarrow> nat \<Rightarrow> string" where
  "group_or_empty c i = (case map_of c i of Some g \<Rightarrow> g | None \<Rightarrow> [])"

definition decimal_value :: "captures \<Rightarrow> rat" where
  "decimal_value c =
     (let mantissa = of_nat (digits_value (group_or_empty c 2))
                     + of_nat (digits_value (group_or_empty c 3))
                       / of_nat (10 ^ length (group_or_empty c 3));
          e = digits_value (group_or_empty c 5);
          scaled = (if group_or_empty c 4 = ''-'' then mantissa / of_nat (10 ^ e)
                    else mantissa * of_nat (10 ^ e))
      in if group_or_empty c 1 = ''-'' then - scaled else scaled)"

definition radix_value :: "string \<Rightarrow> string \<Rightarrow> jsnumber" where
  "radix_value digits body =
     (if body \<noteq> [] \<and> (\<forall>ch \<in> set body. toLowerCase_char ch \<in> set digits)
      then Finite (of_nat (foldl (\<lambda>acc ch. length digits * acc
                     + length (takeWhile (\<lambda>d. d \<noteq> toLowerCase_char ch) digits)) 0 body))
      else NaN)"

definition string_to_number :: "string \<Rightarrow> jsnumber" where
  "string_to_number s =
     (let t = trim s
      in if t = [] then Finite 0
         else if t = ''Infinity'' \<or> t = ''+Infinity'' \<or> t = ''-Infinity'' then Infinite
         else if startsWith (toLowerCase t) ''0x'' then radix_value ''0123456789abcdef'' (drop 2 t)
         else if startsWith (toLowerCase t) ''0o'' then radix_value ''01234567'' (drop 2 t)
         else if startsWith (toLowerCase t) ''0b'' then radix_value ''01'' (drop 2 t)
         else (case find (\<lambda>st. fst st = []) (rmatch decimal_re (t, [])) of
                 Some st \<Rightarrow> Finite (decimal_value (snd st))
               | None \<Rightarrow> NaN))"

fun to_number :: "jsval \<Rightarrow> jsnumber" where
  "to_number JUndefined = NaN"
| "to_number JNull = Finite 0"
| "to_number (JBool b) = Finite (if b then 1 else 0)"
| "to_number (JNum n) = Finite n"
| "to_number (JStr s) = string_to_number s"

definition js_isNaN :: "jsval \<Rightarrow> bool" where
  "js_isNaN v = (to_number v = NaN)"

definition js_isInteger :: "jsnumber \<Rightarrow> bool" where
  "js_isInteger n = (case n of Finite q \<Rightarrow> of_int \<lfloor>q\<rfloor> = q | _ \<Rightarrow> False)"

text \<open>\<open>a % b\<close> on numbers: the remainder has the sign of the dividend.\<close>

definition js_rem :: "rat \<Rightarrow> rat \<Rightarrow> rat" where
  "js_rem a b = a - b * (if a / b < 0 then of_int \<lceil>a / b\<rceil> else of_int \<lfloor>a / b\<rfloor>)"

text \<open>
  \<open>s.split(sep)\<close> for a separator that is one or more characters of a set: the
  pieces between the maximal runs of separator characters, empty pieces at the ends
  included.
\<close>

function split_on :: "(char \<Rightarrow> bool) \<Rightarrow> string \<Rightarrow> string list" where
  "split_on sep s =
     (let piece = takeWhile (\<lambda>c. \<not> sep c) s; rest = dropWhile (\<lambda>c. \<not> sep c) s
      in if rest = [] then [piece] else piece # split_on sep (dropWhile sep rest))"
  by pat_completeness auto
termination
proof (relation "measure (\<lambda>(sep, s). length s)")
  show "wf (measure (\<lambda>(sep, s). length s))" by simp
next
  fix sep :: "char \<Rightarrow> bool" and s piece rest :: string
  assume r: "rest = dropWhile (\<lambda>c. \<not> sep c) s" and ne: "rest \<noteq> []"
  from ne obtain a l where al: "rest = a # l" by (cases rest) auto
  from ne r have "sep (hd rest)" using hd_dropWhile [of "\<lambda>c. \<not> sep c" s] by simp
  with al have "dropWhile sep rest = dropWhile sep l" by simp
  then have "length (dropWhile sep rest) < length rest"
    using al length_dropWhile_le [of sep l] by simp
  moreover have "length rest \<le> length s"
    using r by (simp add: length_dropWhile_le)
  ultimately show "((sep, dropWhile sep rest), (sep, s)) \<in> measure (\<lambda>(sep, s). length s)"
    by simp
qed

declare split_on.simps [simp del]

text \<open>The number of non-overlapping occurrences of a non-empty text, as a global match counts them.\<close>

function count_occurrences :: "string \<Rightarrow> string \<Rightarrow> nat" where
  "count_occurrences needle s =
     (if needle = [] \<or> s = [] then 0
      else if startsWith s needle then Suc (count_occurrences needle (drop (length needle) s))
      else count_occurrences needle (tl s))"
  by pat_completeness auto
termination
  by (relation "measure (\<lambda>(needle, s). length s)") (auto simp: startsWith_def)

declare count_occurrences.simps [simp del]

section \<open>The QA gateway\<close>

record validation_result =
  vr_pass :: bool
  vr_issues :: "string list"
  vr_warnings :: "string list"
  vr_score :: int

text \<open>\<open>{pass: true, issues: [], warnings: [], score: 100}\<close> and the three ways a pass changes it.\<close>

definition fresh_results :: validation_result where
  "fresh_results = \<lparr> vr_pass = True, vr_issues = [], vr_warnings = [], vr_score = 100 \<rparr>"

definition add_issue :: "string \<Rightarrow> int \<Rightarrow> validation_result \<Rightarrow> validation_result" where
  \<comment> \<open>\<open>issues.push(msg); pass = false; score -= d\<close>\<close>
  "add_issue msg d r =
     r \<lparr> vr_issues := vr_issues r @ [msg], vr_pass := False, vr_score := vr_score r - d \<rparr>"

definition add_warning :: "string \<Rightarrow> int \<Rightarrow> validation_result \<Rightarrow> validation_result" where
  \<comment> \<open>\<open>warnings.push(msg); score -= d\<close>\<close>
  "add_warning msg d r = r \<lparr> vr_warnings := vr_warnings r @ [msg], vr_score := vr_score r - d \<rparr>"

definition caught :: "string \<Rightarrow> string \<Rightarrow> validation_result \<Rightarrow> validation_result" where
  \<comment> \<open>the \<open>catch\<close> of a pass: \<open>issues.push(prefix + error.message); pass = false; score = 0\<close>\<close>
  "caught pre msg r =
     r \<lparr> vr_issues := vr_issues r @ [pre @ msg], vr_pass := False, vr_score := 0 \<rparr>"

text \<open>\<open>!s\<close> for an optional string.\<close>

definition falsy_str :: "string option \<Rightarrow> bool" where
  "falsy_str s = (case s of None \<Rightarrow> True | Some t \<Rightarrow> t = [])"

subsection \<open>Geometry\<close>

definition check_extrusion :: "extrusion \<Rightarrow> validation_result \<Rightarrow> validation_result" where
  "check_extrusion e r =
     (let r1 = (if (case ex_profile e of None \<Rightarrow> True | Some ps \<Rightarrow> length ps < 3)
                then add_issue (''Extrusion '' @ ex_name e
                                @ '' has invalid profile (minimum 3 points required)'') 20 r
                else r);
          height = \<bar>p3_z (ex_endPoint e) - p3_z (ex_startPoint e)\<bar>;
          r2 = (if height \<le> 0
                then add_issue (''Extrusion '' @ ex_name e @ '' has zero or negative height'') 15 r1
                else r1)
      in (case ex_profile e of
            Some ps \<Rightarrow>
              (if length ps > 20
               then add_warning (''Extrusion '' @ ex_name e @ '' has high complexity (''
                                 @ show_nat (length ps) @ '' points)'') 5 r2
               else r2)
          | None \<Rightarrow> r2))"

text \<open>
  \<open>Math.abs(magnitude - 1.0) > 0.001\<close> for the magnitude
  \<open>Math.sqrt(x * x + y * y + z * z)\<close> of a normal, with the real square root. The
  equation after it gives the same test without the root, for evaluation.
\<close>

definition magnitude_off_unit :: "point3 \<Rightarrow> bool" where
  "magnitude_off_unit normal =
     (let magnitude = sqrt (real_of_rat (p3_x normal * p3_x normal + p3_y normal * p3_y normal
                                         + p3_z normal * p3_z normal))
      in \<bar>magnitude - 1.0\<bar> > 0.001)"

lemma magnitude_off_unit_code [code]:
  "magnitude_off_unit normal =
     (let q = p3_x normal * p3_x normal + p3_y normal * p3_y normal + p3_z normal * p3_z normal
      in q > 1002001 / 1000000 \<or> q < 998001 / 1000000)"
proof -
  let ?q = "p3_x normal * p3_x normal + p3_y normal * p3_y normal + p3_z normal * p3_z normal"
  have s1: "sqrt (1002001 / 1000000) = 1001 / 1000"
    by (rule real_sqrt_unique) (simp_all add: power2_eq_square)
  have s2: "sqrt (998001 / 1000000) = 999 / 1000"
    by (rule real_sqrt_unique) (simp_all add: power2_eq_square)
  have hi: "sqrt q > 1001 / 1000 \<longleftrightarrow> q > 1002001 / 1000000" for q :: real
    using real_sqrt_less_iff [of "1002001 / 1000000" q] unfolding s1 .
  have lo: "sqrt q < 999 / 1000 \<longleftrightarrow> q < 998001 / 1000000" for q :: real
    using real_sqrt_less_iff [of q "998001 / 1000000"] unfolding s2 .
  have "\<bar>x - 1.0\<bar> > 0.001 \<longleftrightarrow> x > 1001 / 1000 \<or> x < 999 / 1000" for x :: real
    by (auto simp: abs_if)
  then have "\<bar>sqrt (real_of_rat ?q) - 1.0\<bar> > 0.001
      \<longleftrightarrow> real_of_rat ?q > 1002001 / 1000000 \<or> real_of_rat ?q < 998001 / 1000000"
    using hi lo by simp
  moreover have "real_of_rat ?q > 1002001 / 1000000 \<longleftrightarrow> ?q > 1002001 / 1000000"
    using of_rat_less [of "1002001 / 1000000" ?q, where ?'a = real] by (simp add: of_rat_divide)
  moreover have "real_of_rat ?q < 998001 / 1000000 \<longleftrightarrow> ?q < 998001 / 1000000"
    using of_rat_less [of ?q "998001 / 1000000", where ?'a = real] by (simp add: of_rat_divide)
  ultimately show ?thesis
    by (simp add: magnitude_off_unit_def Let_def)
qed

definition check_plane :: "referencePlane \<Rightarrow> validation_result \<Rightarrow> validation_result" where
  "check_plane plane r =
     (if magnitude_off_unit (rp_normal plane)
      then add_issue (''Reference plane '' @ rp_name plane @ '' has invalid normal vector'') 10 r
      else r)"

definition check_constraint :: "nat \<times> constraint \<Rightarrow> validation_result \<Rightarrow> validation_result" where
  "check_constraint ic r =
     (if falsy_str (element1 (snd ic)) \<or> falsy_str (element2 (snd ic))
      then add_issue (''Constraint '' @ show_nat (fst ic) @ '' has missing elements'') 10 r
      else r)"

text \<open>\<open>array.forEach(f)\<close> over a results record; with the index where the callback uses it.\<close>

definition for_each :: "('a \<Rightarrow> 'r \<Rightarrow> 'r) \<Rightarrow> 'a list \<Rightarrow> 'r \<Rightarrow> 'r" where
  "for_each f xs r = foldl (\<lambda>acc x. f x acc) r xs"

definition for_each_opt :: "('a \<Rightarrow> 'r \<Rightarrow> 'r) \<Rightarrow> 'a list option \<Rightarrow> 'r \<Rightarrow> 'r" where
  "for_each_opt f xs r = (case xs of None \<Rightarrow> r | Some l \<Rightarrow> for_each f l r)"

definition indexed :: "'a list \<Rightarrow> (nat \<times> 'a) list" where
  "indexed xs = zip [0 ..< length xs] xs"

definition lod_geometry_check :: "rat \<Rightarrow> geometryDefinition \<Rightarrow> validation_result \<Rightarrow> validation_result" where
  "lod_geometry_check lod g r =
     (if lod \<le> 200 then
        (if (case extrusions g of Some es \<Rightarrow> length es > 3 | None \<Rightarrow> False)
         then add_warning ''LOD 200 family has complex geometry - consider simplification'' 5 r
         else r)
      else if lod \<ge> 400 then
        (if (case extrusions g of Some es \<Rightarrow> length es < 2 | None \<Rightarrow> True)
         then add_warning ''LOD 400+ family may need more detailed geometry'' 5 r
         else r)
      else r)"

definition validateGeometry :: "sir \<Rightarrow> validation_result" where
  "validateGeometry s =
     (case sir_geometryDefinition s of
        None \<Rightarrow> caught ''Geometry validation error: '' (cannot_read ''extrusions'') fresh_results
      | Some g \<Rightarrow>
          (let r1 = (if (case extrusions g of None \<Rightarrow> True | Some es \<Rightarrow> es = [])
                     then add_issue ''No extrusions defined in geometry'' 30 fresh_results
                     else fresh_results);
               r2 = for_each_opt check_extrusion (extrusions g) r1;
               r3 = for_each_opt check_plane (referencePlanes g) r2;
               r4 = for_each_opt check_constraint (map_option indexed (constraints g)) r3
           in (case sir_familyMetadata s of
                 None \<Rightarrow> caught ''Geometry validation error: '' (cannot_read ''lodLevel'') r4
               | Some md \<Rightarrow> lod_geometry_check (lodLevel md) g r4)))"

subsection \<open>Parameters\<close>

text \<open>\<open>validateFormula(formula, parameters)\<close>: validity and error text.\<close>

definition validOperators :: "string list" where
  "validOperators = [''+'', ''-'', ''*'', ''/'', ''('', '')'', ''='', ''<'', ''>'', ''<='', ''>='']"

definition formula_separator :: "char \<Rightarrow> bool" where
  \<comment> \<open>the class \<open>[\s+\-*/()=<>]\<close>\<close>
  "formula_separator c = (is_space c \<or> c \<in> set ''+-*/()=<>'')"

definition validateFormula :: "string option \<Rightarrow> familyParameter list \<Rightarrow> bool \<times> string option" where
  "validateFormula formula ps =
     (case formula of
        None \<Rightarrow> (False, Some ''Empty formula'')
      | Some f \<Rightarrow>
          (if f = [] \<or> trim f = [] then (False, Some ''Empty formula'')
           else if \<not> (\<exists>ch \<in> set f. [ch] \<in> set validOperators) \<and> length f > 1
             then (False, Some ''Formula contains no valid operators'')
           else
             (let parameterNames = map fp_name ps;
                  formulaWords = split_on formula_separator f
              in foldl (\<lambda>result word.
                          if word \<noteq> [] \<and> js_isNaN (JStr word) \<and> word \<notin> set parameterNames
                          then (False, Some (''Undefined parameter reference: '' @ word))
                          else result)
                       (True, None) formulaWords)))"

definition error_text :: "string option \<Rightarrow> string" where
  \<comment> \<open>\<open>`${error}`\<close> for an error that may be \<open>null\<close>\<close>
  "error_text e = (case e of Some t \<Rightarrow> t | None \<Rightarrow> ''null'')"

text \<open>
  \<open>getEssentialParameters(category)\<close> is \<open>essentialParams[category] || []\<close> on an
  object literal. A category that names a member of \<open>Object.prototype\<close> finds that
  member instead of a list, and the \<open>forEach\<close> on it throws (\<open>None\<close> here).
\<close>

definition object_prototype_members :: "string list" where
  "object_prototype_members =
     [''constructor'', ''toString'', ''toLocaleString'', ''valueOf'', ''hasOwnProperty'',
      ''isPrototypeOf'', ''propertyIsEnumerable'', ''__proto__'', ''__defineGetter__'',
      ''__defineSetter__'', ''__lookupGetter__'', ''__lookupSetter__'']"

definition getEssentialParameters :: "string \<Rightarrow> string list option" where
  "getEssentialParameters cat =
     (if cat = ''Doors'' then Some [''Width'', ''Height'', ''Thickness'']
      else if cat = ''Windows'' then Some [''Width'', ''Height'', ''Sill Height'']
      else if cat = ''Furniture'' then Some [''Width'', ''Depth'', ''Height'']
      else if cat = ''Structural Framing'' then Some [''Length'', ''Width'', ''Height'']
      else if cat = ''Structural Columns'' then Some [''Width'', ''Depth'', ''Height'']
      else if cat = ''Mechanical Equipment'' then Some [''Width'', ''Depth'', ''Height'']
      else if cat = ''Electrical Equipment'' then Some [''Width'', ''Depth'', ''Height'']
      else if cat = ''Plumbing Fixtures'' then Some [''Width'', ''Depth'', ''Height'']
      else if cat \<in> set object_prototype_members then None
      else Some [])"

text \<open>\<open>validateParameterValue(value, type)\<close>.\<close>

definition validateParameterValue :: "jsval \<Rightarrow> string \<Rightarrow> bool \<times> string option" where
  "validateParameterValue v ty =
     (if ty = ''Length'' \<or> ty = ''Number'' then
        (if js_isNaN v then (False, Some ''Value must be numeric'') else (True, None))
      else if ty = ''Integer'' then
        (if \<not> js_isInteger (to_number v) then (False, Some ''Value must be an integer'')
         else (True, None))
      else if ty = ''YesNo'' then
        (if v \<noteq> JBool True \<and> v \<noteq> JBool False \<and> v \<noteq> JStr ''true'' \<and> v \<noteq> JStr ''false''
         then (False, Some ''Value must be true or false'') else (True, None))
      else if ty = ''Text'' \<or> ty = ''Material'' then
        (case v of JStr _ \<Rightarrow> (True, None) | _ \<Rightarrow> (False, Some ''Value must be a string''))
      else (True, None))"

definition name_pattern :: regex where
  \<comment> \<open>\<open>[a-zA-Z][a-zA-Z0-9_]*\<close>, the pattern between \<open>^\<close> and \<open>$\<close>\<close>
  "name_pattern = Seq (One Alpha) (Star WordCh)"

definition valid_name :: "string \<Rightarrow> bool" where
  \<comment> \<open>\<open>/^[a-zA-Z][a-zA-Z0-9_]*$/.test(name)\<close>\<close>
  "valid_name n = test_anchored name_pattern n"

definition validTypes :: "string list" where
  "validTypes = [''Length'', ''Number'', ''Text'', ''Material'', ''YesNo'', ''Integer'']"

text \<open>
  The callback of the loop over the family parameters; its state is the results
  record and the set \<open>parameterNames\<close> (a list here).
\<close>

definition check_parameter ::
  "familyParameter list \<Rightarrow> familyParameter \<Rightarrow> validation_result \<times> string list
     \<Rightarrow> validation_result \<times> string list" where
  "check_parameter all_params param st =
     (let r = fst st; parameterNames = snd st;
          r1 = (if fp_name param \<in> set parameterNames
                then add_issue (''Duplicate parameter name: '' @ fp_name param) 15 r else r);
          r2 = (if \<not> valid_name (fp_name param)
                then add_issue (''Invalid parameter name format: '' @ fp_name param) 10 r1 else r1);
          r3 = (if fp_type param \<notin> set validTypes
                then add_issue (''Invalid parameter type: '' @ fp_type param) 10 r2 else r2);
          r4 = (if \<not> falsy_str (fp_formula param) then
                  (let formulaValidation = validateFormula (fp_formula param) all_params
                   in if \<not> fst formulaValidation
                      then add_issue (''Invalid formula for '' @ fp_name param @ '': ''
                                      @ error_text (snd formulaValidation)) 10 r3
                      else r3)
                else r3)
      in (r4, parameterNames @ [fp_name param]))"

definition check_essential :: "string list \<Rightarrow> string \<Rightarrow> validation_result \<Rightarrow> validation_result" where
  "check_essential parameterNames essentialParam r =
     (if essentialParam \<notin> set parameterNames
      then add_warning (''Missing essential parameter: '' @ essentialParam) 5 r else r)"

text \<open>
  The loop over the family types. Its inner loop looks each parameter up with
  \<open>sir.parameters.familyParameters.find\<close>, which throws when the SIR has no
  \<open>familyParameters\<close>. A throw keeps what was pushed before it: the loops return
  the results at that moment together with the error, and do nothing more.
\<close>

fun type_values ::
  "familyParameter list option \<Rightarrow> string \<Rightarrow> (string \<times> jsval) list \<Rightarrow> validation_result
     \<Rightarrow> validation_result \<times> string option" where
  "type_values fps type_name [] r = (r, None)"
| "type_values fps type_name (kv # kvs) r =
     (case fps of
        None \<Rightarrow> (r, Some (cannot_read ''find''))
      | Some ps \<Rightarrow>
          (case find (\<lambda>p. fp_name p = fst kv) ps of
             None \<Rightarrow> type_values fps type_name kvs r
           | Some paramDef \<Rightarrow>
               (let valueValidation = validateParameterValue (snd kv) (fp_type paramDef)
                in if \<not> fst valueValidation
                   then type_values fps type_name kvs
                          (add_issue (''Invalid value for '' @ fst kv @ '' in type ''
                                      @ type_name @ '': ''
                                      @ error_text (snd valueValidation)) 5 r)
                   else type_values fps type_name kvs r)))"

fun check_family_types ::
  "familyParameter list option \<Rightarrow> (nat \<times> familyType) list \<Rightarrow> validation_result
     \<Rightarrow> validation_result \<times> string option" where
  "check_family_types fps [] r = (r, None)"
| "check_family_types fps (it # its) r =
     (let r1 = (if ft_name (snd it) = [] \<or> trim (ft_name (snd it)) = []
                then add_issue (''Family type '' @ show_nat (fst it) @ '' has empty name'') 10 r
                else r);
          inner = (case ft_parameters (snd it) of
                     None \<Rightarrow> (r1, None)
                   | Some kvs \<Rightarrow> type_values fps (ft_name (snd it)) kvs r1)
      in (case snd inner of
            Some err \<Rightarrow> inner
          | None \<Rightarrow> check_family_types fps its (fst inner)))"

definition validateParameters :: "sir \<Rightarrow> validation_result" where
  "validateParameters s =
     (case sir_parameters s of
        None \<Rightarrow> caught ''Parameter validation error: '' (cannot_read ''familyParameters'') fresh_results
      | Some ps \<Rightarrow>
          (let r1 = (if (case familyParameters ps of None \<Rightarrow> True | Some l \<Rightarrow> l = [])
                     then add_issue ''No family parameters defined'' 40 fresh_results
                     else fresh_results);
               after_params =
                 (case familyParameters ps of
                    None \<Rightarrow> (r1, None)
                  | Some l \<Rightarrow>
                      (let st = for_each (check_parameter l) l (r1, [])
                       in (case sir_familyMetadata s of
                             None \<Rightarrow> (fst st, Some (cannot_read ''category''))
                           | Some md \<Rightarrow>
                               (case getEssentialParameters (category md) of
                                  None \<Rightarrow> (fst st, Some ''essentialParams.forEach is not a function'')
                                | Some essentialParams \<Rightarrow>
                                    (for_each (check_essential (snd st)) essentialParams (fst st),
                                     None)))));
               after_types =
                 (case snd after_params of
                    Some err \<Rightarrow> after_params
                  | None \<Rightarrow>
                      (case familyTypes ps of
                         None \<Rightarrow> after_params
                       | Some ts \<Rightarrow> check_family_types (familyParameters ps) (indexed ts)
                                     (fst after_params)))
           in (case snd after_types of
                 Some err \<Rightarrow> caught ''Parameter validation error: '' err (fst after_types)
               | None \<Rightarrow> fst after_types)))"

subsection \<open>Performance\<close>

definition complexityIndicators :: "string list" where
  "complexityIndicators = [''if '', ''for '', ''while '', ''try:'', ''except:'', ''def '', ''class '']"

definition complexityScore :: "string \<Rightarrow> nat" where
  \<comment> \<open>the \<open>complexityScore\<close> of \<open>analyzeCodeComplexity(code)\<close>\<close>
  "complexityScore code = foldl (\<lambda>acc indicator. acc + count_occurrences indicator code * 2) 0
                            complexityIndicators"

definition totalProfilePoints :: "extrusion list \<Rightarrow> nat" where
  "totalProfilePoints es =
     foldl (\<lambda>sum ext. sum + (case ex_profile ext of Some ps \<Rightarrow> length ps | None \<Rightarrow> 0)) 0 es"

definition validatePerformance :: "sir \<Rightarrow> string option \<Rightarrow> validation_result" where
  "validatePerformance s generatedCode =
     (case generatedCode of
        None \<Rightarrow> caught ''Performance validation error: '' (cannot_read ''split'') fresh_results
      | Some code \<Rightarrow>
          (let r1 = (if complexityScore code > 50
                     then add_warning ''High code complexity detected - may impact performance'' 10
                            fresh_results
                     else fresh_results);
               r2 = (if includes_str code ''while '' \<or> includes_str code ''for i in range(1000)''
                     then add_issue ''Performance anti-pattern detected: excessive loops'' 20 r1
                     else r1)
           in (case sir_geometryDefinition s of
                 None \<Rightarrow> caught ''Performance validation error: '' (cannot_read ''extrusions'') r2
               | Some g \<Rightarrow>
                   (let r3 = (case extrusions g of
                                Some es \<Rightarrow>
                                  (if totalProfilePoints es > 100
                                   then add_warning ''High geometry complexity - consider optimization'' 15 r2
                                   else r2)
                              | None \<Rightarrow> r2)
                    in (case sir_parameters s of
                          None \<Rightarrow> caught ''Performance validation error: ''
                                    (cannot_read ''familyParameters'') r3
                        | Some ps \<Rightarrow>
                            (let r4 = (if (case familyParameters ps of
                                             Some l \<Rightarrow> length l > 20 | None \<Rightarrow> False)
                                       then add_warning
                                              ''High parameter count - may impact family performance'' 10 r3
                                       else r3)
                             in (case sir_familyMetadata s of
                                   None \<Rightarrow> caught ''Performance validation error: ''
                                             (cannot_read ''lodLevel'') r4
                                 | Some md \<Rightarrow>
                                     (if lodLevel md \<le> 200 \<and>
                                         (case extrusions g of Some es \<Rightarrow> length es > 2 | None \<Rightarrow> False)
                                      then add_warning
                                             ''LOD 200 family should have minimal geometry for performance''
                                             10 r4
                                      else r4))))))))"

subsection \<open>Compliance\<close>

record compliance_check =
  cc_pass :: bool
  cc_issues :: "string list"
  cc_scoreDeduction :: int

definition validateBEPCompliance :: "sir \<Rightarrow> compliance_check" where
  "validateBEPCompliance s = \<lparr> cc_pass = True, cc_issues = [], cc_scoreDeduction = 0 \<rparr>"

definition validateIndustryStandards :: "sir \<Rightarrow> compliance_check" where
  "validateIndustryStandards s = \<lparr> cc_pass = True, cc_issues = [], cc_scoreDeduction = 0 \<rparr>"

definition validateCategoryCompliance :: "sir \<Rightarrow> compliance_check" where
  "validateCategoryCompliance s = \<lparr> cc_pass = True, cc_issues = [], cc_scoreDeduction = 0 \<rparr>"

definition validateConstraintDependencies :: "constraint list \<Rightarrow> compliance_check" where
  "validateConstraintDependencies cs = \<lparr> cc_pass = True, cc_issues = [], cc_scoreDeduction = 0 \<rparr>"

definition apply_check :: "compliance_check \<Rightarrow> validation_result \<Rightarrow> validation_result" where
  \<comment> \<open>\<open>if (!c.pass) { issues.push(...c.issues); pass = false; score -= c.scoreDeduction }\<close>\<close>
  "apply_check c r =
     (if \<not> cc_pass c
      then r \<lparr> vr_issues := vr_issues r @ cc_issues c, vr_pass := False,
               vr_score := vr_score r - cc_scoreDeduction c \<rparr>
      else r)"

definition validateCompliance :: "sir \<Rightarrow> validation_result" where
  "validateCompliance s =
     apply_check (validateCategoryCompliance s)
       (apply_check (validateIndustryStandards s)
          (apply_check (validateBEPCompliance s) fresh_results))"

subsection \<open>Flexing\<close>

record scenario =
  sc_parameter :: string
  sc_testValues :: "jsval list"
  sc_description :: string

definition generateTestValues :: "familyParameter \<Rightarrow> jsval list" where
  "generateTestValues param =
     (if fp_defaultValue param \<noteq> JUndefined then [fp_defaultValue param] else [])
     @ (if fp_type param = ''Length'' then [JNum 0.1, JNum 1, JNum 10, JNum 100]
        else if fp_type param = ''Number'' then [JNum 0, JNum 1, JNum 10, JNum 100, JNum 1000]
        else [])"

definition generateFlexingScenarios :: "parameters \<Rightarrow> scenario list" where
  "generateFlexingScenarios ps =
     (case familyParameters ps of
        None \<Rightarrow> []
      | Some l \<Rightarrow>
          map (\<lambda>param. \<lparr> sc_parameter = fp_name param,
                         sc_testValues = generateTestValues param,
                         sc_description = ''Test flexing for parameter '' @ fp_name param \<rparr>)
              (filter (\<lambda>param. fp_type param = ''Length'' \<or> fp_type param = ''Number'') l))"

definition references :: "string \<Rightarrow> familyParameter \<Rightarrow> bool" where
  \<comment> \<open>\<open>param.formula && param.formula.includes(name)\<close>\<close>
  "references name param =
     (case fp_formula param of None \<Rightarrow> False | Some f \<Rightarrow> f \<noteq> [] \<and> includes_str f name)"

definition validateFlexingScenario :: "scenario \<Rightarrow> familyParameter list \<Rightarrow> bool \<times> string option" where
  "validateFlexingScenario sc fps =
     (if sc_parameter sc \<noteq> [] then
        (case find (references (sc_parameter sc)) fps of
           None \<Rightarrow> (True, None)
         | Some p \<Rightarrow>
             (let formulaValidation = validateFormula (fp_formula p) fps
              in if \<not> fst formulaValidation
                 then (False, Some (''Formula validation failed: ''
                                    @ error_text (snd formulaValidation)))
                 else (True, None)))
      else (True, None))"

definition check_scenario :: "familyParameter list \<Rightarrow> scenario \<Rightarrow> validation_result \<Rightarrow> validation_result" where
  "check_scenario fps sc r =
     (let scenarioValidation = validateFlexingScenario sc fps
      in if \<not> fst scenarioValidation
         then add_issue (''Flexing scenario failed: '' @ error_text (snd scenarioValidation)) 15 r
         else r)"

definition validateFlexing :: "sir \<Rightarrow> validation_result" where
  "validateFlexing s =
     (case sir_parameters s of
        None \<Rightarrow> caught ''Flexing validation error: '' (cannot_read ''familyParameters'') fresh_results
      | Some ps \<Rightarrow>
          (let fps = (case familyParameters ps of Some l \<Rightarrow> l | None \<Rightarrow> []);
               r1 = for_each (check_scenario fps) (generateFlexingScenarios ps) fresh_results
           in (case sir_geometryDefinition s of
                 None \<Rightarrow> caught ''Flexing validation error: '' (cannot_read ''constraints'') r1
               | Some g \<Rightarrow>
                   (case constraints g of
                      None \<Rightarrow> r1
                    | Some cs \<Rightarrow> apply_check (validateConstraintDependencies cs) r1))))"

subsection \<open>Metadata\<close>

definition validCategories :: "string list" where
  "validCategories =
     [''Doors'', ''Windows'', ''Furniture'', ''Structural Framing'', ''Structural Columns'',
      ''Mechanical Equipment'', ''Electrical Equipment'', ''Plumbing Fixtures'']"

text \<open>
  The text of a number in a message, \<open>`${lod}`\<close>, is the conversion of a double to a
  string; it is a parameter, \<open>num\<close>, of the functions that print numbers.
\<close>

definition validateMetadata :: "(rat \<Rightarrow> string) \<Rightarrow> sir \<Rightarrow> validation_result" where
  "validateMetadata num s =
     (case sir_familyMetadata s of
        None \<Rightarrow> caught ''Metadata validation error: '' (cannot_read ''familyName'') fresh_results
      | Some md \<Rightarrow>
          (let r1 = (if familyName md = []
                     then add_issue ''Missing required metadata field: familyName'' 20 fresh_results
                     else fresh_results);
               r2 = (if category md = []
                     then add_issue ''Missing required metadata field: category'' 20 r1 else r1);
               r3 = (if lodLevel md = 0
                     then add_issue ''Missing required metadata field: lodLevel'' 20 r2 else r2);
               lod = lodLevel md;
               r4 = (if lod < 100 \<or> lod > 500 \<or> js_rem lod 100 \<noteq> 0
                     then add_issue (''Invalid LOD level: '' @ num lod
                                     @ '' (must be 100, 200, 300, 400, or 500)'') 25 r3
                     else r3);
               r5 = (if category md \<notin> set validCategories
                     then add_warning (''Non-standard category: '' @ category md) 5 r4 else r4)
           in if (case description md of None \<Rightarrow> True | Some d \<Rightarrow> d = [] \<or> trim d = [])
              then add_warning ''Missing family description'' 5 r5
              else r5))"

subsection \<open>The aggregate\<close>

record validations =
  geometryValidation :: validation_result
  parameterValidation :: validation_result
  performanceValidation :: validation_result
  complianceValidation :: validation_result
  flexingValidation :: validation_result
  metadataValidation :: validation_result

definition determineOverallPass :: "validations \<Rightarrow> bool" where
  "determineOverallPass v =
     (vr_pass (geometryValidation v) \<and> vr_pass (parameterValidation v)
      \<and> vr_pass (metadataValidation v))"

record recommendation =
  rec_type :: string
  rec_priority :: string
  rec_findings :: "string list"
  rec_suggestions :: "string list"

definition getSuggestionsForIssues :: "string \<Rightarrow> string list \<Rightarrow> string list" where
  "getSuggestionsForIssues validationType issues =
     concat (map (\<lambda>issue.
        if validationType = ''geometryValidation'' \<and> includes_str issue ''invalid profile''
          then [''Ensure extrusion profiles have at least 3 points forming a closed loop'']
        else if validationType = ''parameterValidation'' \<and> includes_str issue ''Invalid parameter name''
          then [''Use alphanumeric names starting with a letter, avoid special characters'']
        else if validationType = ''metadataValidation'' \<and> includes_str issue ''Invalid LOD level''
          then [''Use standard LOD levels: 100, 200, 300, 400, or 500'']
        else []) issues)"

definition getSuggestionsForWarnings :: "string \<Rightarrow> string list \<Rightarrow> string list" where
  "getSuggestionsForWarnings validationType warnings =
     concat (map (\<lambda>warning.
        if validationType = ''performanceValidation'' \<and> includes_str warning ''High complexity''
          then [''Consider simplifying geometry or reducing parameter count for better performance'']
        else if validationType = ''geometryValidation'' \<and> includes_str warning ''complex geometry''
          then [''For LOD 200 families, use simple symbolic geometry instead of detailed 3D models'']
        else []) warnings)"

definition recommend :: "string \<times> validation_result \<Rightarrow> recommendation list" where
  "recommend tv =
     (if vr_issues (snd tv) \<noteq> []
      then [\<lparr> rec_type = fst tv, rec_priority = ''high'', rec_findings = vr_issues (snd tv),
              rec_suggestions = getSuggestionsForIssues (fst tv) (vr_issues (snd tv)) \<rparr>]
      else [])
     @ (if vr_warnings (snd tv) \<noteq> []
        then [\<lparr> rec_type = fst tv, rec_priority = ''medium'', rec_findings = vr_warnings (snd tv),
                rec_suggestions = getSuggestionsForWarnings (fst tv) (vr_warnings (snd tv)) \<rparr>]
        else [])"

definition generateRecommendations :: "validations \<Rightarrow> recommendation list" where
  "generateRecommendations v =
     concat (map recommend
       [(''geometryValidation'', geometryValidation v),
        (''parameterValidation'', parameterValidation v),
        (''performanceValidation'', performanceValidation v),
        (''complianceValidation'', complianceValidation v),
        (''flexingValidation'', flexingValidation v),
        (''metadataValidation'', metadataValidation v)])"

record qa_report =
  qa_overallPass :: bool
  qa_timestamp :: string
  qa_familyName :: string
  qa_category :: string
  qa_lodLevel :: rat
  qa_validations :: validations
  qa_recommendations :: "recommendation list"

text \<open>
  \<open>validateFamily(sir, generatedCode, executionResult)\<close>: the report, or, when reading
  the metadata throws, \<open>{overallPass: false, error, timestamp}\<close>.
\<close>

definition validateFamily ::
  "(rat \<Rightarrow> string) \<Rightarrow> string \<Rightarrow> sir \<Rightarrow> string option \<Rightarrow> string \<times> string + qa_report" where
  "validateFamily num now s generatedCode =
     (case sir_familyMetadata s of
        None \<Rightarrow> Inl (cannot_read ''familyName'', now)
      | Some md \<Rightarrow>
          (let v = \<lparr> geometryValidation = validateGeometry s,
                     parameterValidation = validateParameters s,
                     performanceValidation = validatePerformance s generatedCode,
                     complianceValidation = validateCompliance s,
                     flexingValidation = validateFlexing s,
                     metadataValidation = validateMetadata num s \<rparr>
           in Inr \<lparr> qa_overallPass = determineOverallPass v, qa_timestamp = now,
                    qa_familyName = familyName md, qa_category = category md,
                    qa_lodLevel = lodLevel md, qa_validations = v,
                    qa_recommendations = generateRecommendations v \<rparr>))"

section \<open>The code emitter: \<open>SIRToCodeInterpreter\<close>\<close>

text \<open>
  The emitter builds Python text line by line. \<open>lines.join('\n')\<close> is
  \<open>join_lines\<close>; a value in a template, \<open>`${v}`\<close>, is its text, with the text of
  a number again the parameter \<open>num\<close>. The clock is read twice, for the comment
  \<open># Generated at:\<close> in the imports and for \<open>generatedAt\<close> in the metadata; both
  readings (as ISO strings) are parameters.
\<close>

fun join_with :: "string \<Rightarrow> string list \<Rightarrow> string" where
  "join_with sep [] = []"
| "join_with sep [l] = l"
| "join_with sep (l # m # ls) = l @ sep @ join_with sep (m # ls)"

definition join_lines :: "string list \<Rightarrow> string" where
  "join_lines ls = join_with [CHR 0x0A] ls"

fun show_jsval :: "(rat \<Rightarrow> string) \<Rightarrow> jsval \<Rightarrow> string" where
  "show_jsval num JUndefined = ''undefined''"
| "show_jsval num JNull = ''null''"
| "show_jsval num (JBool b) = (if b then ''true'' else ''false'')"
| "show_jsval num (JNum n) = num n"
| "show_jsval num (JStr s) = s"

definition show_opt :: "string option \<Rightarrow> string" where
  "show_opt s = (case s of Some t \<Rightarrow> t | None \<Rightarrow> ''undefined'')"

definition imports_header :: "string \<Rightarrow> familyMetadata \<Rightarrow> string list" where
  "imports_header now md =
     [''import clr'',
      ''clr.AddReference('' @ [CHR 0x22] @ ''RevitAPI'' @ [CHR 0x22] @ '')'',
      ''clr.AddReference('' @ [CHR 0x22] @ ''RevitServices'' @ [CHR 0x22] @ '')'',
      ''clr.AddReference('' @ [CHR 0x22] @ ''RevitNodes'' @ [CHR 0x22] @ '')'',
      [],
      ''from Autodesk.Revit.DB import *'',
      ''from Autodesk.Revit.DB.Structure import *'',
      ''from Autodesk.Revit.UI import *'',
      ''from RevitServices.Persistence import DocumentManager'',
      ''from RevitServices.Transactions import TransactionManager'',
      [],
      ''# BIM-LLM Generated Code'',
      ''# Generated at: '' @ now,
      ''# Family: '' @ familyName md,
      []]"

definition category_imports :: "familyMetadata \<Rightarrow> string list" where
  \<comment> \<open>the import pushed for the category of the family\<close>
  "category_imports md =
     (if category md = ''Doors'' then [''from Autodesk.Revit.DB.Architecture import *'']
      else if category md = ''Windows'' then [''from Autodesk.Revit.DB.Architecture import *'']
      else if includes_str (category md) ''Structural''
        then [''from Autodesk.Revit.DB.Structure import *'']
      else [])"

definition generateImports :: "string \<Rightarrow> familyMetadata \<Rightarrow> string" where
  "generateImports now md = join_lines (imports_header now md @ category_imports md)"

definition generateFamilySetup :: "(rat \<Rightarrow> string) \<Rightarrow> familyMetadata \<Rightarrow> string" where
  "generateFamilySetup num md =
     join_lines
       [''# Family Setup'',
        ''doc = DocumentManager.Instance.CurrentDBDocument'',
        ''app = DocumentManager.Instance.CurrentUIApplication.Application'',
        [],
        ''# Transaction for family creation'',
        ''TransactionManager.Instance.EnsureInTransaction(doc)'',
        [],
        ''try:'',
        ''    # Family metadata'',
        ''    family_name = '' @ [CHR 0x22] @ familyName md @ [CHR 0x22],
        ''    family_category = '' @ [CHR 0x22] @ category md @ [CHR 0x22],
        ''    family_description = '' @ [CHR 0x22] @ (case description md of Some d \<Rightarrow> d | None \<Rightarrow> []) @ [CHR 0x22],
        ''    lod_level = '' @ num (lodLevel md),
        [],
        ''    # Validate family document'',
        ''    if not doc.IsFamilyDocument:'',
        ''        raise Exception('' @ [CHR 0x22] @ ''This script must run in a family document'' @ [CHR 0x22] @ '')'',
        [],
        ''    # Get family category'',
        ''    categories = doc.Settings.Categories'',
        ''    target_category = None'',
        ''    for cat in categories:'',
        ''        if cat.Name == family_category:'',
        ''            target_category = cat'',
        ''            break'',
        [],
        ''    if target_category is None:'',
        ''        raise Exception(f'' @ [CHR 0x22] @ ''Category {family_category} not found'' @ [CHR 0x22] @ '')'',
        [],
        ''    # Set family category if not already set'',
        ''    if doc.OwnerFamily.FamilyCategory.Name != family_category:'',
        ''        doc.OwnerFamily.FamilyCategory = target_category'',
        []]"

definition plane_lines :: "(rat \<Rightarrow> string) \<Rightarrow> referencePlane \<Rightarrow> string list" where
  "plane_lines num plane =
     [''    # Reference Plane: '' @ rp_name plane,
      ''    plane_origin = XYZ('' @ num (p3_x (rp_origin plane)) @ '', '' @ num (p3_y (rp_origin plane)) @ '', '' @ num (p3_z (rp_origin plane)) @ '')'',
      ''    plane_normal = XYZ('' @ num (p3_x (rp_normal plane)) @ '', '' @ num (p3_y (rp_normal plane)) @ '', '' @ num (p3_z (rp_normal plane)) @ '')'',
      ''    ref_plane = Plane.CreateByNormalAndOrigin(plane_normal, plane_origin)'',
      ''    reference_planes['' @ [CHR 0x22] @ rp_name plane @ [CHR 0x22] @ ''] = ref_plane'',
      []]"

definition generateReferencePlanes :: "(rat \<Rightarrow> string) \<Rightarrow> geometryDefinition \<Rightarrow> string" where
  "generateReferencePlanes num g =
     join_lines
       ([''    # Reference Planes'',
         ''    reference_planes = {}'',
         []]
        @ (case referencePlanes g of
             Some planes \<Rightarrow> concat (map (plane_lines num) planes)
           | None \<Rightarrow> []))"

definition formatParameterValue :: "(rat \<Rightarrow> string) \<Rightarrow> jsval \<Rightarrow> string \<Rightarrow> string" where
  "formatParameterValue num v ty =
     (if ty = ''Length'' \<or> ty = ''Number'' then show_jsval num v
      else [CHR 0x22] @ show_jsval num v @ [CHR 0x22])"

definition parameter_lines :: "(rat \<Rightarrow> string) \<Rightarrow> familyParameter \<Rightarrow> string list" where
  "parameter_lines num param =
     [''    # Parameter: '' @ fp_name param,
      ''    param_def = FamilyParameterDefinition.Create('' @ [CHR 0x22] @ fp_name param @ [CHR 0x22] @ '', ParameterType.'' @ fp_type param @ '')'',
      ''    param_def.SetGroupTypeId(GroupTypeId.'' @ (case fp_group param of Some grp \<Rightarrow> str_or grp ''Data'' | None \<Rightarrow> ''Data'') @ '')'',
      ''    param_def.IsInstance = '' @ (if fp_isInstance param then ''True'' else ''False'')]
     @ (if fp_defaultValue param \<noteq> JUndefined
        then [''    param_def.DefaultValue = '' @ formatParameterValue num (fp_defaultValue param) (fp_type param)]
        else [])
     @ (case fp_formula param of
          Some f \<Rightarrow> (if f \<noteq> [] then [''    param_def.Formula = '' @ [CHR 0x22] @ f @ [CHR 0x22]] else [])
        | None \<Rightarrow> [])
     @ [''    created_parameters['' @ [CHR 0x22] @ fp_name param @ [CHR 0x22] @ ''] = param_def'',
        []]"

definition generateParameters :: "(rat \<Rightarrow> string) \<Rightarrow> parameters \<Rightarrow> string" where
  "generateParameters num ps =
     join_lines
       ([''    # Family Parameters'',
         ''    created_parameters = {}'',
         []]
        @ (case familyParameters ps of
             Some l \<Rightarrow> concat (map (parameter_lines num) l)
           | None \<Rightarrow> []))"

definition edge_lines :: "(rat \<Rightarrow> string) \<Rightarrow> point2 \<Rightarrow> point2 \<Rightarrow> string list" where
  "edge_lines num point nextPoint =
     [''    # Line from ('' @ num (pt_x point) @ '', '' @ num (pt_y point) @ '') to ('' @ num (pt_x nextPoint) @ '', '' @ num (pt_y nextPoint) @ '')'',
      ''    start_pt = XYZ('' @ num (pt_x point) @ '', '' @ num (pt_y point) @ '', 0)'',
      ''    end_pt = XYZ('' @ num (pt_x nextPoint) @ '', '' @ num (pt_y nextPoint) @ '', 0)'',
      ''    line = Line.CreateBound(start_pt, end_pt)'',
      ''    profile_curves.Append(line)'']"

definition profile_lines :: "(rat \<Rightarrow> string) \<Rightarrow> point2 list \<Rightarrow> string list" where
  "profile_lines num profile =
     concat (map (\<lambda>pointIndex.
                    edge_lines num (profile ! pointIndex)
                      (profile ! ((pointIndex + 1) mod length profile)))
                 [0 ..< length profile])"

definition extrusion_lines :: "(rat \<Rightarrow> string) \<Rightarrow> extrusion \<Rightarrow> string list" where
  "extrusion_lines num extrusion =
     [''    # Extrusion: '' @ ex_name extrusion,
      ''    # Start Point: ('' @ num (p3_x (ex_startPoint extrusion)) @ '', '' @ num (p3_y (ex_startPoint extrusion)) @ '', '' @ num (p3_z (ex_startPoint extrusion)) @ '')'',
      ''    # End Point: ('' @ num (p3_x (ex_endPoint extrusion)) @ '', '' @ num (p3_y (ex_endPoint extrusion)) @ '', '' @ num (p3_z (ex_endPoint extrusion)) @ '')'',
      [],
      ''    # Create sketch plane'',
      ''    sketch_plane = Plane.CreateByNormalAndOrigin(XYZ(0, 0, 1), XYZ(0, 0, 0))'',
      ''    sketch = SketchPlane.Create(doc, sketch_plane)'',
      [],
      ''    # Create profile curves'',
      ''    profile_curves = CurveArray()'']
     @ (case ex_profile extrusion of
          Some profile \<Rightarrow> profile_lines num profile
        | None \<Rightarrow> [])
     @ [[],
        ''    # Create extrusion'',
        ''    extrusion_height = '' @ num (p3_z (ex_endPoint extrusion) - p3_z (ex_startPoint extrusion)),
        ''    extrusion_obj = doc.FamilyCreate.NewExtrusion(True, profile_curves, sketch, extrusion_height)'',
        ''    created_geometry['' @ [CHR 0x22] @ ex_name extrusion @ [CHR 0x22] @ ''] = extrusion_obj'',
        []]"

definition generateGeometry :: "(rat \<Rightarrow> string) \<Rightarrow> geometryDefinition \<Rightarrow> string" where
  "generateGeometry num g =
     join_lines
       ([''    # Geometry Creation'',
         ''    created_geometry = {}'',
         []]
        @ (case extrusions g of
             Some es \<Rightarrow> concat (map (extrusion_lines num) es)
           | None \<Rightarrow> []))"

definition constraint_lines :: "(rat \<Rightarrow> string) \<Rightarrow> constraint \<Rightarrow> string list" where
  "constraint_lines num c =
     [''    # Constraint: '' @ show_opt (element1 c) @ '' -> '' @ show_opt (element2 c),
      ''    # Type: '' @ constraintType c,
      ''    # Offset: '' @ num (offset c),
      []]
     @ (if constraintType c = ''align'' then
          [''    # Align constraint implementation'',
           ''    # TODO: Implement alignment constraint'']
        else if constraintType c = ''lock'' then
          [''    # Lock constraint implementation'',
           ''    # TODO: Implement lock constraint'']
        else if constraintType c = ''dimension'' then
          [''    # Dimension constraint implementation'',
           ''    # TODO: Implement dimension constraint'']
        else [])
     @ [[]]"

definition generateConstraints :: "(rat \<Rightarrow> string) \<Rightarrow> geometryDefinition \<Rightarrow> string" where
  "generateConstraints num g =
     join_lines
       ([''    # Constraints and Relationships'',
         []]
        @ (case constraints g of
             Some cs \<Rightarrow> concat (map (constraint_lines num) cs)
           | None \<Rightarrow> []))"

definition material_lines :: "material \<Rightarrow> string list" where
  "material_lines m =
     [''    # Material: '' @ mat_name m,
      ''    # Parameter: '' @ show_opt (mat_parameterName m),
      ''    # Default: '' @ show_opt (mat_defaultValue m),
      [],
      ''    if '' @ [CHR 0x22] @ show_opt (mat_parameterName m) @ [CHR 0x22] @ '' not in created_parameters:'',
      ''        mat_param = FamilyParameterDefinition.Create('' @ [CHR 0x22] @ show_opt (mat_parameterName m) @ [CHR 0x22] @ '', ParameterType.Material)'',
      ''        mat_param.SetGroupTypeId(GroupTypeId.Materials)'',
      ''        mat_param.IsInstance = True'',
      ''        created_parameters['' @ [CHR 0x22] @ show_opt (mat_parameterName m) @ [CHR 0x22] @ ''] = mat_param'',
      []]"

definition generateMaterials :: "sir \<Rightarrow> string" where
  "generateMaterials s =
     join_lines
       ([''    # Materials'',
         ''    created_materials = {}'',
         []]
        @ (case sir_materials s of
             Some ms \<Rightarrow> concat (map material_lines ms)
           | None \<Rightarrow> []))"

definition type_value_lines :: "(rat \<Rightarrow> string) \<Rightarrow> string \<times> jsval \<Rightarrow> string list" where
  "type_value_lines num kv =
     [''    # Set parameter '' @ fst kv @ '' = '' @ show_jsval num (snd kv),
      ''    # TODO: Implement parameter value setting'']"

definition type_lines :: "(rat \<Rightarrow> string) \<Rightarrow> familyType \<Rightarrow> string list" where
  "type_lines num ty =
     [''    # Family Type: '' @ ft_name ty,
      ''    family_type = doc.FamilyCreate.NewType('' @ [CHR 0x22] @ ft_name ty @ [CHR 0x22] @ '')'',
      []]
     @ (case ft_parameters ty of
          Some kvs \<Rightarrow> concat (map (type_value_lines num) kvs)
        | None \<Rightarrow> [])
     @ [''    created_types['' @ [CHR 0x22] @ ft_name ty @ [CHR 0x22] @ ''] = family_type'',
        []]"

definition generateFamilyTypes :: "(rat \<Rightarrow> string) \<Rightarrow> parameters \<Rightarrow> string" where
  "generateFamilyTypes num ps =
     join_lines
       ([''    # Family Types'',
         ''    created_types = {}'',
         []]
        @ (case familyTypes ps of
             Some ts \<Rightarrow> concat (map (type_lines num) ts)
           | None \<Rightarrow> []))"

definition element_visibility_lines :: "string \<Rightarrow> string \<Rightarrow> string list" where
  "element_visibility_lines detailLevel elementName =
     [''    # Set '' @ elementName @ '' visibility for '' @ detailLevel,
      ''    # TODO: Implement visibility setting for '' @ elementName]"

definition level_lines :: "string \<Rightarrow> string \<Rightarrow> string list option \<Rightarrow> string list" where
  "level_lines detailLevel upper elements =
     (case elements of
        Some names \<Rightarrow>
          [''    # '' @ upper @ '' visibility'']
          @ concat (map (element_visibility_lines detailLevel) names)
          @ [[]]
      | None \<Rightarrow> [])"

definition generateVisibilitySettings :: "sir \<Rightarrow> string" where
  "generateVisibilitySettings s =
     join_lines
       ([''    # Visibility Settings'',
         []]
        @ (case sir_visibilitySettings s of
             Some vs \<Rightarrow>
               level_lines ''coarse'' ''COARSE'' (vs_coarse vs)
               @ level_lines ''medium'' ''MEDIUM'' (vs_medium vs)
               @ level_lines ''fine'' ''FINE'' (vs_fine vs)
           | None \<Rightarrow> []))"

definition generateValidationCode :: "sir \<Rightarrow> string" where
  "generateValidationCode s =
     join_lines
       [''    # Validation and Quality Assurance'',
        ''    validation_results = {'',
        ''        '' @ [CHR 0x22] @ ''geometry_created'' @ [CHR 0x22] @ '': len(created_geometry) > 0,'',
        ''        '' @ [CHR 0x22] @ ''parameters_created'' @ [CHR 0x22] @ '': len(created_parameters) > 0,'',
        ''        '' @ [CHR 0x22] @ ''family_types_created'' @ [CHR 0x22] @ '': len(created_types) > 0,'',
        ''        '' @ [CHR 0x22] @ ''lod_compliance'' @ [CHR 0x22] @ '': True,  # TODO: Implement LOD validation'',
        ''        '' @ [CHR 0x22] @ ''performance_optimized'' @ [CHR 0x22] @ '': True  # TODO: Implement performance checks'',
        ''    }'',
        [],
        ''    # Log validation results'',
        ''    print('' @ [CHR 0x22] @ ''Family Creation Validation Results:'' @ [CHR 0x22] @ '')'',
        ''    for key, value in validation_results.items():'',
        ''        print(f'' @ [CHR 0x22] @ ''  {key}: {value}'' @ [CHR 0x22] @ '')'',
        [],
        ''    # Commit transaction'',
        ''    TransactionManager.Instance.TransactionTaskDone()'',
        [],
        ''    print(f'' @ [CHR 0x22] @ ''Successfully created family: {family_name}'' @ [CHR 0x22] @ '')'',
        ''    print(f'' @ [CHR 0x22] @ ''Category: {family_category}'' @ [CHR 0x22] @ '')'',
        ''    print(f'' @ [CHR 0x22] @ ''LOD Level: {lod_level}'' @ [CHR 0x22] @ '')'',
        [],
        ''except Exception as e:'',
        ''    print(f'' @ [CHR 0x22] @ ''Error creating family: {str(e)}'' @ [CHR 0x22] @ '')'',
        ''    TransactionManager.Instance.TransactionTaskDone()'',
        ''    raise e'',
        []]"

text \<open>
  \<open>code.replace(/r/g, '')\<close>: every match of \<open>r\<close>, found from left to right, is
  removed. After a match the search goes on behind it; where there is none (or only
  an empty one) the character is kept and the search moves one character on.
\<close>

function js_remove_all :: "regex \<Rightarrow> string \<Rightarrow> string" where
  "js_remove_all r s =
     (case s of
        [] \<Rightarrow> []
      | c # cs \<Rightarrow>
          (case rmatch r (s, []) of
             [] \<Rightarrow> c # js_remove_all r cs
           | st # _ \<Rightarrow>
               (if length (fst st) < length s then js_remove_all r (fst st)
                else c # js_remove_all r cs)))"
  by pat_completeness auto
termination
  by (relation "measure (\<lambda>(r, s). length s)") auto

declare js_remove_all.simps [simp del]

definition to_end_of_line :: "string \<Rightarrow> regex" where
  \<comment> \<open>the pattern \<open>marker.*\n\<close>\<close>
  "to_end_of_line marker = seqs [Lit marker, Star Dot, Lit [CHR 0x0A]]"

definition minimize_voids :: "familyMetadata \<Rightarrow> string \<Rightarrow> string" where
  "minimize_voids md code =
     (if lodLevel md \<le> 200 then js_remove_all (to_end_of_line ''NewVoid'') code else code)"

definition optimize_arrays :: "familyMetadata \<Rightarrow> string \<Rightarrow> string" where
  "optimize_arrays md code = js_remove_all (to_end_of_line ''Array.Create'') code"

definition applyPerformanceOptimizations :: "familyMetadata \<Rightarrow> string \<Rightarrow> string" where
  "applyPerformanceOptimizations md code =
     (let c1 = (if lodLevel md \<le> 200 then js_remove_all (to_end_of_line ''# '') code else code);
          c2 = (if lodLevel md \<le> 200
                then js_remove_all
                       (to_end_of_line ''extrusion_obj = doc.FamilyCreate.NewExtrusion'') c1
                else c1)
      in optimize_arrays md (minimize_voids md c2))"

record code_sections =
  sec_imports :: string
  sec_familySetup :: string
  sec_referencePlanes :: string
  sec_parameters :: string
  sec_geometry :: string
  sec_constraints :: string
  sec_materials :: string
  sec_familyTypes :: string
  sec_visibility :: string
  sec_validation :: string

definition combineCodeSections :: "code_sections \<Rightarrow> string" where
  "combineCodeSections sections =
     join_with [CHR 0x0A, CHR 0x0A]
       [sec_imports sections, sec_familySetup sections, sec_referencePlanes sections,
        sec_parameters sections, sec_geometry sections, sec_constraints sections,
        sec_materials sections, sec_familyTypes sections, sec_visibility sections,
        sec_validation sections]"

definition list_length :: "'a list option \<Rightarrow> nat" where
  "list_length xs = (case xs of Some l \<Rightarrow> length l | None \<Rightarrow> 0)"

definition estimateExecutionTime :: "geometryDefinition \<Rightarrow> parameters \<Rightarrow> nat" where
  "estimateExecutionTime g ps =
     min (30 + list_length (extrusions g) * 5 + list_length (familyParameters ps) * 2
          + list_length (familyTypes ps) * 3) 300"

definition calculateComplexityScore :: "geometryDefinition \<Rightarrow> parameters \<Rightarrow> nat" where
  "calculateComplexityScore g ps =
     list_length (extrusions g) * 2 + list_length (familyParameters ps)
     + list_length (familyTypes ps) * 2"

definition getAppliedOptimizations :: "familyMetadata \<Rightarrow> geometryDefinition \<Rightarrow> string list" where
  "getAppliedOptimizations md g =
     (if lodLevel md \<le> 200 then [''simplified_geometry''] else [])
     @ (if (case extrusions g of Some es \<Rightarrow> length es > 5 | None \<Rightarrow> False)
        then [''geometry_consolidation''] else [])"

record execution_metadata =
  em_familyName :: string
  em_category :: string
  em_lodLevel :: rat
  em_codeLength :: nat
  em_estimatedExecutionTime :: nat
  em_complexityScore :: nat
  em_performanceOptimizations :: "string list"
  em_generatedAt :: string

definition generateExecutionMetadata ::
  "string \<Rightarrow> familyMetadata \<Rightarrow> geometryDefinition \<Rightarrow> parameters \<Rightarrow> string \<Rightarrow> execution_metadata" where
  "generateExecutionMetadata now md g ps code =
     \<lparr> em_familyName = familyName md, em_category = category md, em_lodLevel = lodLevel md,
       em_codeLength = length code,
       em_estimatedExecutionTime = estimateExecutionTime g ps,
       em_complexityScore = calculateComplexityScore g ps,
       em_performanceOptimizations = getAppliedOptimizations md g,
       em_generatedAt = now \<rparr>"

text \<open>The emitter's own \<open>validateSIR\<close>: the message of the error it throws, if any.\<close>

definition emitter_validateSIR :: "sir \<Rightarrow> string option" where
  "emitter_validateSIR s =
     (case sir_familyMetadata s of
        None \<Rightarrow> Some ''Missing familyMetadata in SIR''
      | Some md \<Rightarrow>
          (if sir_geometryDefinition s = None then Some ''Missing geometryDefinition in SIR''
           else if sir_parameters s = None then Some ''Missing parameters in SIR''
           else if lodLevel md < 100 \<or> lodLevel md > 500 then Some ''Invalid LOD level''
           else None))"

record emitted =
  em_code :: string
  em_metadata :: execution_metadata
  em_sections :: code_sections

definition generate_sections ::
  "(rat \<Rightarrow> string) \<Rightarrow> string \<Rightarrow> sir \<Rightarrow> familyMetadata \<Rightarrow> geometryDefinition \<Rightarrow> parameters
     \<Rightarrow> code_sections" where
  "generate_sections num now s md g ps =
     \<lparr> sec_imports = generateImports now md,
       sec_familySetup = generateFamilySetup num md,
       sec_referencePlanes = generateReferencePlanes num g,
       sec_parameters = generateParameters num ps,
       sec_geometry = generateGeometry num g,
       sec_constraints = generateConstraints num g,
       sec_materials = generateMaterials s,
       sec_familyTypes = generateFamilyTypes num ps,
       sec_visibility = generateVisibilitySettings s,
       sec_validation = generateValidationCode s \<rparr>"

text \<open>
  \<open>translateSIRToCode(sir)\<close>: \<open>{success: false, error}\<close> (\<open>Inl\<close>) when the
  validation throws, else the code, its metadata and the sections.
\<close>

definition translateSIRToCode ::
  "(rat \<Rightarrow> string) \<Rightarrow> string \<Rightarrow> string \<Rightarrow> sir \<Rightarrow> string + emitted" where
  "translateSIRToCode num now_imports now_metadata s =
     (case emitter_validateSIR s of
        Some err \<Rightarrow> Inl err
      | None \<Rightarrow>
          (case (sir_familyMetadata s, sir_geometryDefinition s, sir_parameters s) of
             (Some md, Some g, Some ps) \<Rightarrow>
               (let codeSections = generate_sections num now_imports s md g ps;
                    fullCode = combineCodeSections codeSections;
                    optimizedCode = applyPerformanceOptimizations md fullCode
                in Inr \<lparr> em_code = optimizedCode,
                         em_metadata = generateExecutionMetadata now_metadata md g ps optimizedCode,
                         em_sections = codeSections \<rparr>)
           | _ \<Rightarrow> Inl ''Missing familyMetadata in SIR''))"


subsection \<open>Example SIRs\<close>

definition length_parameter :: "string \<Rightarrow> rat \<Rightarrow> familyParameter" where
  "length_parameter n v =
     \<lparr> fp_name = n, fp_type = ''Length'', fp_group = None, fp_isInstance = True,
       fp_defaultValue = JNum v, fp_formula = None \<rparr>"

definition clean_door_sir :: sir where
  "clean_door_sir =
     demoFamily ''Panel Door'' ''Doors'' ''A panel door'' [demo_mainBody 3 7 50 ''Wood'']
       \<lparr> familyParameters = Some [length_parameter ''Width'' 3, length_parameter ''Height'' 7,
                                   length_parameter ''Thickness'' (1/6)],
         familyTypes = Some [\<lparr> ft_name = ''Type 1'',
                               ft_parameters = Some [(''Width'', JNum 3), (''Height'', JNum 7)] \<rparr>] \<rparr>
       ''Glass'' ''Wood''
     \<lparr> sir_familyMetadata := Some
         \<lparr> familyName = ''Panel Door'', category = ''Doors'', description = Some ''A panel door'',
           lodLevel = 300, isHosted = False, hostingType = None \<rparr> \<rparr>"




definition whole_number :: "rat \<Rightarrow> string" where
  \<comment> \<open>the text of a number that is an integer\<close>
  "whole_number q = show_int \<lfloor>q\<rfloor>"

definition spec_prompt :: string where
  "spec_prompt = ''Create a 900 mm wide, 1200 mm high double-hung window with 900 mm sill height''"

definition sir_without_dimensions :: sir where
  "sir_without_dimensions =
     demoFamily ''Generated Window'' ''Windows'' ''Parametric window family''
       [demo_mainBody 2 4 100 ''Default'']
       \<lparr> familyParameters = Some [length_parameter ''Depth'' (1/2)], familyTypes = Some [] \<rparr>
       ''Default'' ''Default''"



text \<open>Auxiliary notions of the proofs about \<open>js_remove_all\<close>.\<close>

fun kept :: "string \<Rightarrow> string \<Rightarrow> string" where
  \<comment> \<open>what stays of a line and its line feed when \<open>marker.*\n\<close> is removed\<close>
  "kept marker [] = [CHR 0x0A]"
| "kept marker (c # cs) = (if startsWith (c # cs) marker then [] else c # kept marker cs)"

definition no_line_break :: "string \<Rightarrow> bool" where
  "no_line_break l = list_all (\<lambda>ch. \<not> is_line_terminator ch) l"

primrec capture_free :: "regex \<Rightarrow> bool" where
  \<comment> \<open>a pattern without a capture group\<close>
  "capture_free (Lit l) = True"
| "capture_free (One k) = True"
| "capture_free (Star k) = True"
| "capture_free (Plus k) = True"
| "capture_free (Seq a b) = (capture_free a \<and> capture_free b)"
| "capture_free (Alt a b) = (capture_free a \<and> capture_free b)"
| "capture_free (Opt a) = capture_free a"
| "capture_free (UpTo n a) = capture_free a"
| "capture_free (Cap i a) = False"

definition digit_text :: "string \<Rightarrow> bool" where
  \<comment> \<open>a non-empty text of decimal digits\<close>
  "digit_text g = (g \<noteq> [] \<and> list_all is_digit g)"

definition decimal_text :: "string \<Rightarrow> bool" where
  \<comment> \<open>a text that starts with a decimal digit\<close>
  "decimal_text g = (case g of [] \<Rightarrow> False | c # _ \<Rightarrow> is_digit c)"

section \<open>Properties of the job tracker\<close>

subsection \<open>The simulated timeline\<close>

lemma simulated_status_mono:
  "e1 \<le> e2 \<Longrightarrow> fst (snd (simulated_status e1)) \<le> fst (snd (simulated_status e2))"
  unfolding simulated_status_def totalSimulatedTime_def
  by (auto simp: min_def field_simps)

lemma simulated_status_100:
  "fst (snd (simulated_status e)) = 100 \<longleftrightarrow> fst (simulated_status e) = ''success''"
  unfolding simulated_status_def totalSimulatedTime_def
  by (auto simp: min_def field_simps)

text \<open>The same two facts for the older \<open>workitem_\<close> timeline.\<close>

lemma legacy_simulated_mono:
  "(case (a, b) of (Some x, Some y) \<Rightarrow> x \<le> y | _ \<Rightarrow> a = b) \<Longrightarrow>
   fst (snd (legacy_simulated_status a)) \<le> fst (snd (legacy_simulated_status b))"
  by (auto simp: legacy_simulated_status_def js_gt_def Let_def split: option.splits)

lemma legacy_simulated_100:
  "fst (snd (legacy_simulated_status a)) = 100 \<longleftrightarrow> fst (legacy_simulated_status a) = ''success''"
  by (auto simp: legacy_simulated_status_def js_gt_def Let_def split: option.splits)

text \<open>A poll of a stored job, written out.\<close>

lemma poll_simulated_Some:
  "queue workitemId = Some w \<Longrightarrow>
   poll_simulated now nc nr workitemId queue =
     (Json \<lparr> rs_success = True, rs_workitemId = workitemId,
              rs_status = fst (simulated_status (of_int (now - createdAt w) / 1000)),
              rs_progress = fst (snd (simulated_status (of_int (now - createdAt w) / 1000))),
              rs_message = fst (snd (snd (simulated_status (of_int (now - createdAt w) / 1000)))),
              rs_estimatedTimeRemaining = snd (snd (snd (simulated_status (of_int (now - createdAt w) / 1000)))),
              rs_timestamp = nr, rs_isSimulated = True \<rparr>,
      queue(workitemId \<mapsto> w
                 \<lparr> wi_status := fst (simulated_status (of_int (now - createdAt w) / 1000)),
                   wi_progress := fst (snd (simulated_status (of_int (now - createdAt w) / 1000))),
                   wi_message := fst (snd (snd (simulated_status (of_int (now - createdAt w) / 1000)))),
                   lastChecked := Some nc \<rparr>))"
  by (simp add: poll_simulated_def Let_def split: prod.splits)

lemma poll_simulated_None:
  "queue workitemId = None \<Longrightarrow>
   poll_simulated now nc nr workitemId queue = (NotFound ''Workitem not found'', queue)"
  by (simp add: poll_simulated_def)

text \<open>
  The \<open>/v1/status\<close> route updates the registry as the \<open>/status\<close> route does and
  reports the same status, progress, message and remaining time, so what is proved
  below of a poll holds through either route.
\<close>

lemma poll_simulated_v1_registry:
  "snd (poll_simulated_v1 now nc workitemId queue) = snd (poll_simulated now nc nr workitemId queue)"
  by (simp add: poll_simulated_v1_def poll_simulated_def Let_def split: option.splits prod.splits)

lemma poll_simulated_v1_reply:
  assumes "queue workitemId = Some w"
  shows "\<exists>a b. fst (poll_simulated now nc nr workitemId queue) = Json a
     \<and> fst (poll_simulated_v1 now nc workitemId queue) = V1Json b
     \<and> v1_status b = rs_status a \<and> v1_progress b = rs_progress a
     \<and> v1_message b = rs_message a
     \<and> v1_estimatedTimeRemaining b = rs_estimatedTimeRemaining a"
  using assms
  by (simp add: poll_simulated_v1_def poll_simulated_def Let_def split: prod.splits)

text \<open>
  C10. Polling a simulated job rewrites the stored record, and only its status,
  progress, message and lastChecked fields: the id, createdAt, params, bucketKey and
  outputObjectKey of the record after the poll are those before it (setting the four
  fields back gives the old record), and no other entry of the registry changes.
\<close>

theorem poll_simulated_frame:
  assumes "queue workitemId = Some w"
  shows "\<exists>w'. snd (poll_simulated now nc nr workitemId queue) = queue(workitemId \<mapsto> w')
     \<and> wi_id w' = wi_id w \<and> createdAt w' = createdAt w \<and> params w' = params w
     \<and> bucketKey w' = bucketKey w \<and> outputObjectKey w' = outputObjectKey w
     \<and> w'\<lparr> wi_status := wi_status w, wi_progress := wi_progress w,
            wi_message := wi_message w, lastChecked := lastChecked w \<rparr> = w
     \<and> lastChecked w' = Some nc"
proof -
  let ?e = "of_int (now - createdAt w) / 1000 :: rat"
  let ?w' = "w \<lparr> wi_status := fst (simulated_status ?e),
                   wi_progress := fst (snd (simulated_status ?e)),
                   wi_message := fst (snd (snd (simulated_status ?e))),
                   lastChecked := Some nc \<rparr>"
  have "snd (poll_simulated now nc nr workitemId queue) = queue(workitemId \<mapsto> ?w')"
    by (simp add: poll_simulated_Some [of queue workitemId w, OF assms])
  moreover have "?w'\<lparr> wi_status := wi_status w, wi_progress := wi_progress w,
            wi_message := wi_message w, lastChecked := lastChecked w \<rparr> = w"
    by simp
  ultimately show ?thesis
    by (intro exI [of _ ?w']) simp
qed

theorem poll_simulated_frame_witness:
  "example_queue ''aps_1700000000000_k3j5x0q1z'' = Some example_job \<and>
   (\<exists>w'. snd (poll_simulated 1700000005000 1700000005001 1700000005002
                 ''aps_1700000000000_k3j5x0q1z'' example_queue)
          = example_queue(''aps_1700000000000_k3j5x0q1z'' \<mapsto> w')
     \<and> wi_id w' = wi_id example_job \<and> createdAt w' = createdAt example_job
     \<and> params w' = params example_job
     \<and> bucketKey w' = bucketKey example_job \<and> outputObjectKey w' = outputObjectKey example_job
     \<and> w'\<lparr> wi_status := wi_status example_job, wi_progress := wi_progress example_job,
            wi_message := wi_message example_job, lastChecked := lastChecked example_job \<rparr> = example_job
     \<and> lastChecked w' = Some 1700000005001)"
proof -
  have h: "example_queue ''aps_1700000000000_k3j5x0q1z'' = Some example_job"
    by (simp add: example_queue_def)
  from poll_simulated_frame [of example_queue "''aps_1700000000000_k3j5x0q1z''" example_job, OF h]
  show ?thesis using h by blast
qed

text \<open>
  C8. For a fixed simulated job polled twice, the later poll never reports less
  progress than the earlier one, and a poll reports exactly 100 if and only if it
  reports the status \<open>success\<close>.
\<close>

theorem simulated_progress_monotone:
  assumes "queue workitemId = Some w" and "now1 \<le> now2"
    and "poll_simulated now1 c1 r1 workitemId queue = (reply1, queue1)"
    and "poll_simulated now2 c2 r2 workitemId queue1 = (reply2, queue2)"
  shows "\<exists>a1 a2. reply1 = Json a1 \<and> reply2 = Json a2 \<and> rs_progress a1 \<le> rs_progress a2
     \<and> (rs_progress a1 = 100 \<longleftrightarrow> rs_status a1 = ''success'')
     \<and> (rs_progress a2 = 100 \<longleftrightarrow> rs_status a2 = ''success'')"
proof -
  let ?e1 = "of_int (now1 - createdAt w) / 1000 :: rat"
  let ?e2 = "of_int (now2 - createdAt w) / 1000 :: rat"
  let ?s1 = "simulated_status ?e1" and ?s2 = "simulated_status ?e2"
  let ?w1 = "w \<lparr> wi_status := fst ?s1, wi_progress := fst (snd ?s1),
                   wi_message := fst (snd (snd ?s1)), lastChecked := Some c1 \<rparr>"
  from assms(3) have r1: "reply1 = fst (poll_simulated now1 c1 r1 workitemId queue)"
    and q1: "queue1 = snd (poll_simulated now1 c1 r1 workitemId queue)" by simp_all
  have q1': "queue1 workitemId = Some ?w1"
    unfolding q1 by (simp add: poll_simulated_Some [of queue workitemId w, OF assms(1)])
  from assms(4) have r2: "reply2 = fst (poll_simulated now2 c2 r2 workitemId queue1)" by simp
  obtain a1 where a1: "reply1 = Json a1" "rs_progress a1 = fst (snd ?s1)" "rs_status a1 = fst ?s1"
    unfolding r1 by (simp add: poll_simulated_Some [of queue workitemId w, OF assms(1)])
  obtain a2 where a2: "reply2 = Json a2" "rs_progress a2 = fst (snd ?s2)" "rs_status a2 = fst ?s2"
    unfolding r2 by (simp add: poll_simulated_Some [of queue1 workitemId ?w1, OF q1'])
  have "?e1 \<le> ?e2" using assms(2) by (simp add: divide_right_mono)
  then have "rs_progress a1 \<le> rs_progress a2"
    unfolding a1 a2 by (rule simulated_status_mono)
  moreover have "rs_progress a1 = 100 \<longleftrightarrow> rs_status a1 = ''success''"
    unfolding a1 by (rule simulated_status_100)
  moreover have "rs_progress a2 = 100 \<longleftrightarrow> rs_status a2 = ''success''"
    unfolding a2 by (rule simulated_status_100)
  ultimately show ?thesis using a1(1) a2(1) by blast
qed

theorem simulated_progress_monotone_witness:
  "example_queue ''aps_1700000000000_k3j5x0q1z'' = Some example_job
   \<and> (1700000005000 :: int) \<le> 1700000016000
   \<and> (\<exists>a1 a2.
        fst (poll_simulated 1700000005000 1700000005001 1700000005002
               ''aps_1700000000000_k3j5x0q1z'' example_queue) = Json a1
      \<and> fst (poll_simulated 1700000016000 1700000016001 1700000016002
               ''aps_1700000000000_k3j5x0q1z''
               (snd (poll_simulated 1700000005000 1700000005001 1700000005002
                       ''aps_1700000000000_k3j5x0q1z'' example_queue))) = Json a2
      \<and> rs_progress a1 \<le> rs_progress a2
      \<and> (rs_progress a1 = 100 \<longleftrightarrow> rs_status a1 = ''success'')
      \<and> (rs_progress a2 = 100 \<longleftrightarrow> rs_status a2 = ''success''))"
proof -
  let ?i = "''aps_1700000000000_k3j5x0q1z''"
  let ?p1 = "poll_simulated 1700000005000 1700000005001 1700000005002 ?i example_queue"
  let ?p2 = "poll_simulated 1700000016000 1700000016001 1700000016002 ?i (snd ?p1)"
  have h: "example_queue ?i = Some example_job"
    by (simp add: example_queue_def)
  have t: "(1700000005000 :: int) \<le> 1700000016000" by simp
  have e1: "?p1 = (fst ?p1, snd ?p1)" and e2: "?p2 = (fst ?p2, snd ?p2)" by simp_all
  from simulated_progress_monotone [of example_queue ?i example_job, OF h t e1 e2] h t
  show ?thesis by blast
qed

text \<open>
  C2 (as the code has it). The progress of a simulated job is a function of the
  elapsed seconds \<open>e\<close> on a 15 second timeline: while the status is \<open>submitted\<close>
  (\<open>e < 3\<close>) it is \<open>(e / 15) * 100\<close>, below 20; while the status is \<open>inprogress\<close> it
  is \<open>25 + ((e - 3) / 12) * 50\<close> for \<open>3 \<le> e < 8\<close> and \<open>75 + ((e - 8) / 7) * 20\<close>,
  below 95, for \<open>8 \<le> e < 15\<close>; when the status is \<open>success\<close> the progress is 100
  whatever the elapsed time, also in the two status-to-progress helpers.
\<close>

theorem simulated_progress_by_status:
  "(fst (simulated_status e) = ''submitted'' \<longleftrightarrow> e < 3)
   \<and> (fst (simulated_status e) = ''inprogress'' \<longleftrightarrow> 3 \<le> e \<and> e < 15)
   \<and> (fst (simulated_status e) = ''success'' \<longleftrightarrow> 15 \<le> e)
   \<and> (e < 3 \<longrightarrow> fst (snd (simulated_status e)) = (e / 15) * 100 \<and> fst (snd (simulated_status e)) < 20)
   \<and> (3 \<le> e \<and> e < 8 \<longrightarrow> fst (snd (simulated_status e)) = 25 + ((e - 3) / 12) * 50
          \<and> fst (snd (simulated_status e)) < 46)
   \<and> (8 \<le> e \<and> e < 15 \<longrightarrow> fst (snd (simulated_status e)) = 75 + ((e - 8) / 7) * 20
          \<and> fst (snd (simulated_status e)) < 95)
   \<and> (fst (simulated_status e) = ''success'' \<longrightarrow> fst (snd (simulated_status e)) = 100)
   \<and> getProgressFromStatus ''success'' = 100 \<and> getProgressFromAPSStatus ''success'' = 100"
  unfolding simulated_status_def totalSimulatedTime_def getProgressFromStatus_def
    getProgressFromAPSStatus_def
  by (auto simp: min_def field_simps)

theorem simulated_progress_by_status_witness:
  "fst (simulated_status 5) = ''inprogress'' \<and> (3::rat) \<le> 5 \<and> (5::rat) < 8
   \<and> fst (snd (simulated_status 5)) = 100 / 3
   \<and> fst (simulated_status 20) = ''success'' \<and> fst (snd (simulated_status 20)) = 100
   \<and> fst (simulated_status 1) = ''submitted'' \<and> fst (snd (simulated_status 1)) = 20 / 3
   \<and> fst (simulated_status 10) = ''inprogress'' \<and> fst (snd (simulated_status 10)) = 565 / 7"
  using simulated_progress_by_status [of 5] simulated_progress_by_status [of 20]
    simulated_progress_by_status [of 1] simulated_progress_by_status [of 10]
  by simp

text \<open>
  The rule in the specification's wording does not describe the code: a simulated job
  polled at once is \<open>submitted\<close> with progress 0, not 5, and the status helper gives 50
  for \<open>inprogress\<close> after 60 seconds, not 55.
\<close>

theorem progress_counterexample:
  "fst (simulated_status 0) = ''submitted''
   \<and> Some (fst (snd (simulated_status 0))) \<noteq> specified_progress ''submitted'' 0
   \<and> Some (getProgressFromStatus ''inprogress'') \<noteq> specified_progress ''inprogress'' 60"
  by (simp add: simulated_status_def totalSimulatedTime_def specified_progress_def
      getProgressFromStatus_def)

subsection \<open>Submission errors\<close>

text \<open>
  A rejection on which the test of the inner \<open>catch\<close> throws (no value at all, or no
  string \<open>message\<close> and a status code other than 400) is not replaced by a simulated
  job: the \<open>TypeError\<close> reaches the outer \<open>catch\<close>, the caller gets the failure and
  nothing is stored.
\<close>

lemma rejection_without_message:
  "is_configuration_error error = Inl type_error \<Longrightarrow>
   createFamilyWithAPS_local ps (Rejects error) now created rnd queue = (Failed type_error, queue)"
  by (simp add: createFamilyWithAPS_local_def submit_attempt_def)

lemma unauthorized_rejection:
  "createFamilyWithAPS_local () (Rejects (RejectedValue unauthorized)) 1700000000000 1700000000001
       ''k3j5x0q1z'' example_queue
     = (Failed (cannot_read ''includes''), example_queue)"
  by (simp add: createFamilyWithAPS_local_def submit_attempt_def is_configuration_error_def
      unauthorized_def)

text \<open>
  A call that resolves with \<open>null\<close> or with a status code other than 200 is turned
  into \<open>new Error('Failed to create Revit family file')\<close> by the \<open>try\<close>, and so
  handled as a rejection with that error: a simulated job is stored.
\<close>

lemma unusable_response_simulated:
  assumes "response = None \<or> (\<exists>r. response = Some r \<and> res_statusCode r \<noteq> 200)"
  shows "createFamilyWithAPS_local ps (Resolves response) now created rnd queue
           = createFamilyWithAPS_local ps (Rejects failed_to_create) now created rnd queue"
    and "createFamilyWithAPS_local ps (Resolves response) now created rnd queue
           = (Created (simulated_id now rnd) ''submitted'',
              queue(simulated_id now rnd \<mapsto> simulated_workitem (simulated_id now rnd) created ps))"
  using assms
  by (auto simp: createFamilyWithAPS_local_def submit_attempt_def is_configuration_error_def
      failed_to_create_def startsWith_def Let_def)

text \<open>
  C1 (as the code has it). When the submission to the real backend fails with a
  configuration error (status code 400, or a message text containing \<open>400\<close>), the
  tracker stores no job and reports the failure to its caller with the "not
  configured" message; a submission failure with any other status code whose error
  carries a message text without \<open>400\<close> stores a simulated job under a fresh
  \<open>aps_\<close> id and reports success.
\<close>

theorem submission_error_handling:
  "(err_statusCode e = Some 400 \<or> (\<exists>m. err_message e = JStr m \<and> includes_str m ''400'') \<longrightarrow>
      createFamilyWithAPS_local ps (Rejects (RejectedValue e)) now created rnd queue
        = (Failed not_configured_message, queue))
   \<and> (err_statusCode e \<noteq> Some 400 \<and> err_message e = JStr m \<and> \<not> includes_str m ''400'' \<longrightarrow>
      createFamilyWithAPS_local ps (Rejects (RejectedValue e)) now created rnd queue
        = (Created (simulated_id now rnd) ''submitted'',
           queue(simulated_id now rnd \<mapsto> simulated_workitem (simulated_id now rnd) created ps)))"
  by (auto simp: createFamilyWithAPS_local_def submit_attempt_def is_configuration_error_def Let_def)

theorem submission_error_handling_witness:
  "err_statusCode bad_request = Some 400
   \<and> createFamilyWithAPS_local () (Rejects (RejectedValue bad_request)) 1700000000000 1700000000001
         ''k3j5x0q1z'' example_queue
        = (Failed not_configured_message, example_queue)
   \<and> err_statusCode connection_reset \<noteq> Some 400
   \<and> err_message connection_reset = JStr ''read ECONNRESET''
   \<and> \<not> includes_str ''read ECONNRESET'' ''400''
   \<and> fst (createFamilyWithAPS_local () (Rejects (RejectedValue connection_reset)) 1700000000000
             1700000000001 ''k3j5x0q1z'' example_queue)
        = Created ''aps_1700000000000_k3j5x0q1z'' ''submitted''
   \<and> snd (createFamilyWithAPS_local () (Rejects (RejectedValue connection_reset)) 1700000000000
             1700000000001 ''k3j5x0q1z'' example_queue) ''aps_1700000000000_k3j5x0q1z''
        = Some (simulated_workitem ''aps_1700000000000_k3j5x0q1z'' 1700000000001 ())"
proof -
  have c: "err_statusCode bad_request = Some 400"
    by (simp add: bad_request_def)
  have n: "err_statusCode connection_reset \<noteq> Some 400"
    "err_message connection_reset = JStr ''read ECONNRESET''"
    "\<not> includes_str ''read ECONNRESET'' ''400''"
    by (simp_all add: connection_reset_def startsWith_def)
  have i: "simulated_id 1700000000000 ''k3j5x0q1z'' = ''aps_1700000000000_k3j5x0q1z''"
    by (simp add: simulated_id_def show_int_def show_nat.simps digit_char_def)
  from submission_error_handling [where e = bad_request and ps = "()" and now = 1700000000000
      and created = 1700000000001 and rnd = "''k3j5x0q1z''" and queue = example_queue]
    submission_error_handling [where e = connection_reset and m = "''read ECONNRESET''"
      and ps = "()" and now = 1700000000000 and created = 1700000000001
      and rnd = "''k3j5x0q1z''" and queue = example_queue]
    c n i
  show ?thesis by simp
qed

text \<open>
  A submission rejected with status code 400 is not replaced by a simulated job: the
  caller gets the failure and the registry stays empty.
\<close>

theorem configuration_error_counterexample:
  "createFamilyWithAPS_local () (Rejects (RejectedValue bad_request)) 1700000000000 1700000000000
       ''k3j5x0q1z'' Map.empty
     = (Failed not_configured_message, Map.empty)"
  by (simp add: createFamilyWithAPS_local_def submit_attempt_def is_configuration_error_def
      bad_request_def)

section \<open>Properties of the QA gateway\<close>

































section \<open>Properties of the heuristic extractor and of the backend mapping\<close>

subsection \<open>A matched pattern always yields a number\<close>

text \<open>
  The number groups of the extractor's patterns are \<open>(\d+)\<close> and
  \<open>(\d+(?:\.\d+)?)\<close>, every other part is free of groups, and the alternatives of a
  pattern each carry one group. So a match binds a text led by a digit, and
  \<open>parseInt\<close> and \<open>parseFloat\<close> read a number from it: the value \<open>NaN\<close> does
  not arise in the extractor.
\<close>

lemma in_rmatch_seqs:
  "st' \<in> set (rmatch (seqs (r # rs)) st)
     \<longleftrightarrow> (\<exists>mid \<in> set (rmatch r st). st' \<in> set (rmatch (seqs rs) mid))"
  by (auto simp: seqs_def)

lemma capture_free_seqs: "capture_free (seqs rs) \<longleftrightarrow> list_all capture_free rs"
  by (induction rs) (simp_all add: seqs_def)

lemma upto_times_captures:
  assumes f: "\<And>st st'. st' \<in> set (f st) \<Longrightarrow> snd st' = snd st"
  shows "st' \<in> set (upto_times n f st) \<Longrightarrow> snd st' = snd st"
proof (induction n arbitrary: st)
  case 0
  then show ?case by simp
next
  case (Suc n)
  from Suc.prems consider "st' = st"
    | mid where "mid \<in> set (f st)" "st' \<in> set (upto_times n f mid)"
    by auto
  then show ?case
  proof cases
    case 1
    then show ?thesis by simp
  next
    case 2
    then have "snd st' = snd mid" "snd mid = snd st"
      using Suc.IH f by blast+
    then show ?thesis by simp
  qed
qed

lemma capture_free_keeps:
  "capture_free r \<Longrightarrow> st' \<in> set (rmatch r st) \<Longrightarrow> snd st' = snd st"
proof (induction r arbitrary: st st')
  case (Seq a b)
  from Seq.prems obtain mid where "mid \<in> set (rmatch a st)" "st' \<in> set (rmatch b mid)"
    by auto
  then have "snd mid = snd st" "snd st' = snd mid"
    using Seq.IH Seq.prems(1) by auto
  then show ?case by simp
next
  case (UpTo n r)
  then show ?case by (auto intro: upto_times_captures [where f = "rmatch r"])
qed (auto simp: runs_def split: if_splits list.splits)

lemma digits_then:
  assumes "st' \<in> set (runs (Suc 0) Digit st)"
  shows "\<exists>c cs. fst st = c # cs \<and> is_digit c \<and> length (fst st') \<le> length cs
           \<and> snd st' = snd st"
proof -
  from assms obtain n where n: "Suc 0 \<le> n" "n \<le> length (takeWhile is_digit (fst st))"
    and st': "st' = (drop n (fst st), snd st)"
    by (auto simp: runs_def in_cls.simps [abs_def])
  then obtain c cs where s: "fst st = c # cs" by (cases "fst st") auto
  with n have "is_digit c" by (auto split: if_splits)
  moreover have "length (fst st') \<le> length cs" using n(1) by (simp add: st' s)
  ultimately show ?thesis using s st' by simp
qed

lemma runs_all_digits:
  assumes "st' \<in> set (runs (Suc 0) Digit st)"
  shows "digit_text (take (length (fst st) - length (fst st')) (fst st))"
proof -
  from assms obtain n where n: "Suc 0 \<le> n" "n \<le> length (takeWhile is_digit (fst st))"
    and st': "st' = (drop n (fst st), snd st)"
    by (auto simp: runs_def in_cls.simps [abs_def])
  have le: "n \<le> length (fst st)"
    using n(2) length_takeWhile_le [of is_digit "fst st"] by simp
  then have t: "take (length (fst st) - length (fst st')) (fst st) = take n (fst st)"
    by (simp add: st')
  have "fst st = takeWhile is_digit (fst st) @ dropWhile is_digit (fst st)" by simp
  then have "take n (fst st) = take n (takeWhile is_digit (fst st))"
    using n(2) by (metis append_Nil2 diff_is_0_eq take_0 take_append)
  then have "list_all is_digit (take n (fst st))"
    by (simp add: list_all_iff) (metis in_set_takeD set_takeWhileD)
  moreover have "take n (fst st) \<noteq> []" using n(1) le by (cases "fst st") auto
  ultimately show ?thesis by (simp add: t digit_text_def)
qed

lemma int_group_captures:
  assumes "st' \<in> set (rmatch (int_group i) st)"
  shows "\<exists>g. snd st' = (i, g) # snd st \<and> digit_text g"
proof -
  from assms obtain st'' where a: "st'' \<in> set (runs (Suc 0) Digit st)"
    and b: "st' = (fst st'', (i, take (length (fst st) - length (fst st'')) (fst st)) # snd st'')"
    by (auto simp: int_group_def)
  from digits_then [OF a] have "snd st'' = snd st" by auto
  with runs_all_digits [OF a] b show ?thesis by auto
qed

lemma rmatch_shorter: "st' \<in> set (rmatch r st) \<Longrightarrow> length (fst st') \<le> length (fst st)"
proof (induction r arbitrary: st st')
  case (Seq a b)
  from Seq.prems obtain mid where "mid \<in> set (rmatch a st)" "st' \<in> set (rmatch b mid)"
    by auto
  then have "length (fst mid) \<le> length (fst st)" "length (fst st') \<le> length (fst mid)"
    using Seq.IH by auto
  then show ?case by simp
next
  case (UpTo n r)
  have "st' \<in> set (upto_times n (rmatch r) st) \<Longrightarrow> length (fst st') \<le> length (fst st)"
  proof (induction n arbitrary: st)
    case 0
    then show ?case by simp
  next
    case (Suc n)
    from Suc.prems consider "st' = st"
      | mid where "mid \<in> set (rmatch r st)" "st' \<in> set (upto_times n (rmatch r) mid)"
      by auto
    then show ?case
    proof cases
      case 1
      then show ?thesis by simp
    next
      case 2
      then have "length (fst st') \<le> length (fst mid)" "length (fst mid) \<le> length (fst st)"
        using Suc.IH UpTo.IH by blast+
      then show ?thesis by simp
    qed
  qed
  with UpTo.prems show ?case by simp
qed (auto simp: runs_def split: if_splits list.splits)

lemma dec_group_captures:
  assumes "st' \<in> set (rmatch (dec_group i) st)"
  shows "\<exists>g. snd st' = (i, g) # snd st \<and> decimal_text g"
proof -
  let ?frac = "Opt (Seq (Lit ''.'') (Plus Digit))"
  from assms obtain mid st'' where a: "mid \<in> set (runs (Suc 0) Digit st)"
    and f: "st'' \<in> set (rmatch ?frac mid)"
    and b: "st' = (fst st'', (i, take (length (fst st) - length (fst st'')) (fst st)) # snd st'')"
    by (auto simp: dec_group_def)
  from digits_then [OF a] obtain c cs where s: "fst st = c # cs" "is_digit c"
    "length (fst mid) \<le> length cs" "snd mid = snd st"
    by auto
  have "capture_free ?frac" by simp
  from capture_free_keeps [OF this f] have c: "snd st'' = snd st" using s(4) by simp
  from rmatch_shorter [OF f] s(3) have "length (fst st'') \<le> length cs" by simp
  then have "decimal_text (take (length (fst st) - length (fst st'')) (fst st))"
    using s(1,2) by (simp add: decimal_text_def Suc_diff_le)
  with b c show ?thesis by auto
qed

lemma quantity_then_keyword_captures:
  assumes num: "\<And>st st'. st' \<in> set (rmatch num st) \<Longrightarrow> \<exists>g. snd st' = (i, g) # snd st \<and> P g"
    and unit: "capture_free unit"
    and m: "st' \<in> set (rmatch (quantity_then_keyword num unit kw) st)"
  shows "\<exists>g. snd st' = (i, g) # snd st \<and> P g"
proof -
  let ?rest = "seqs [unit, Plus SpaceCh, words_upto 2, Lit kw]"
  from m [unfolded quantity_then_keyword_def]
    in_rmatch_seqs [of st' num "[unit, Plus SpaceCh, words_upto 2, Lit kw]" st]
  obtain mid where a: "mid \<in> set (rmatch num st)" and b: "st' \<in> set (rmatch ?rest mid)"
    by blast
  have "capture_free ?rest" using unit by (simp add: capture_free_seqs words_upto_def)
  from capture_free_keeps [OF this b] num [OF a] show ?thesis by simp
qed

lemma keyword_then_quantity_captures:
  assumes num: "\<And>st st'. st' \<in> set (rmatch num st) \<Longrightarrow> \<exists>g. snd st' = (i, g) # snd st \<and> P g"
    and unit: "capture_free unit"
    and m: "st' \<in> set (rmatch (keyword_then_quantity kw num unit) st)"
  shows "\<exists>g. snd st' = (i, g) # snd st \<and> P g"
proof -
  let ?pre = "seqs [Lit kw, Plus SpaceCh, words_upto 2]"
  from m obtain k w s1 where k: "k \<in> set (rmatch (Lit kw) st)"
    and w: "w \<in> set (rmatch (Plus SpaceCh) k)"
    and s1: "s1 \<in> set (rmatch (words_upto 2) w)"
    and b: "st' \<in> set (rmatch (seqs [num, unit]) s1)"
    unfolding keyword_then_quantity_def
      in_rmatch_seqs [of _ "Lit kw"] in_rmatch_seqs [of _ "Plus SpaceCh"]
      in_rmatch_seqs [of _ "words_upto 2"]
    by blast
  from k w s1 have a: "s1 \<in> set (rmatch ?pre st)"
    unfolding in_rmatch_seqs [of _ "Lit kw"] in_rmatch_seqs [of _ "Plus SpaceCh"]
      in_rmatch_seqs [of _ "words_upto 2"]
    by (auto simp: seqs_def startsWith_def)
  from b in_rmatch_seqs [of st' num "[unit]" s1]
  obtain s2 where c: "s2 \<in> set (rmatch num s1)" and d: "st' \<in> set (rmatch (seqs [unit]) s2)"
    by blast
  have "capture_free ?pre" by (simp add: capture_free_seqs words_upto_def)
  from capture_free_keeps [OF this a] have 1: "snd s1 = snd st" .
  have "capture_free (seqs [unit])" using unit by (simp add: capture_free_seqs)
  from capture_free_keeps [OF this d] have 2: "snd st' = snd s2" .
  from num [OF c] 1 2 show ?thesis by simp
qed

lemma js_match_captures:
  "js_match r s = Some m \<Longrightarrow> \<exists>s' st. st \<in> set (rmatch r (s', [])) \<and> snd m = snd st"
proof (induction s)
  case Nil
  show ?case
  proof (cases "rmatch r ([], [])")
    case Nil
    with \<open>js_match r [] = Some m\<close> show ?thesis by simp
  next
    case (Cons st sts)
    with \<open>js_match r [] = Some m\<close> have "snd m = snd st" by auto
    moreover have "st \<in> set (rmatch r ([], []))" using Cons by simp
    ultimately show ?thesis by blast
  qed
next
  case (Cons x xs)
  show ?case
  proof (cases "rmatch r (x # xs, [])")
    case Nil
    with Cons show ?thesis by simp
  next
    case (Cons st sts)
    with Cons.prems have "snd m = snd st" by auto
    moreover have "st \<in> set (rmatch r (x # xs, []))" using Cons by simp
    ultimately show ?thesis by blast
  qed
qed

lemma capture_free_units: "capture_free mm_unit" "capture_free ft_unit" "capture_free inch_unit"
  by (simp_all add: mm_unit_def ft_unit_def inch_unit_def)

lemma capture_free_sill: "list_all capture_free [Plus SpaceCh, words_upto 3, sill_keyword]"
  by (simp add: words_upto_def sill_keyword_def seqs_def)

lemma capture_free_inset: "list_all capture_free [Plus SpaceCh, words_upto 2, inset_keyword]"
  by (simp add: words_upto_def inset_keyword_def seqs_def)

lemma parseInt_digit_text: "digit_text g \<Longrightarrow> \<exists>n. parseInt g = Some n"
  by (cases g) (auto simp: digit_text_def parseInt_def)

lemma parseFloat_decimal_text: "decimal_text g \<Longrightarrow> \<exists>n. parseFloat g = Some n"
  by (cases g) (auto simp: decimal_text_def parseFloat_def Let_def split: list.splits)

lemma four_groups:
  assumes "st \<in> set (rmatch
      (Alt (quantity_then_keyword (num 1) unit k1)
      (Alt (quantity_then_keyword (num 2) unit k2)
      (Alt (keyword_then_quantity k1 (num 3) unit)
           (keyword_then_quantity k2 (num 4) unit)))) (s, []))"
    and num: "\<And>i st st'. st' \<in> set (rmatch (num i) st) \<Longrightarrow> \<exists>g. snd st' = (i, g) # snd st \<and> P g"
    and unit: "capture_free unit"
    and P: "\<And>g. P g \<Longrightarrow> g \<noteq> []"
  shows "\<exists>g. first_group (snd st) [1, 2, 3, 4] = Some g \<and> P g"
proof -
  from assms(1) consider
      "st \<in> set (rmatch (quantity_then_keyword (num 1) unit k1) (s, []))"
    | "st \<in> set (rmatch (quantity_then_keyword (num 2) unit k2) (s, []))"
    | "st \<in> set (rmatch (keyword_then_quantity k1 (num 3) unit) (s, []))"
    | "st \<in> set (rmatch (keyword_then_quantity k2 (num 4) unit) (s, []))"
    by auto
  then show ?thesis
  proof cases
    case 1
    from quantity_then_keyword_captures [of "num 1" 1 P, OF num unit this]
    show ?thesis using P by auto
  next
    case 2
    from quantity_then_keyword_captures [of "num 2" 2 P, OF num unit this]
    show ?thesis using P by auto
  next
    case 3
    from keyword_then_quantity_captures [of "num 3" 3 P, OF num unit this]
    show ?thesis using P by auto
  next
    case 4
    from keyword_then_quantity_captures [of "num 4" 4 P, OF num unit this]
    show ?thesis using P by auto
  qed
qed

lemma one_group:
  assumes m: "st \<in> set (rmatch (seqs (num # unit # rs)) (s, []))"
    and num: "\<And>st st'. st' \<in> set (rmatch num st) \<Longrightarrow> \<exists>g. snd st' = (1, g) # snd st \<and> P g"
    and free: "capture_free unit" "list_all capture_free rs"
  shows "P (group1 (snd st))"
proof -
  from m in_rmatch_seqs [of st num "unit # rs" "(s, [])"]
  obtain mid where a: "mid \<in> set (rmatch num (s, []))"
    and b: "st \<in> set (rmatch (seqs (unit # rs)) mid)"
    by blast
  have "capture_free (seqs (unit # rs))" using free by (simp add: capture_free_seqs)
  from capture_free_keeps [OF this b] num [OF a] show ?thesis by (auto simp: group1_def)
qed

lemma mm_patterns_give_number:
  "js_match widthMm_re s = Some m \<Longrightarrow> \<exists>n. groups_mm (snd m) [1, 2, 3, 4] = Some n"
  "js_match heightMm_re s = Some m \<Longrightarrow> \<exists>n. groups_mm (snd m) [1, 2, 3, 4] = Some n"
  "js_match sillHeightMm_re s = Some m \<Longrightarrow> \<exists>n. parseInt (group1 (snd m)) = Some n"
  "js_match insetMm_re s = Some m \<Longrightarrow> \<exists>n. parseInt (group1 (snd m)) = Some n"
proof -
  have nonempty: "\<And>g. digit_text g \<Longrightarrow> g \<noteq> []" by (simp add: digit_text_def)
  show "js_match widthMm_re s = Some m \<Longrightarrow> \<exists>n. groups_mm (snd m) [1, 2, 3, 4] = Some n"
  proof -
    assume "js_match widthMm_re s = Some m"
    from js_match_captures [OF this] obtain s' st
      where st: "st \<in> set (rmatch widthMm_re (s', []))" "snd m = snd st" by auto
    from four_groups [of st int_group mm_unit _ _ s' digit_text,
        OF st(1) [unfolded widthMm_re_def] int_group_captures capture_free_units(1) nonempty]
    show ?thesis using parseInt_digit_text by (auto simp: groups_mm_def st(2))
  qed
  show "js_match heightMm_re s = Some m \<Longrightarrow> \<exists>n. groups_mm (snd m) [1, 2, 3, 4] = Some n"
  proof -
    assume "js_match heightMm_re s = Some m"
    from js_match_captures [OF this] obtain s' st
      where st: "st \<in> set (rmatch heightMm_re (s', []))" "snd m = snd st" by auto
    from four_groups [of st int_group mm_unit _ _ s' digit_text,
        OF st(1) [unfolded heightMm_re_def] int_group_captures capture_free_units(1) nonempty]
    show ?thesis using parseInt_digit_text by (auto simp: groups_mm_def st(2))
  qed
  show "js_match sillHeightMm_re s = Some m \<Longrightarrow> \<exists>n. parseInt (group1 (snd m)) = Some n"
  proof -
    assume "js_match sillHeightMm_re s = Some m"
    from js_match_captures [OF this] obtain s' st
      where st: "st \<in> set (rmatch sillHeightMm_re (s', []))" "snd m = snd st" by auto
    have "digit_text (group1 (snd st))"
      by (rule one_group [OF st(1) [unfolded sillHeightMm_re_def] int_group_captures
            capture_free_units(1) capture_free_sill])
    then show ?thesis using parseInt_digit_text by (simp add: st(2))
  qed
  show "js_match insetMm_re s = Some m \<Longrightarrow> \<exists>n. parseInt (group1 (snd m)) = Some n"
  proof -
    assume "js_match insetMm_re s = Some m"
    from js_match_captures [OF this] obtain s' st
      where st: "st \<in> set (rmatch insetMm_re (s', []))" "snd m = snd st" by auto
    have "digit_text (group1 (snd st))"
      by (rule one_group [OF st(1) [unfolded insetMm_re_def] int_group_captures
            capture_free_units(1) capture_free_inset])
    then show ?thesis using parseInt_digit_text by (simp add: st(2))
  qed
qed

lemma ft_patterns_give_number:
  "js_match widthFt_re s = Some m \<Longrightarrow> \<exists>n. groups_ft (snd m) [1, 2, 3, 4] fallback = Some n"
  "js_match heightFt_re s = Some m \<Longrightarrow> \<exists>n. groups_ft (snd m) [1, 2, 3, 4] fallback = Some n"
  "js_match sillHeightFt_re s = Some m \<Longrightarrow> \<exists>n. parseFloat (group1 (snd m)) = Some n"
  "js_match insetFt_re s = Some m \<Longrightarrow> \<exists>n. parseFloat (group1 (snd m)) = Some n"
  "js_match insetInch_re s = Some m \<Longrightarrow> \<exists>n. parseFloat (group1 (snd m)) = Some n"
proof -
  have nonempty: "\<And>g. decimal_text g \<Longrightarrow> g \<noteq> []" by (auto simp: decimal_text_def)
  show "js_match widthFt_re s = Some m \<Longrightarrow> \<exists>n. groups_ft (snd m) [1, 2, 3, 4] fallback = Some n"
  proof -
    assume "js_match widthFt_re s = Some m"
    from js_match_captures [OF this] obtain s' st
      where st: "st \<in> set (rmatch widthFt_re (s', []))" "snd m = snd st" by auto
    from four_groups [of st dec_group ft_unit _ _ s' decimal_text,
        OF st(1) [unfolded widthFt_re_def] dec_group_captures capture_free_units(2) nonempty]
    show ?thesis using parseFloat_decimal_text by (auto simp: groups_ft_def st(2))
  qed
  show "js_match heightFt_re s = Some m \<Longrightarrow> \<exists>n. groups_ft (snd m) [1, 2, 3, 4] fallback = Some n"
  proof -
    assume "js_match heightFt_re s = Some m"
    from js_match_captures [OF this] obtain s' st
      where st: "st \<in> set (rmatch heightFt_re (s', []))" "snd m = snd st" by auto
    from four_groups [of st dec_group ft_unit _ _ s' decimal_text,
        OF st(1) [unfolded heightFt_re_def] dec_group_captures capture_free_units(2) nonempty]
    show ?thesis using parseFloat_decimal_text by (auto simp: groups_ft_def st(2))
  qed
  show "js_match sillHeightFt_re s = Some m \<Longrightarrow> \<exists>n. parseFloat (group1 (snd m)) = Some n"
  proof -
    assume "js_match sillHeightFt_re s = Some m"
    from js_match_captures [OF this] obtain s' st
      where st: "st \<in> set (rmatch sillHeightFt_re (s', []))" "snd m = snd st" by auto
    have "decimal_text (group1 (snd st))"
      by (rule one_group [OF st(1) [unfolded sillHeightFt_re_def] dec_group_captures
            capture_free_units(2) capture_free_sill])
    then show ?thesis using parseFloat_decimal_text by (simp add: st(2))
  qed
  show "js_match insetFt_re s = Some m \<Longrightarrow> \<exists>n. parseFloat (group1 (snd m)) = Some n"
  proof -
    assume "js_match insetFt_re s = Some m"
    from js_match_captures [OF this] obtain s' st
      where st: "st \<in> set (rmatch insetFt_re (s', []))" "snd m = snd st" by auto
    have "decimal_text (group1 (snd st))"
      by (rule one_group [OF st(1) [unfolded insetFt_re_def] dec_group_captures
            capture_free_units(2) capture_free_inset])
    then show ?thesis using parseFloat_decimal_text by (simp add: st(2))
  qed
  show "js_match insetInch_re s = Some m \<Longrightarrow> \<exists>n. parseFloat (group1 (snd m)) = Some n"
  proof -
    assume "js_match insetInch_re s = Some m"
    from js_match_captures [OF this] obtain s' st
      where st: "st \<in> set (rmatch insetInch_re (s', []))" "snd m = snd st" by auto
    have "decimal_text (group1 (snd st))"
      by (rule one_group [OF st(1) [unfolded insetInch_re_def] dec_group_captures
            capture_free_units(3) capture_free_inset])
    then show ?thesis using parseFloat_decimal_text by (simp add: st(2))
  qed
qed

lemma demo_names_valid:
  "valid_name ''Width''" "valid_name ''Height''" "valid_name ''SillHeight''"
  "valid_name ''Inset''" "valid_name ''GlassPaneMaterial''" "valid_name ''SashMaterial''"
  by code_simp+

lemma check_parameter_ok:
  "fp_name p \<notin> set ns \<Longrightarrow> valid_name (fp_name p) \<Longrightarrow> fp_type p \<in> set validTypes
     \<Longrightarrow> fp_formula p = None
     \<Longrightarrow> check_parameter l p (r, ns) = (r, ns @ [fp_name p])"
  by (simp add: check_parameter_def falsy_str_def)

lemma demo_parameter_loop:
  "familyParameters (demo_parameters w h sh i g sa) = Some l \<Longrightarrow>
   for_each (check_parameter l) l (r, []) =
     (r, [''Width'', ''Height'', ''SillHeight'', ''Inset'', ''GlassPaneMaterial'', ''SashMaterial''])"
  by (auto simp: demo_parameters_def for_each_def check_parameter_ok demo_names_valid validTypes_def)

lemma type_name_ok: "\<not> (''Type 1'' = [] \<or> trim ''Type 1'' = [])"
  by code_simp

lemma demo_type_values:
  "type_values (familyParameters (demo_parameters w h sh i g sa)) ''Type 1''
     [(''Width'', JNum w), (''Height'', JNum h), (''SillHeight'', JNum sh), (''Inset'', JNum i),
      (''GlassPaneMaterial'', JStr g), (''SashMaterial'', JStr sa)] r = (r, None)"
  by (simp add: demo_parameters_def validateParameterValue_def js_isNaN_def)

lemma demo_family_types:
  "check_family_types (familyParameters (demo_parameters w h sh i g sa))
     (indexed [\<lparr> ft_name = ''Type 1'',
             ft_parameters = Some
               [ (''Width'', JNum w), (''Height'', JNum h),
                 (''SillHeight'', JNum sh), (''Inset'', JNum i),
                 (''GlassPaneMaterial'', JStr g),
                 (''SashMaterial'', JStr sa) ] \<rparr>]) r = (r, None)"
proof -
  have t: "trim ''Type 1'' \<noteq> []" using type_name_ok by simp
  show ?thesis
    by (simp add: indexed_def demo_type_values t Let_def del: type_values.simps)
qed

lemma essential_no_issue:
  "vr_issues (for_each (check_essential ns) es r) = vr_issues r"
  unfolding for_each_def
  by (induction es arbitrary: r) (simp_all add: check_essential_def add_warning_def)

lemma demo_validateParameters:
  assumes "getEssentialParameters cat = Some es"
  shows "vr_issues (validateParameters
           (demoFamily name cat descr exts (demo_parameters w h sh i g sa) g' sa')) = []"
proof -
  obtain l where l: "familyParameters (demo_parameters w h sh i g sa) = Some l"
    and ne: "l \<noteq> []"
    and ts: "familyTypes (demo_parameters w h sh i g sa) = Some [\<lparr> ft_name = ''Type 1'',
             ft_parameters = Some
               [ (''Width'', JNum w), (''Height'', JNum h),
                 (''SillHeight'', JNum sh), (''Inset'', JNum i),
                 (''GlassPaneMaterial'', JStr g),
                 (''SashMaterial'', JStr sa) ] \<rparr>]"
    by (simp add: demo_parameters_def)
  show ?thesis
    using demo_family_types [of w h sh i g sa]
    unfolding validateParameters_def demoFamily_def
    by (simp add: l ne ts Let_def demo_parameter_loop [OF l] assms essential_no_issue
        fresh_results_def)
qed

lemma demo_categories:
  "getEssentialParameters ''Doors'' \<noteq> None" "getEssentialParameters ''Windows'' \<noteq> None"
  "getEssentialParameters ''Furniture'' \<noteq> None" "getEssentialParameters ''Generic'' \<noteq> None"
  by (simp_all add: getEssentialParameters_def object_prototype_members_def)

text \<open>
  C9. For every input text, the SIR of the heuristic extractor has exactly the six
  family parameters Width, Height, SillHeight, Inset, GlassPaneMaterial and
  SashMaterial; the names are pairwise distinct, each matches the identifier pattern
  and each type is one of the valid types. Parameter validation of that SIR reports
  no issue at all, so none about a duplicate name, a name format or an invalid type.
\<close>

theorem heuristic_parameters_wellformed:
  "\<exists>ps fps. sir_parameters (gr_sir (generateDemoSIR userPrompt sessionId now)) = Some ps
     \<and> familyParameters ps = Some fps
     \<and> map fp_name fps = [''Width'', ''Height'', ''SillHeight'', ''Inset'',
                            ''GlassPaneMaterial'', ''SashMaterial'']
     \<and> distinct (map fp_name fps)
     \<and> list_all (\<lambda>p. valid_name (fp_name p) \<and> fp_type p \<in> set validTypes) fps
     \<and> vr_issues (validateParameters (gr_sir (generateDemoSIR userPrompt sessionId now))) = []"
proof -
  let ?lp = "toLowerCase userPrompt"
  let ?ps = "demo_parameters (extract_width ?lp) (extract_height ?lp) (extract_sillHeight ?lp)
               (extract_inset ?lp) (extract_glassMaterial ?lp) (extract_sashMaterial ?lp)"
  define fps where "fps = (case familyParameters ?ps of Some l \<Rightarrow> l | None \<Rightarrow> [])"
  have fps: "familyParameters ?ps = Some fps"
    and names: "map fp_name fps = [''Width'', ''Height'', ''SillHeight'', ''Inset'',
                            ''GlassPaneMaterial'', ''SashMaterial'']"
    and v: "list_all (\<lambda>p. valid_name (fp_name p) \<and> fp_type p \<in> set validTypes) fps"
    by (simp_all add: fps_def demo_parameters_def demo_names_valid validTypes_def)
  have ps: "sir_parameters (gr_sir (generateDemoSIR userPrompt sessionId now)) = Some ?ps"
    by (simp add: generateDemoSIR_def Let_def demoFamily_def)
  have d: "distinct (map fp_name fps)" unfolding names by simp
  have i: "vr_issues (validateParameters (gr_sir (generateDemoSIR userPrompt sessionId now))) = []"
    using demo_categories
    by (auto simp: generateDemoSIR_def Let_def intro!: demo_validateParameters)
  show ?thesis
    by (intro exI [of _ ?ps] exI [of _ fps] conjI ps fps names d v i)
qed

lemma lower_spec_prompt:
  "toLowerCase spec_prompt =
     ''create a 900 mm wide, 1200 mm high double-hung window with 900 mm sill height''"
  by code_simp

lemma spec_prompt_width:
  "extract_width ''create a 900 mm wide, 1200 mm high double-hung window with 900 mm sill height''
     = 900 / 304.8"
  by code_simp

lemma spec_prompt_height:
  "extract_height ''create a 900 mm wide, 1200 mm high double-hung window with 900 mm sill height''
     = 1200 / 304.8"
  by code_simp

lemma spec_prompt_sillHeight:
  "extract_sillHeight ''create a 900 mm wide, 1200 mm high double-hung window with 900 mm sill height''
     = 900 / 304.8"
  by code_simp

lemma spec_prompt_inset:
  "extract_inset ''create a 900 mm wide, 1200 mm high double-hung window with 900 mm sill height''
     = 0.05"
  by code_simp

lemma spec_prompt_materials:
  "extract_glassMaterial ''create a 900 mm wide, 1200 mm high double-hung window with 900 mm sill height''
     = ''Default''"
  "extract_sashMaterial ''create a 900 mm wide, 1200 mm high double-hung window with 900 mm sill height''
     = ''Default''"
  by code_simp+

lemma spec_prompt_category:
  "\<not> includes_str ''create a 900 mm wide, 1200 mm high double-hung window with 900 mm sill height'' ''door''"
  "includes_str ''create a 900 mm wide, 1200 mm high double-hung window with 900 mm sill height'' ''window''"
  by code_simp+

lemma window_style_constant:
  "WindowStyle (WindowParams (convertSIRToAPSParams s)) = ''DoubleHungWindow''"
  by (simp add: convertSIRToAPSParams_def convert_try_def default_aps_params_def
      windowStyleName_def Let_def split: option.splits)

text \<open>
  C5. The text "Create a 900 mm wide, 1200 mm high double-hung window with 900 mm sill
  height" gives, on the heuristic path, a SIR of category Windows whose parameters are
  Width = 900/304.8 (about 2.9528), Height = 1200/304.8 (about 3.9370),
  SillHeight = 900/304.8, Inset = 0.05 (the default), and its backend window style is
  DoubleHungWindow.
\<close>

theorem spec_prompt_extraction:
  "gr_sir (generateDemoSIR spec_prompt sessionId now) =
     demoFamily ''Generated Window'' ''Windows'' ''Parametric window family''
       [demo_mainBody (900 / 304.8) (1200 / 304.8) 100 ''Default'',
        demo_glassPane (900 / 304.8) (1200 / 304.8) ''Default'']
       (demo_parameters (900 / 304.8) (1200 / 304.8) (900 / 304.8) 0.05 ''Default'' ''Default'')
       ''Default'' ''Default''
   \<and> map_option category (sir_familyMetadata (gr_sir (generateDemoSIR spec_prompt sessionId now)))
       = Some ''Windows''
   \<and> map_option (map (\<lambda>p. (fp_name p, fp_defaultValue p)))
        (familyParameters (demo_parameters (900 / 304.8) (1200 / 304.8) (900 / 304.8) 0.05
                             ''Default'' ''Default''))
       = Some [(''Width'', JNum (900 / 304.8)), (''Height'', JNum (1200 / 304.8)),
               (''SillHeight'', JNum (900 / 304.8)), (''Inset'', JNum 0.05),
               (''GlassPaneMaterial'', JStr ''Default''), (''SashMaterial'', JStr ''Default'')]
   \<and> WindowStyle (WindowParams (convertSIRToAPSParams
         (gr_sir (generateDemoSIR spec_prompt sessionId now)))) = ''DoubleHungWindow''
   \<and> \<bar>900 / 304.8 - 2.9528\<bar> < (0.00005 :: rat)
   \<and> \<bar>1200 / 304.8 - 3.9370\<bar> < (0.00005 :: rat)"
proof -
  have "gr_sir (generateDemoSIR spec_prompt sessionId now) =
     demoFamily ''Generated Window'' ''Windows'' ''Parametric window family''
       [demo_mainBody (900 / 304.8) (1200 / 304.8) 100 ''Default'',
        demo_glassPane (900 / 304.8) (1200 / 304.8) ''Default'']
       (demo_parameters (900 / 304.8) (1200 / 304.8) (900 / 304.8) 0.05 ''Default'' ''Default'')
       ''Default'' ''Default''"
    unfolding generateDemoSIR_def Let_def lower_spec_prompt spec_prompt_width spec_prompt_height
      spec_prompt_sillHeight spec_prompt_inset spec_prompt_materials
    using spec_prompt_category by simp
  moreover have "map_option category (sir_familyMetadata
       (demoFamily ''Generated Window'' ''Windows'' ''Parametric window family'' e p g s))
       = Some ''Windows''" for e p g s
    by (simp add: demoFamily_def)
  moreover have "map_option (map (\<lambda>p. (fp_name p, fp_defaultValue p)))
        (familyParameters (demo_parameters (900 / 304.8) (1200 / 304.8) (900 / 304.8) 0.05
                             ''Default'' ''Default''))
       = Some [(''Width'', JNum (900 / 304.8)), (''Height'', JNum (1200 / 304.8)),
               (''SillHeight'', JNum (900 / 304.8)), (''Inset'', JNum 0.05),
               (''GlassPaneMaterial'', JStr ''Default''), (''SashMaterial'', JStr ''Default'')]"
    by (simp add: demo_parameters_def)
  moreover have "\<bar>900 / 304.8 - 2.9528\<bar> < (0.00005 :: rat)" "\<bar>1200 / 304.8 - 3.9370\<bar> < (0.00005 :: rat)"
    by simp_all
  ultimately show ?thesis
    using window_style_constant by simp
qed

text \<open>
  C6. The width and height sent to the backend are the default values of the first
  family parameters whose names contain "width" and "height"; with no such parameter
  the claim expects the defaults 2 ft and 4 ft. The code gives 200 and 1100 there
  (2 and 4 only when the conversion throws): evaluated on a window SIR whose only
  parameter is Depth.
\<close>

theorem missing_dimensions_fallback:
  "Types (WindowParams (convertSIRToAPSParams sir_without_dimensions)) =
     [\<lparr> TypeName = ''Type 1'', WindowWidth = JNum 200, WindowHeight = JNum 1100,
        WindowInset = 0.05, WindowSillHeight = 3 \<rparr>]"
  by code_simp

lemma converted_dimensions:
  assumes "convert_try s = Some a"
  shows "\<exists>ps. sir_parameters s = Some ps
     \<and> map WindowWidth (Types (WindowParams a)) =
         [find_default_or (\<lambda>p. includes_str (toLowerCase (fp_name p)) ''width'')
            (case familyParameters ps of Some l \<Rightarrow> l | None \<Rightarrow> []) (JNum 200)]
     \<and> map WindowHeight (Types (WindowParams a)) =
         [find_default_or (\<lambda>p. includes_str (toLowerCase (fp_name p)) ''height'')
            (case familyParameters ps of Some l \<Rightarrow> l | None \<Rightarrow> []) (JNum 1100)]"
  using assms
  by (auto simp: convert_try_def Let_def split: option.splits if_splits)

section \<open>Properties of the SIR generator\<close>




text \<open>
  The extractor's result has \<open>visibility\<close> where the schema has
  \<open>visibilitySettings\<close>, so it would not pass the generator's own \<open>validateSIR\<close>; the
  generator does not validate it.
\<close>

lemma generateDemoSIR_not_validated:
  "validateSIR (gr_sir (generateDemoSIR userPrompt sessionId now))
     = Some ''Missing required SIR field: visibilitySettings''"
  by (simp add: generateDemoSIR_def demoFamily_def validateSIR_def Let_def)





text \<open>
  A prompt that is not a string is outside the documented type of \<open>generateSIR\<close>.
  When the model call fails on such a prompt, the fallback throws and the error
  leaves \<open>generateSIR\<close>.
\<close>

lemma non_string_prompt_propagates:
  "generateSIR False json_parse (ModelThrows error) nh now (JNum 5) sessionId h
     = Inl (not_a_function ''userPrompt.toLowerCase'')"
  by (simp add: generateSIR_def generateSIR_try_def generateDemoSIR_call_def Let_def)








section \<open>Properties of the code emitter\<close>

lemma startsWith_append: "startsWith (m @ xs) m"
  by (simp add: startsWith_def)

lemma rmatch_seqs_Cons: "rmatch (seqs (r # rs)) st = concat (map (rmatch (seqs rs)) (rmatch r st))"
  by (simp add: seqs_def)

lemma rmatch_seqs_Nil: "rmatch (seqs []) st = [st]"
  by (cases st) (simp add: seqs_def startsWith_def)

lemma rmatch_to_end_of_line_none:
  "\<not> startsWith s m \<Longrightarrow> rmatch (to_end_of_line m) (s, c) = []"
  by (simp add: to_end_of_line_def rmatch_seqs_Cons)

lemma js_remove_all_skip:
  "\<not> startsWith (x # xs) m \<Longrightarrow>
   js_remove_all (to_end_of_line m) (x # xs) = x # js_remove_all (to_end_of_line m) xs"
  by (subst js_remove_all.simps) (simp add: rmatch_to_end_of_line_none)

lemma takeWhile_line:
  "no_line_break xs \<Longrightarrow> takeWhile (in_cls Dot) (xs @ CHR 0x0A # R) = xs"
  by (induction xs) (simp_all add: no_line_break_def is_line_terminator_def)

lemma runs_line:
  "no_line_break xs \<Longrightarrow>
   runs 0 Dot (xs @ CHR 0x0A # R, c) =
     (CHR 0x0A # R, c) # map (\<lambda>n. (drop n (xs @ CHR 0x0A # R), c)) (rev [0 ..< length xs])"
  by (simp add: runs_def takeWhile_line)

lemma rmatch_to_end_of_line_line:
  assumes "no_line_break xs"
  shows "\<exists>rest. rmatch (to_end_of_line m) (m @ xs @ CHR 0x0A # R, c) = (R, c) # rest"
proof -
  have lit: "rmatch (Lit m) (m @ xs @ CHR 0x0A # R, c) = [(xs @ CHR 0x0A # R, c)]"
    by (simp add: startsWith_def)
  have nl: "rmatch (seqs [Lit [CHR 0x0A]]) (CHR 0x0A # R, c) = [(R, c)]"
    by (simp add: rmatch_seqs_Cons rmatch_seqs_Nil startsWith_def)
  have star: "rmatch (Star Dot) (xs @ CHR 0x0A # R, c) =
     (CHR 0x0A # R, c) # map (\<lambda>n. (drop n (xs @ CHR 0x0A # R), c)) (rev [0 ..< length xs])"
    by (simp add: runs_line [OF assms])
  have "rmatch (to_end_of_line m) (m @ xs @ CHR 0x0A # R, c) =
          concat (map (rmatch (seqs [Lit [CHR 0x0A]])) (rmatch (Star Dot) (xs @ CHR 0x0A # R, c)))"
    unfolding to_end_of_line_def rmatch_seqs_Cons [of "Lit m"] lit
    by (simp add: rmatch_seqs_Cons [of "Star Dot"] del: rmatch.simps)
  also have "\<dots> = (R, c) # concat (map (rmatch (seqs [Lit [CHR 0x0A]]))
       (map (\<lambda>n. (drop n (xs @ CHR 0x0A # R), c)) (rev [0 ..< length xs])))"
    unfolding star by (simp add: nl del: rmatch.simps)
  finally show ?thesis by blast
qed

lemma js_remove_all_line:
  assumes "no_line_break xs"
  shows "js_remove_all (to_end_of_line m) (m @ xs @ CHR 0x0A # R)
           = js_remove_all (to_end_of_line m) R"
proof -
  from rmatch_to_end_of_line_line [OF assms] obtain rest where
    r: "rmatch (to_end_of_line m) (m @ xs @ CHR 0x0A # R, []) = (R, []) # rest" by blast
  obtain y ys where s: "m @ xs @ CHR 0x0A # R = y # ys" by (cases "m @ xs @ CHR 0x0A # R") auto
  have len: "length R < length (y # ys)" unfolding s [symmetric] by simp
  show ?thesis
    unfolding s
    by (subst js_remove_all.simps) (use r len in \<open>simp add: s\<close>)
qed


lemma startsWith_line:
  assumes "no_line_break m"
  shows "startsWith (l @ CHR 0x0A # R) m \<longleftrightarrow> startsWith l m"
proof (cases "length m \<le> length l")
  case True
  then show ?thesis by (simp add: startsWith_def)
next
  case False
  then have "\<not> startsWith l m"
    by (auto simp: startsWith_def dest: arg_cong [where f = length])
  moreover have "\<not> startsWith (l @ CHR 0x0A # R) m"
  proof
    assume "startsWith (l @ CHR 0x0A # R) m"
    then have "m = take (length m) (l @ CHR 0x0A # R)" by (simp add: startsWith_def)
    also have "\<dots> = l @ CHR 0x0A # take (length m - Suc (length l)) R"
      using False by (simp add: take_Cons')
    finally have "CHR 0x0A \<in> set m" by (metis in_set_conv_decomp)
    with assms show False by (auto simp: no_line_break_def list_all_iff is_line_terminator_def)
  qed
  ultimately show ?thesis by simp
qed

lemma js_remove_all_one_line:
  assumes "no_line_break l" and "no_line_break m" and "m \<noteq> []"
  shows "js_remove_all (to_end_of_line m) (l @ CHR 0x0A # R)
           = kept m l @ js_remove_all (to_end_of_line m) R"
  using assms(1)
proof (induction l)
  case Nil
  have "\<not> startsWith (CHR 0x0A # R) m"
    using startsWith_line [OF assms(2), of "[]" R] assms(3) by (simp add: startsWith_def)
  then show ?case by (simp add: js_remove_all_skip)
next
  case (Cons c l)
  then have l: "no_line_break l" by (simp add: no_line_break_def)
  show ?case
  proof (cases "startsWith (c # l) m")
    case True
    then obtain xs where xs: "c # l = m @ xs"
      by (metis append_take_drop_id startsWith_def)
    with Cons.prems have "no_line_break xs"
      by (simp add: no_line_break_def list_all_iff)
    then have "js_remove_all (to_end_of_line m) ((m @ xs) @ CHR 0x0A # R)
                 = js_remove_all (to_end_of_line m) R"
      using js_remove_all_line [of xs m R] by simp
    then have "js_remove_all (to_end_of_line m) ((c # l) @ CHR 0x0A # R)
                 = js_remove_all (to_end_of_line m) R"
      unfolding xs .
    with True show ?thesis by simp
  next
    case False
    then have "\<not> startsWith ((c # l) @ CHR 0x0A # R) m"
      by (simp only: startsWith_line [OF assms(2)] not_False_eq_True)
    then have "js_remove_all (to_end_of_line m) ((c # l) @ CHR 0x0A # R)
                 = c # js_remove_all (to_end_of_line m) (l @ CHR 0x0A # R)"
      using js_remove_all_skip [of c "l @ CHR 0x0A # R" m] by simp
    with False Cons.IH [OF l] show ?thesis by simp
  qed
qed

lemma js_remove_all_lines:
  assumes "list_all no_line_break ls" and "no_line_break m" and "m \<noteq> []"
  shows "js_remove_all (to_end_of_line m) (concat (map (\<lambda>l. l @ [CHR 0x0A]) ls) @ R)
           = concat (map (kept m) ls) @ js_remove_all (to_end_of_line m) R"
  using assms(1)
proof (induction ls)
  case Nil
  then show ?case by simp
next
  case (Cons l ls)
  then have l: "no_line_break l" and ls: "list_all no_line_break ls" by simp_all
  have "js_remove_all (to_end_of_line m) (concat (map (\<lambda>l. l @ [CHR 0x0A]) (l # ls)) @ R)
      = js_remove_all (to_end_of_line m)
          (l @ CHR 0x0A # (concat (map (\<lambda>l. l @ [CHR 0x0A]) ls) @ R))"
    by simp
  also have "\<dots> = kept m l @ js_remove_all (to_end_of_line m)
                                (concat (map (\<lambda>l. l @ [CHR 0x0A]) ls) @ R)"
    by (rule js_remove_all_one_line [OF l assms(2,3)])
  finally show ?case using Cons.IH [OF ls] by simp
qed

lemma join_with_split:
  "ys \<noteq> [] \<Longrightarrow> join_with sep (xs @ ys) = concat (map (\<lambda>l. l @ sep) xs) @ join_with sep ys"
proof (induction xs)
  case Nil
  then show ?case by simp
next
  case (Cons x xs)
  then obtain z zs where "xs @ ys = z # zs" by (cases "xs @ ys") auto
  with Cons show ?case by simp
qed


lemma removed_in_imports:
  assumes "no_line_break now" and "no_line_break m" and "m \<noteq> []"
  shows "js_remove_all (to_end_of_line m) (generateImports now md @ R)
           = concat (map (kept m) (take 12 (imports_header [] md)))
             @ kept m (''# Generated at: '' @ now)
             @ js_remove_all (to_end_of_line m)
                 (join_lines ([''# Family: '' @ familyName md, []] @ category_imports md) @ R)"
proof -
  define pre where "pre = take 12 (imports_header [] md)"
  let ?stamp = "''# Generated at: '' @ now"
  let ?tail = "[''# Family: '' @ familyName md, []] @ category_imports md"
  have pre: "list_all no_line_break pre"
    by (simp add: pre_def imports_header_def no_line_break_def is_line_terminator_def)
  have "no_line_break ?stamp"
    using assms(1) by (simp add: no_line_break_def is_line_terminator_def)
  with pre have all: "list_all no_line_break (pre @ [?stamp])" by simp
  have "generateImports now md = join_with [CHR 0x0A] ((pre @ [?stamp]) @ ?tail)"
    by (simp add: generateImports_def join_lines_def pre_def imports_header_def)
  also have "\<dots> = concat (map (\<lambda>l. l @ [CHR 0x0A]) (pre @ [?stamp]))
                     @ join_with [CHR 0x0A] ?tail"
    by (rule join_with_split) simp
  finally have gi: "generateImports now md
      = concat (map (\<lambda>l. l @ [CHR 0x0A]) (pre @ [?stamp])) @ join_lines ?tail"
    by (simp only: join_lines_def)
  show ?thesis
    unfolding gi append_assoc js_remove_all_lines [OF all assms(2,3)] pre_def [symmetric]
    by (simp del: kept.simps)
qed

lemma stripped_imports:
  assumes "no_line_break now"
  shows "js_remove_all (to_end_of_line ''# '') (generateImports now md @ R)
           = js_remove_all (to_end_of_line ''# '') (generateImports [] md @ R)"
proof -
  have m: "no_line_break ''# ''" "''# '' \<noteq> []"
    by (simp_all add: no_line_break_def is_line_terminator_def)
  have e: "no_line_break []" by (simp add: no_line_break_def)
  have k: "kept ''# '' (''# Generated at: '' @ t) = []" for t
    by (simp add: startsWith_def)
  show ?thesis
    unfolding removed_in_imports [OF assms m] removed_in_imports [OF e m] k ..
qed

lemma combine_imports_first:
  "combineCodeSections (generate_sections num now s md g ps)
     = generateImports now md @ [CHR 0x0A, CHR 0x0A]
       @ join_with [CHR 0x0A, CHR 0x0A]
           [generateFamilySetup num md, generateReferencePlanes num g, generateParameters num ps,
            generateGeometry num g, generateConstraints num g, generateMaterials s,
            generateFamilyTypes num ps, generateVisibilitySettings s, generateValidationCode s]"
  by (simp add: combineCodeSections_def generate_sections_def)

lemma low_lod_code_independent:
  assumes "lodLevel md \<le> 200" and "no_line_break t1" and "no_line_break t2"
  shows "applyPerformanceOptimizations md (combineCodeSections (generate_sections num t1 s md g ps))
       = applyPerformanceOptimizations md (combineCodeSections (generate_sections num t2 s md g ps))"
  unfolding applyPerformanceOptimizations_def Let_def combine_imports_first
  using assms(1) stripped_imports [OF assms(2), of md] stripped_imports [OF assms(3), of md]
  by simp

lemma sections_apart_from_imports:
  "(generate_sections num t1 s md g ps) \<lparr> sec_imports := [] \<rparr>
     = (generate_sections num t2 s md g ps) \<lparr> sec_imports := [] \<rparr>"
  by (simp add: generate_sections_def)

text \<open>
  C7 (as the code has it). The emitter is deterministic up to its two clock readings.
  Two invocations on the same SIR either both fail with the same error or both
  succeed; then they agree on every section but the imports and on every metadata
  field but generatedAt and codeLength, and they produce the identical code string
  when the imports were stamped at the same instant, and also, for a SIR of LOD 200
  or less, whenever the stamps hold no line break (the comment stripping removes the
  stamped line).
\<close>

theorem emitter_deterministic_up_to_clock:
  "(case (translateSIRToCode num t1 u1 s, translateSIRToCode num t2 u2 s) of
      (Inl e1, Inl e2) \<Rightarrow> e1 = e2
    | (Inr a, Inr b) \<Rightarrow>
        em_sections a \<lparr> sec_imports := [] \<rparr> = em_sections b \<lparr> sec_imports := [] \<rparr>
        \<and> em_metadata a \<lparr> em_generatedAt := [], em_codeLength := 0 \<rparr>
            = em_metadata b \<lparr> em_generatedAt := [], em_codeLength := 0 \<rparr>
        \<and> (t1 = t2 \<longrightarrow> em_code a = em_code b)
        \<and> (t1 = t2 \<and> u1 = u2 \<longrightarrow> a = b)
        \<and> (em_lodLevel (em_metadata a) \<le> 200 \<and> no_line_break t1 \<and> no_line_break t2
             \<longrightarrow> em_code a = em_code b)
    | _ \<Rightarrow> False)"
proof (cases "emitter_validateSIR s")
  case (Some err)
  then show ?thesis by (simp add: translateSIRToCode_def)
next
  case None
  then obtain md g ps where parts: "sir_familyMetadata s = Some md"
      "sir_geometryDefinition s = Some g" "sir_parameters s = Some ps"
    by (auto simp: emitter_validateSIR_def split: option.splits if_splits)
  show ?thesis
    using low_lod_code_independent [of md t1 t2 num s g ps]
    by (simp add: translateSIRToCode_def None parts Let_def generateExecutionMetadata_def
          sections_apart_from_imports)
qed


lemma valid_parts:
  assumes "emitter_validateSIR s = None"
  shows "\<exists>md g ps. sir_familyMetadata s = Some md \<and> sir_geometryDefinition s = Some g
     \<and> sir_parameters s = Some ps"
  using assms
  by (auto simp: emitter_validateSIR_def split: option.splits if_splits)

lemma translate_valid:
  assumes "emitter_validateSIR s = None"
    and "sir_familyMetadata s = Some md" and "sir_geometryDefinition s = Some g"
    and "sir_parameters s = Some ps"
  shows "translateSIRToCode num t u s =
         Inr \<lparr> em_code = applyPerformanceOptimizations md
                             (combineCodeSections (generate_sections num t s md g ps)),
               em_metadata = generateExecutionMetadata u md g ps
                  (applyPerformanceOptimizations md
                     (combineCodeSections (generate_sections num t s md g ps))),
               em_sections = generate_sections num t s md g ps \<rparr>"
  using assms by (simp add: translateSIRToCode_def Let_def)

lemma high_lod_optimizations:
  "lodLevel md > 200 \<Longrightarrow>
   applyPerformanceOptimizations md code = js_remove_all (to_end_of_line ''Array.Create'') code"
  by (simp add: applyPerformanceOptimizations_def minimize_voids_def optimize_arrays_def)

text \<open>
  The same SIR of LOD 300 emitted five seconds apart: the code strings differ (in
  the line \<open># Generated at:\<close>), and so do the metadata.
\<close>

theorem timestamp_counterexample:
  "(case (translateSIRToCode whole_number ''2024-01-01T00:00:00.000Z'' ''2024-01-01T00:00:00.000Z''
            clean_door_sir,
          translateSIRToCode whole_number ''2024-01-01T00:00:05.000Z'' ''2024-01-01T00:00:05.000Z''
            clean_door_sir) of
      (Inr a, Inr b) \<Rightarrow> em_code a \<noteq> em_code b \<and> em_metadata a \<noteq> em_metadata b
    | _ \<Rightarrow> False)"
proof -
  let ?t1 = "''2024-01-01T00:00:00.000Z''" and ?t2 = "''2024-01-01T00:00:05.000Z''"
  have v: "emitter_validateSIR clean_door_sir = None" by code_simp
  from valid_parts [OF v] obtain md g ps where
    md: "sir_familyMetadata clean_door_sir = Some md" and g: "sir_geometryDefinition clean_door_sir = Some g"
    and ps: "sir_parameters clean_door_sir = Some ps"
    by blast
  note tr = translate_valid [OF v md g ps]
  have lod: "lodLevel md > 200"
    using md by (auto simp: clean_door_sir_def)
  have m: "no_line_break ''Array.Create''" "''Array.Create'' \<noteq> []"
    by (simp_all add: no_line_break_def is_line_terminator_def)
  have n: "no_line_break ?t1" "no_line_break ?t2"
    by (simp_all add: no_line_break_def is_line_terminator_def)
  have k1: "kept ''Array.Create'' (''# Generated at: '' @ ?t1)
              = ''# Generated at: 2024-01-01T00:00:00.000Z'' @ [CHR 0x0A]"
    by (simp add: startsWith_def)
  have k2: "kept ''Array.Create'' (''# Generated at: '' @ ?t2)
              = ''# Generated at: 2024-01-01T00:00:05.000Z'' @ [CHR 0x0A]"
    by (simp add: startsWith_def)
  have code: "applyPerformanceOptimizations md
                (combineCodeSections (generate_sections whole_number ?t1 clean_door_sir md g ps))
            \<noteq> applyPerformanceOptimizations md
                (combineCodeSections (generate_sections whole_number ?t2 clean_door_sir md g ps))"
    unfolding high_lod_optimizations [OF lod] combine_imports_first
      removed_in_imports [OF n(1) m] removed_in_imports [OF n(2) m] k1 k2
    by simp
  show ?thesis
    unfolding tr using code by (simp add: generateExecutionMetadata_def)
qed

theorem emitter_deterministic_up_to_clock_witness:
  "\<exists>a b. translateSIRToCode whole_number ''2024-01-01T00:00:00.000Z'' ''2024-01-01T00:00:00.001Z''
            sir_without_dimensions = Inr a
     \<and> translateSIRToCode whole_number ''2024-01-01T00:00:05.000Z'' ''2024-01-01T00:00:05.001Z''
            sir_without_dimensions = Inr b
     \<and> em_lodLevel (em_metadata a) \<le> 200
     \<and> no_line_break ''2024-01-01T00:00:00.000Z'' \<and> no_line_break ''2024-01-01T00:00:05.000Z''
     \<and> em_code a = em_code b
     \<and> em_sections a \<lparr> sec_imports := [] \<rparr> = em_sections b \<lparr> sec_imports := [] \<rparr>
     \<and> em_generatedAt (em_metadata a) \<noteq> em_generatedAt (em_metadata b)"
proof -
  let ?t1 = "''2024-01-01T00:00:00.000Z''" and ?u1 = "''2024-01-01T00:00:00.001Z''"
  let ?t2 = "''2024-01-01T00:00:05.000Z''" and ?u2 = "''2024-01-01T00:00:05.001Z''"
  have v: "emitter_validateSIR sir_without_dimensions = None" by code_simp
  from valid_parts [OF v] obtain md g ps where
    md: "sir_familyMetadata sir_without_dimensions = Some md" and g: "sir_geometryDefinition sir_without_dimensions = Some g"
    and ps: "sir_parameters sir_without_dimensions = Some ps"
    by blast
  note tr = translate_valid [OF v md g ps]
  have lod: "lodLevel md \<le> 200"
    using md by (auto simp: sir_without_dimensions_def demoFamily_def)
  have n: "no_line_break ?t1" "no_line_break ?t2"
    by (simp_all add: no_line_break_def is_line_terminator_def)
  from emitter_deterministic_up_to_clock [where num = whole_number and ?t1.0 = ?t1 and ?u1.0 = ?u1
      and s = sir_without_dimensions and ?t2.0 = ?t2 and ?u2.0 = ?u2]
  show ?thesis
    unfolding tr [where num = whole_number and t = ?t1 and u = ?u1]
      tr [where num = whole_number and t = ?t2 and u = ?u2]
    using lod n by (simp add: generateExecutionMetadata_def)
qed

end
